theory Spec2Isabelle
  imports Main "HOL-Library.AList"
begin

section \<open>Strings, JSON values and format validation\<close>

text \<open>
  A JavaScript string is a sequence of UTF-16 code units; the room-id grammar of
  \<^verbatim>\<open>server.js\<close> contains the dice faces U+2680 .. U+2685, which are single code
  units outside ASCII, so strings that come from clients are lists of code units.
  \<open>lit\<close> turns an ASCII literal of the source into such a string.
\<close>

type_synonym jsstr = "nat list"

type_synonym ws = nat

definition lit :: "string \<Rightarrow> jsstr" where
  "lit s = map of_char s"

datatype json =
    JNull
  | JBool bool
  | JNum int
  | JStr jsstr
  | JArr "json list"
  | JObj "(jsstr \<times> json) list"

text \<open>Property access \<^verbatim>\<open>message.key\<close> on a parsed JSON value; \<open>None\<close> is \<^verbatim>\<open>undefined\<close>.\<close>

fun field :: "json \<Rightarrow> jsstr \<Rightarrow> json option" where
  "field (JObj kvs) k = map_of kvs k"
| "field _ k = None"

text \<open>
  \<^verbatim>\<open>!message || typeof message.type !== 'string'\<close>: the message type is present only
  when the value is an object whose \<^verbatim>\<open>type\<close> is a string.
\<close>

definition msg_type :: "json \<Rightarrow> jsstr option" where
  "msg_type m = (case field m (lit ''type'') of Some (JStr t) \<Rightarrow> Some t | _ \<Rightarrow> None)"

text \<open>Truthiness of a value that is \<^verbatim>\<open>null\<close>/\<^verbatim>\<open>undefined\<close> or a string.\<close>

fun truthy :: "jsstr option \<Rightarrow> bool" where
  "truthy None = False"
| "truthy (Some x) = (x \<noteq> [])"

definition is_hex_lower :: "nat \<Rightarrow> bool" where
  "is_hex_lower c = ((97 \<le> c \<and> c \<le> 102) \<or> (48 \<le> c \<and> c \<le> 57))"

definition is_token_char :: "nat \<Rightarrow> bool" where
  "is_token_char c = (is_hex_lower c \<or> (65 \<le> c \<and> c \<le> 70) \<or> c = 45)"

definition is_dice :: "nat \<Rightarrow> bool" where
  "is_dice c = (9856 \<le> c \<and> c \<le> 9861)"

definition is_room_char :: "nat \<Rightarrow> bool" where
  "is_room_char c =
     ((97 \<le> c \<and> c \<le> 122) \<or> (65 \<le> c \<and> c \<le> 90) \<or> (48 \<le> c \<and> c \<le> 57) \<or> c = 45 \<or> c = 95)"

text \<open>\<^verbatim>\<open>/^[a-f0-9-]{32,36}$/i\<close> on a string, false on anything else.\<close>

fun isValidSessionToken :: "json option \<Rightarrow> bool" where
  "isValidSessionToken (Some (JStr t)) =
     (32 \<le> length t \<and> length t \<le> 36 \<and> list_all is_token_char t)"
| "isValidSessionToken _ = False"

text \<open>Dice pattern \<^verbatim>\<open>{4,10}\<close> first, then the legacy alphanumeric format of 4 to 32 units.\<close>

fun isValidRoomId :: "json option \<Rightarrow> bool" where
  "isValidRoomId (Some (JStr r)) =
     (if 4 \<le> length r \<and> length r \<le> 10 \<and> list_all is_dice r then True
      else length r \<ge> 4 \<and> length r \<le> 32 \<and> r \<noteq> [] \<and> list_all is_room_char r)"
| "isValidRoomId _ = False"

fun isValidPeerId :: "json option \<Rightarrow> bool" where
  "isValidPeerId (Some (JStr p)) = (length p = 32 \<and> p \<noteq> [] \<and> list_all is_hex_lower p)"
| "isValidPeerId _ = False"

text \<open>The string held by a value, if it is one.\<close>

fun str_of :: "json option \<Rightarrow> jsstr option" where
  "str_of (Some (JStr t)) = Some t"
| "str_of _ = None"

text \<open>
  \<^verbatim>\<open>{ ...message, fromPeerId: peerId }\<close>: the own properties of the message, with
  \<^verbatim>\<open>fromPeerId\<close> overwritten in place or appended.
\<close>

fun with_from :: "json \<Rightarrow> jsstr \<Rightarrow> json" where
  "with_from (JObj kvs) p = JObj (AList.update (lit ''fromPeerId'') (JStr p) kvs)"
| "with_from _ p = JObj [(lit ''fromPeerId'', JStr p)]"

section \<open>Data model\<close>

record rate =
  r_count :: nat
  windowStart :: int

record session =
  s_peerId :: jsstr
  s_roomId :: "jsstr option"
  lastSeen :: int

record peer =
  p_roomId :: "jsstr option"
  p_ip :: "string option"
  p_sessionToken :: "jsstr option"

record room =
  hostPeerId :: "jsstr option"
  members :: "jsstr list"
  createdAt :: "int option"

text \<open>The variables \<^verbatim>\<open>peerId\<close>, \<^verbatim>\<open>sessionToken\<close> and \<^verbatim>\<open>ip\<close> closed over by the handlers of one connection.\<close>

record conn =
  c_peerId :: "jsstr option"
  c_sessionToken :: "jsstr option"
  c_ip :: string

text \<open>Messages the server sends.\<close>

datatype out_msg =
    ErrorMsg string string
  | PeerIdRestored jsstr "jsstr option"
  | PeerIdNew jsstr
  | HeartbeatAck
  | RoomInfoInvalid
  | RoomInfoExists jsstr "jsstr option"
  | RoomInfoAbsent jsstr
  | RegisterHostFailed "json option" string
  | RegisterHostSuccess jsstr
  | ClaimHostFailed "json option" string
  | ClaimHostSuccess jsstr
  | JoinRoomFailed "json option" string
  | JoinRoomSuccess jsstr "jsstr option"
  | PeerConnecting jsstr
  | HostDisconnected jsstr
  | HostReconnected jsstr jsstr
  | RoomClosed jsstr string
  | Relayed json

text \<open>
  The module-level maps of \<^verbatim>\<open>server.js\<close>, the three stores behind \<^verbatim>\<open>storage\<close>, the
  per-connection variables, the sockets whose \<^verbatim>\<open>readyState\<close> is \<^verbatim>\<open>OPEN\<close>, the timers
  that \<^verbatim>\<open>setTimeout\<close> has armed and not yet fired or cleared (room and due time), and
  everything sent so far, in order.
\<close>

record state =
  wsConnections :: "jsstr \<rightharpoonup> ws"
  hostWsConnections :: "jsstr \<rightharpoonup> ws"
  connectionsByIp :: "string \<rightharpoonup> ws list"
  messageRates :: "jsstr \<rightharpoonup> rate"
  cleanupTimers :: "jsstr \<rightharpoonup> nat"
  sessions :: "(jsstr \<times> session) list"
  peers :: "jsstr \<rightharpoonup> peer"
  rooms :: "jsstr \<rightharpoonup> room"
  conns :: "ws \<rightharpoonup> conn"
  open_ws :: "ws set"
  timerQueue :: "nat \<rightharpoonup> (jsstr \<times> int)"
  nextTimer :: nat
  outbox :: "(ws \<times> out_msg) list"

definition init_state :: state where
  "init_state = \<lparr> wsConnections = Map.empty, hostWsConnections = Map.empty,
     connectionsByIp = Map.empty, messageRates = Map.empty, cleanupTimers = Map.empty,
     sessions = [], peers = Map.empty, rooms = Map.empty, conns = Map.empty,
     open_ws = {}, timerQueue = Map.empty, nextTimer = 0, outbox = [] \<rparr>"

definition windowMs :: int where
  "windowMs = 1000"

definition maxMessages :: nat where
  "maxMessages = 50"

definition maxConnectionsPerIp :: nat where
  "maxConnectionsPerIp = 10"

definition ROOM_CLEANUP_DELAY :: int where
  "ROOM_CLEANUP_DELAY = 30000"

section \<open>The storage contract\<close>

text \<open>
  Modelled from the spec: the module \<^verbatim>\<open>./state-storage\<close> (\<^verbatim>\<open>createStorage\<close>) is not among
  the sources. The spec gives the Session Ledger as a store
  \<open>sessionToken \<rightarrow> {peerId, roomId, lastSeen}\<close> with create/get by token, refresh of
  last-seen and bind/unbind of the session's room.
\<close>

definition getSession :: "state \<Rightarrow> jsstr \<Rightarrow> session option" where
  "getSession s tok = map_of (sessions s) tok"

definition setSession :: "jsstr \<Rightarrow> session \<Rightarrow> state \<Rightarrow> state" where
  "setSession tok v s = s\<lparr>sessions := AList.update tok v (sessions s)\<rparr>"

definition updateSessionLastSeen :: "jsstr \<Rightarrow> int \<Rightarrow> state \<Rightarrow> state" where
  "updateSessionLastSeen tok now s =
     (case map_of (sessions s) tok of
        None \<Rightarrow> s
      | Some v \<Rightarrow> s\<lparr>sessions := AList.update tok (v\<lparr>lastSeen := now\<rparr>) (sessions s)\<rparr>)"

definition updateSessionRoom :: "jsstr option \<Rightarrow> jsstr option \<Rightarrow> state \<Rightarrow> state" where
  "updateSessionRoom tok r s =
     (case tok of
        None \<Rightarrow> s
      | Some t \<Rightarrow>
          (case map_of (sessions s) t of
             None \<Rightarrow> s
           | Some v \<Rightarrow> s\<lparr>sessions := AList.update t (v\<lparr>s_roomId := r\<rparr>) (sessions s)\<rparr>))"

text \<open>
  Modelled from the spec: the peer part of the missing storage module, "get/set/delete
  peer-to-room mapping, existence check for a peer identity".
\<close>

definition getPeer :: "state \<Rightarrow> jsstr \<Rightarrow> peer option" where
  "getPeer s p = peers s p"

definition setPeer :: "jsstr \<Rightarrow> peer \<Rightarrow> state \<Rightarrow> state" where
  "setPeer p v s = s\<lparr>peers := (peers s)(p \<mapsto> v)\<rparr>"

definition deletePeer :: "jsstr \<Rightarrow> state \<Rightarrow> state" where
  "deletePeer p s = s\<lparr>peers := (peers s)(p := None)\<rparr>"

definition hasPeer :: "state \<Rightarrow> jsstr option \<Rightarrow> bool" where
  "hasPeer s p = (case p of None \<Rightarrow> False | Some x \<Rightarrow> peers s x \<noteq> None)"

text \<open>
  Modelled from the spec: the room part of the missing storage module, a store
  \<open>roomId \<rightarrow> {hostPeerId, members, createdAt}\<close>. \<open>setRoom\<close> creates the record with no
  members, or overwrites the fields it is given and keeps the member set, which the
  callers in \<^verbatim>\<open>server.js\<close> read back after \<^verbatim>\<open>setRoom(roomId, { hostPeerId: null })\<close>.
\<close>

definition getRoom :: "state \<Rightarrow> jsstr \<Rightarrow> room option" where
  "getRoom s r = rooms s r"

definition setRoom :: "jsstr \<Rightarrow> jsstr option \<Rightarrow> int option \<Rightarrow> state \<Rightarrow> state" where
  "setRoom r h c s =
     (case rooms s r of
        None \<Rightarrow> s\<lparr>rooms := (rooms s)(r \<mapsto> \<lparr>hostPeerId = h, members = [], createdAt = c\<rparr>)\<rparr>
      | Some v \<Rightarrow>
          s\<lparr>rooms := (rooms s)(r \<mapsto>
               v\<lparr>hostPeerId := h,
                 createdAt := (case c of None \<Rightarrow> createdAt v | Some t \<Rightarrow> Some t)\<rparr>)\<rparr>)"

definition deleteRoom :: "jsstr \<Rightarrow> state \<Rightarrow> state" where
  "deleteRoom r s = s\<lparr>rooms := (rooms s)(r := None)\<rparr>"

definition getRoomMembers :: "state \<Rightarrow> jsstr \<Rightarrow> jsstr list" where
  "getRoomMembers s r = (case rooms s r of None \<Rightarrow> [] | Some v \<Rightarrow> members v)"

definition addRoomMember :: "jsstr \<Rightarrow> jsstr \<Rightarrow> state \<Rightarrow> state" where
  "addRoomMember r p s =
     (case rooms s r of
        None \<Rightarrow> s
      | Some v \<Rightarrow>
          s\<lparr>rooms := (rooms s)(r \<mapsto>
               v\<lparr>members := (if p \<in> set (members v) then members v else members v @ [p])\<rparr>)\<rparr>)"

definition removeRoomMember :: "jsstr \<Rightarrow> jsstr \<Rightarrow> state \<Rightarrow> state" where
  "removeRoomMember r p s =
     (case rooms s r of
        None \<Rightarrow> s
      | Some v \<Rightarrow> s\<lparr>rooms := (rooms s)(r \<mapsto> v\<lparr>members := removeAll p (members v)\<rparr>)\<rparr>)"

text \<open>
  Modelled from the spec: \<^verbatim>\<open>cleanupExpiredSessions\<close> of the missing storage module; a
  session "expires when now - lastSeen exceeds a fixed TTL". It returns the expired
  entries and drops them from the ledger.
\<close>

definition session_expired :: "int \<Rightarrow> int \<Rightarrow> session \<Rightarrow> bool" where
  "session_expired ttl now v = (now - lastSeen v > ttl * 1000)"

definition cleanupExpiredSessions :: "int \<Rightarrow> int \<Rightarrow> state \<Rightarrow> (jsstr \<times> session) list \<times> state" where
  "cleanupExpiredSessions ttl now s =
     (filter (\<lambda>(t, v). session_expired ttl now v) (sessions s),
      s\<lparr>sessions := filter (\<lambda>(t, v). \<not> session_expired ttl now v) (sessions s)\<rparr>)"

section \<open>The broker of \<^verbatim>\<open>server.js\<close>\<close>

subsection \<open>Sending\<close>

definition ws_close :: "ws \<Rightarrow> state \<Rightarrow> state" where
  "ws_close w s = s\<lparr>open_ws := open_ws s - {w}\<rparr>"

definition sendTo :: "ws option \<Rightarrow> out_msg \<Rightarrow> state \<Rightarrow> state" where
  "sendTo w m s =
     (case w of
        None \<Rightarrow> s
      | Some x \<Rightarrow> if x \<in> open_ws s then s\<lparr>outbox := outbox s @ [(x, m)]\<rparr> else s)"

definition sendToPeer :: "jsstr \<Rightarrow> out_msg \<Rightarrow> state \<Rightarrow> state" where
  "sendToPeer p m s =
     (case wsConnections s p of None \<Rightarrow> s | Some w \<Rightarrow> sendTo (Some w) m s)"

definition sendError :: "ws \<Rightarrow> string \<Rightarrow> string \<Rightarrow> state \<Rightarrow> state" where
  "sendError w errorType reason s = sendTo (Some w) (ErrorMsg errorType reason) s"

text \<open>\<^verbatim>\<open>for (const memberId of members) sendToPeer(memberId, m)\<close>\<close>

definition notify_members :: "jsstr list \<Rightarrow> out_msg \<Rightarrow> state \<Rightarrow> state" where
  "notify_members ms m s = fold (\<lambda>memberId. sendToPeer memberId m) ms s"

subsection \<open>Admission guard\<close>

definition checkRateLimit :: "int \<Rightarrow> jsstr \<Rightarrow> state \<Rightarrow> bool \<times> state" where
  "checkRateLimit now p s =
     (let rateData =
            (case messageRates s p of
               None \<Rightarrow> \<lparr>r_count = 0, windowStart = now\<rparr>
             | Some d \<Rightarrow>
                 if now - windowStart d > windowMs then \<lparr>r_count = 0, windowStart = now\<rparr>
                 else d);
          rateData' = rateData\<lparr>r_count := r_count rateData + 1\<rparr>
      in (r_count rateData' \<le> maxMessages,
          s\<lparr>messageRates := (messageRates s)(p \<mapsto> rateData')\<rparr>))"

definition checkConnectionLimit :: "string \<Rightarrow> state \<Rightarrow> bool" where
  "checkConnectionLimit ip s =
     (case connectionsByIp s ip of
        None \<Rightarrow> True
      | Some cs \<Rightarrow> length cs < maxConnectionsPerIp)"

definition trackConnection :: "string \<Rightarrow> ws \<Rightarrow> state \<Rightarrow> state" where
  "trackConnection ip w s =
     (let cs = (case connectionsByIp s ip of None \<Rightarrow> [] | Some xs \<Rightarrow> xs)
      in s\<lparr>connectionsByIp := (connectionsByIp s)(ip \<mapsto> (if w \<in> set cs then cs else cs @ [w]))\<rparr>)"

definition untrackConnection :: "string option \<Rightarrow> ws \<Rightarrow> state \<Rightarrow> state" where
  "untrackConnection ip w s =
     (case ip of
        None \<Rightarrow> s
      | Some a \<Rightarrow>
          (case connectionsByIp s a of
             None \<Rightarrow> s
           | Some cs \<Rightarrow>
               (let cs' = removeAll w cs
                in if cs' = [] then s\<lparr>connectionsByIp := (connectionsByIp s)(a := None)\<rparr>
                   else s\<lparr>connectionsByIp := (connectionsByIp s)(a \<mapsto> cs')\<rparr>)))"

subsection \<open>Cleanup timers\<close>

definition clearTimeout :: "nat \<Rightarrow> state \<Rightarrow> state" where
  "clearTimeout t s = s\<lparr>timerQueue := (timerQueue s)(t := None)\<rparr>"

text \<open>
  The block that register-host, claim-host and the session restore share:
  \<^verbatim>\<open>if (existingTimer) { clearTimeout(existingTimer); cleanupTimers.delete(roomId); }\<close>
\<close>

definition cancelCleanup :: "jsstr \<Rightarrow> state \<Rightarrow> state" where
  "cancelCleanup r s =
     (case cleanupTimers s r of
        None \<Rightarrow> s
      | Some t \<Rightarrow> (clearTimeout t s)\<lparr>cleanupTimers := (cleanupTimers s)(r := None)\<rparr>)"

definition scheduleRoomCleanup :: "int \<Rightarrow> jsstr \<Rightarrow> state \<Rightarrow> state" where
  "scheduleRoomCleanup now r s =
     (case getRoom s r of
        None \<Rightarrow> s
      | Some v \<Rightarrow>
          (let s1 = (case cleanupTimers s r of None \<Rightarrow> s | Some t \<Rightarrow> clearTimeout t s);
               timer = nextTimer s1
           in s1\<lparr>timerQueue := (timerQueue s1)(timer \<mapsto> (r, now + ROOM_CLEANUP_DELAY)),
                 nextTimer := timer + 1,
                 cleanupTimers := (cleanupTimers s1)(r \<mapsto> timer)\<rparr>))"

text \<open>The callback that \<open>scheduleRoomCleanup\<close> hands to \<^verbatim>\<open>setTimeout\<close>.\<close>

definition cleanup_callback :: "jsstr \<Rightarrow> state \<Rightarrow> state" where
  "cleanup_callback r s =
     (case getRoom s r of
        None \<Rightarrow> s
      | Some currentRoom \<Rightarrow>
          if \<not> truthy (hostPeerId currentRoom) then
            (let s1 = notify_members (getRoomMembers s r)
                        (RoomClosed r ''Host did not return'') s;
                 s2 = deleteRoom r s1
             in s2\<lparr>hostWsConnections := (hostWsConnections s2)(r := None),
                   cleanupTimers := (cleanupTimers s2)(r := None)\<rparr>)
          else s)"

definition on_timeout :: "nat \<Rightarrow> state \<Rightarrow> state" where
  "on_timeout t s =
     (case timerQueue s t of
        None \<Rightarrow> s
      | Some (r, due) \<Rightarrow> cleanup_callback r (s\<lparr>timerQueue := (timerQueue s)(t := None)\<rparr>))"

subsection \<open>Handshake\<close>

text \<open>
  The branch "Restore existing session" of the hello handler, in its two parts: the
  identity is taken from the session, the old transport is closed and replaced, and the
  reply is sent; then, "if peer was in a room, restore room membership".
\<close>

definition restore_identity ::
  "int \<Rightarrow> ws \<Rightarrow> conn \<Rightarrow> jsstr \<Rightarrow> session \<Rightarrow> state \<Rightarrow> state" where
  "restore_identity now w c tok existingSession s =
     (let peerId = s_peerId existingSession;
          previousRoomId = s_roomId existingSession;
          s0 = s\<lparr>conns := (conns s)(w \<mapsto> c\<lparr>c_peerId := Some peerId, c_sessionToken := Some tok\<rparr>)\<rparr>;
          s1 = updateSessionLastSeen tok now s0;
          s2 = (case wsConnections s1 peerId of
                  None \<Rightarrow> s1
                | Some oldWs \<Rightarrow> if oldWs \<noteq> w then ws_close oldWs s1 else s1);
          s3 = s2\<lparr>wsConnections := (wsConnections s2)(peerId \<mapsto> w)\<rparr>;
          s4 = setPeer peerId
                 \<lparr>p_roomId = previousRoomId, p_ip = Some (c_ip c), p_sessionToken = Some tok\<rparr> s3
      in sendTo (Some w) (PeerIdRestored peerId previousRoomId) s4)"

definition restore_membership :: "ws \<Rightarrow> jsstr \<Rightarrow> jsstr option \<Rightarrow> state \<Rightarrow> state" where
  "restore_membership w peerId previousRoomId s5 =
     (case previousRoomId of
        None \<Rightarrow> s5
      | Some r \<Rightarrow>
          if r = [] then s5
          else
            (case getRoom s5 r of
               None \<Rightarrow> s5
             | Some room \<Rightarrow>
                 (let s6 = (if peerId \<notin> set (getRoomMembers s5 r) \<and> hostPeerId room \<noteq> Some peerId
                            then addRoomMember r peerId s5 else s5)
                  in if \<not> truthy (hostPeerId room) then
                       (let s7 = setRoom r (Some peerId) None s6;
                            s8 = s7\<lparr>hostWsConnections := (hostWsConnections s7)(r \<mapsto> w)\<rparr>;
                            s9 = cancelCleanup r s8
                        in notify_members (getRoomMembers s9 r) (HostReconnected r peerId) s9)
                     else s6)))"

definition restore_session ::
  "int \<Rightarrow> ws \<Rightarrow> conn \<Rightarrow> jsstr \<Rightarrow> session \<Rightarrow> state \<Rightarrow> state" where
  "restore_session now w c tok existingSession s =
     restore_membership w (s_peerId existingSession) (s_roomId existingSession)
       (restore_identity now w c tok existingSession s)"

text \<open>The branch "Create new session"; \<open>fresh\<close> is the value of \<^verbatim>\<open>generatePeerId()\<close>.\<close>

definition new_session :: "int \<Rightarrow> jsstr \<Rightarrow> ws \<Rightarrow> conn \<Rightarrow> jsstr \<Rightarrow> state \<Rightarrow> state" where
  "new_session now fresh w c tok s =
     (let s0 = s\<lparr>conns := (conns s)(w \<mapsto> c\<lparr>c_peerId := Some fresh, c_sessionToken := Some tok\<rparr>)\<rparr>;
          s1 = setSession tok \<lparr>s_peerId = fresh, s_roomId = None, lastSeen = now\<rparr> s0;
          s2 = s1\<lparr>wsConnections := (wsConnections s1)(fresh \<mapsto> w)\<rparr>;
          s3 = setPeer fresh \<lparr>p_roomId = None, p_ip = Some (c_ip c), p_sessionToken = Some tok\<rparr> s2
      in sendTo (Some w) (PeerIdNew fresh) s3)"

text \<open>
  The block under \<^verbatim>\<open>if (!peerId)\<close>. \<open>ttl\<close> is \<^verbatim>\<open>SESSION_EXPIRY_SECONDS\<close>, a constant
  imported from the storage module. The variable \<^verbatim>\<open>sessionToken\<close> is assigned before
  it is validated; a value that is not a string is recorded as \<open>None\<close>, and it is
  never read before the next hello overwrites it.
\<close>

definition handshake ::
  "int \<Rightarrow> int \<Rightarrow> jsstr \<Rightarrow> ws \<Rightarrow> conn \<Rightarrow> jsstr \<Rightarrow> json \<Rightarrow> state \<Rightarrow> state" where
  "handshake ttl now fresh w c ty message s =
     (if ty \<noteq> lit ''hello'' then
        sendError w ''protocol-error'' ''First message must be hello'' s
      else
        (let sessionToken = field message (lit ''sessionToken'');
             c1 = c\<lparr>c_sessionToken := str_of sessionToken\<rparr>;
             s1 = s\<lparr>conns := (conns s)(w \<mapsto> c1)\<rparr>
         in if \<not> isValidSessionToken sessionToken then
              ws_close w (sendError w ''invalid-session'' ''Invalid session token format'' s1)
            else
              (case str_of sessionToken of
                 None \<Rightarrow> s1
               | Some tok \<Rightarrow>
                   (case getSession s1 tok of
                      None \<Rightarrow> new_session now fresh w c1 tok s1
                    | Some existingSession \<Rightarrow>
                        if now - lastSeen existingSession < ttl * 1000
                        then restore_session now w c1 tok existingSession s1
                        else new_session now fresh w c1 tok s1))))"

subsection \<open>Routing of an authenticated connection\<close>

text \<open>\<^verbatim>\<open>{ ...peer, roomId }\<close>, where \<^verbatim>\<open>peer\<close> may be \<^verbatim>\<open>null\<close>.\<close>

definition peer_with_room :: "peer option \<Rightarrow> jsstr option \<Rightarrow> peer" where
  "peer_with_room pr r =
     (case pr of
        None \<Rightarrow> \<lparr>p_roomId = r, p_ip = None, p_sessionToken = None\<rparr>
      | Some v \<Rightarrow> v\<lparr>p_roomId := r\<rparr>)"

definition query_room :: "ws \<Rightarrow> json \<Rightarrow> state \<Rightarrow> state" where
  "query_room w message s =
     (let roomId = field message (lit ''roomId'')
      in if \<not> isValidRoomId roomId then sendTo (Some w) RoomInfoInvalid s
         else
           (case str_of roomId of
              None \<Rightarrow> s
            | Some r \<Rightarrow>
                (case getRoom s r of
                   Some room \<Rightarrow> sendTo (Some w) (RoomInfoExists r (hostPeerId room)) s
                 | None \<Rightarrow> sendTo (Some w) (RoomInfoAbsent r) s)))"

definition register_host ::
  "int \<Rightarrow> ws \<Rightarrow> jsstr \<Rightarrow> jsstr option \<Rightarrow> peer option \<Rightarrow> json \<Rightarrow> state \<Rightarrow> state" where
  "register_host now w peerId sessionToken pr message s =
     (let roomId = field message (lit ''roomId'')
      in if \<not> isValidRoomId roomId then
           sendTo (Some w) (RegisterHostFailed roomId ''Invalid room ID format'') s
         else
           (case str_of roomId of
              None \<Rightarrow> s
            | Some r \<Rightarrow>
                if (case getRoom s r of
                      None \<Rightarrow> False
                    | Some existingRoom \<Rightarrow> hasPeer s (hostPeerId existingRoom))
                then sendTo (Some w) (RegisterHostFailed roomId ''Room already has a host'') s
                else
                  (let s1 = cancelCleanup r s;
                       s2 = setRoom r (Some peerId) (Some now) s1;
                       s3 = s2\<lparr>hostWsConnections := (hostWsConnections s2)(r \<mapsto> w)\<rparr>;
                       s4 = setPeer peerId (peer_with_room pr (Some r)) s3;
                       s5 = updateSessionRoom sessionToken (Some r) s4
                   in sendTo (Some w) (RegisterHostSuccess r) s5)))"

definition claim_host ::
  "int \<Rightarrow> ws \<Rightarrow> jsstr \<Rightarrow> jsstr option \<Rightarrow> peer option \<Rightarrow> json \<Rightarrow> state \<Rightarrow> state" where
  "claim_host now w peerId sessionToken pr message s =
     (let roomId = field message (lit ''roomId'')
      in if \<not> isValidRoomId roomId then
           sendTo (Some w) (ClaimHostFailed roomId ''Invalid room ID format'') s
         else
           (case str_of roomId of
              None \<Rightarrow> s
            | Some r \<Rightarrow>
                (let room = getRoom s r
                 in if (case room of None \<Rightarrow> True | Some v \<Rightarrow> \<not> hasPeer s (hostPeerId v)) then
                      (let s1 = cancelCleanup r s;
                           s2 = setRoom r (Some peerId)
                                  (case room of None \<Rightarrow> Some now | Some v \<Rightarrow> createdAt v) s1;
                           s3 = s2\<lparr>hostWsConnections := (hostWsConnections s2)(r \<mapsto> w)\<rparr>;
                           s4 = setPeer peerId (peer_with_room pr (Some r)) s3;
                           s5 = updateSessionRoom sessionToken (Some r) s4
                       in sendTo (Some w) (ClaimHostSuccess r) s5)
                    else
                      sendTo (Some w) (ClaimHostFailed roomId ''Room already has active host'') s)))"

definition join_room ::
  "ws \<Rightarrow> jsstr \<Rightarrow> jsstr option \<Rightarrow> peer option \<Rightarrow> json \<Rightarrow> state \<Rightarrow> state" where
  "join_room w peerId sessionToken pr message s =
     (let roomId = field message (lit ''roomId'')
      in if \<not> isValidRoomId roomId then
           sendTo (Some w) (JoinRoomFailed roomId ''Invalid room ID format'') s
         else
           (case str_of roomId of
              None \<Rightarrow> s
            | Some r \<Rightarrow>
                (case getRoom s r of
                   None \<Rightarrow> sendTo (Some w) (JoinRoomFailed roomId ''Room does not exist'') s
                 | Some room \<Rightarrow>
                     if \<not> hasPeer s (hostPeerId room) then
                       sendTo (Some w) (JoinRoomFailed roomId ''Room host is disconnected'') s
                     else
                       (let s1 = setPeer peerId (peer_with_room pr (Some r)) s;
                            s2 = addRoomMember r peerId s1;
                            s3 = updateSessionRoom sessionToken (Some r) s2;
                            s4 = sendTo (Some w) (JoinRoomSuccess r (hostPeerId room)) s3
                        in sendTo (hostWsConnections s4 r) (PeerConnecting peerId) s4))))"

definition relay :: "ws \<Rightarrow> jsstr \<Rightarrow> json \<Rightarrow> state \<Rightarrow> state" where
  "relay w peerId message s =
     (let targetPeerId = field message (lit ''targetPeerId'')
      in if \<not> isValidPeerId targetPeerId then
           sendError w ''invalid-peer'' ''Invalid target peer ID'' s
         else if \<not> hasPeer s (str_of targetPeerId) then
           sendError w ''peer-not-found'' ''Target peer not found'' s
         else
           (case str_of targetPeerId of
              None \<Rightarrow> s
            | Some target \<Rightarrow> sendToPeer target (Relayed (with_from message peerId)) s))"

text \<open>
  The branch "Host is leaving" of leave-room, which the close handler repeats for a
  host whose transport closes.
\<close>

definition host_leaves :: "int \<Rightarrow> jsstr \<Rightarrow> state \<Rightarrow> state" where
  "host_leaves now r s =
     (let s1 = notify_members (getRoomMembers s r) (HostDisconnected r) s;
          s2 = setRoom r None None s1;
          s3 = s2\<lparr>hostWsConnections := (hostWsConnections s2)(r := None)\<rparr>
      in scheduleRoomCleanup now r s3)"

definition leave_room ::
  "int \<Rightarrow> jsstr \<Rightarrow> jsstr option \<Rightarrow> peer option \<Rightarrow> state \<Rightarrow> state" where
  "leave_room now peerId sessionToken pr s =
     (case pr of
        None \<Rightarrow> s
      | Some v \<Rightarrow>
          (case p_roomId v of
             None \<Rightarrow> s
           | Some r \<Rightarrow>
               if r = [] then s
               else
                 (let s1 = (case getRoom s r of
                              None \<Rightarrow> s
                            | Some room \<Rightarrow>
                                if hostPeerId room = Some peerId then host_leaves now r s
                                else removeRoomMember r peerId s);
                      s2 = setPeer peerId (peer_with_room pr None) s1
                  in updateSessionRoom sessionToken None s2)))"

text \<open>The \<^verbatim>\<open>switch (message.type)\<close>, in the order of its cases.\<close>

definition route ::
  "int \<Rightarrow> ws \<Rightarrow> jsstr \<Rightarrow> jsstr option \<Rightarrow> jsstr \<Rightarrow> json \<Rightarrow> state \<Rightarrow> state" where
  "route now w peerId sessionToken ty message s =
     (let pr = getPeer s peerId
      in if ty = lit ''query-room'' then query_room w message s
         else if ty = lit ''register-host'' then register_host now w peerId sessionToken pr message s
         else if ty = lit ''claim-host'' then claim_host now w peerId sessionToken pr message s
         else if ty = lit ''join-room'' then join_room w peerId sessionToken pr message s
         else if ty = lit ''offer'' \<or> ty = lit ''answer'' \<or> ty = lit ''ice-candidate''
           then relay w peerId message s
         else if ty = lit ''leave-room'' then leave_room now peerId sessionToken pr s
         else s)"

text \<open>
  Everything after the handshake block: rate check, then
  \<^verbatim>\<open>if (sessionToken) { await storage.updateSessionLastSeen(sessionToken); }\<close>, then routing.
\<close>

definition refresh_session :: "jsstr option \<Rightarrow> int \<Rightarrow> state \<Rightarrow> state" where
  "refresh_session sessionToken now s =
     (case sessionToken of
        None \<Rightarrow> s
      | Some tok \<Rightarrow> if tok \<noteq> [] then updateSessionLastSeen tok now s else s)"

definition active ::
  "int \<Rightarrow> ws \<Rightarrow> jsstr \<Rightarrow> jsstr option \<Rightarrow> jsstr \<Rightarrow> json \<Rightarrow> state \<Rightarrow> state" where
  "active now w peerId sessionToken ty message s =
     (let (ok, s1) = checkRateLimit now peerId s
      in if \<not> ok then sendError w ''rate-limit'' ''Too many messages'' s1
         else
           (let s2 = refresh_session sessionToken now s1
            in if ty = lit ''heartbeat'' then sendTo (Some w) HeartbeatAck s2
               else route now w peerId sessionToken ty message s2))"

text \<open>
  The \<^verbatim>\<open>'message'\<close> handler of the connection \<open>w\<close>. \<open>dat\<close> is the outcome of
  \<^verbatim>\<open>JSON.parse(data)\<close>, \<open>None\<close> when it throws.
\<close>

definition on_message ::
  "int \<Rightarrow> int \<Rightarrow> jsstr \<Rightarrow> ws \<Rightarrow> json option \<Rightarrow> state \<Rightarrow> state" where
  "on_message ttl now fresh w dat s =
     (case conns s w of
        None \<Rightarrow> s
      | Some c \<Rightarrow>
          (case dat of
             None \<Rightarrow> sendError w ''invalid-json'' ''Invalid JSON message'' s
           | Some message \<Rightarrow>
               (case msg_type message of
                  None \<Rightarrow> sendError w ''invalid-message'' ''Message must have a type'' s
                | Some ty \<Rightarrow>
                    if \<not> truthy (c_peerId c) then handshake ttl now fresh w c ty message s
                    else
                      (case c_peerId c of
                         None \<Rightarrow> s
                       | Some peerId \<Rightarrow> active now w peerId (c_sessionToken c) ty message s))))"

subsection \<open>Connection, close and the periodic sweeps\<close>

definition on_connection :: "string \<Rightarrow> ws \<Rightarrow> state \<Rightarrow> state" where
  "on_connection ip w s0 =
     (let s = s0\<lparr>open_ws := insert w (open_ws s0)\<rparr>
      in if \<not> checkConnectionLimit ip s then
           ws_close w (sendTo (Some w) (ErrorMsg ''rate-limit'' ''Too many connections'') s)
         else
           (let s1 = trackConnection ip w s
            in s1\<lparr>conns := (conns s1)(w \<mapsto> \<lparr>c_peerId = None, c_sessionToken = None, c_ip = ip\<rparr>)\<rparr>))"

definition on_close :: "int \<Rightarrow> ws \<Rightarrow> state \<Rightarrow> state" where
  "on_close now w s0 =
     (case conns s0 w of
        None \<Rightarrow> s0
      | Some c \<Rightarrow>
          (let s = s0\<lparr>open_ws := open_ws s0 - {w}, conns := (conns s0)(w := None)\<rparr>
           in if \<not> truthy (c_peerId c) then untrackConnection (Some (c_ip c)) w s
              else
                (case c_peerId c of
                   None \<Rightarrow> s
                 | Some peerId \<Rightarrow>
                     (let s1 =
                            (case getPeer s peerId of
                               None \<Rightarrow> s
                             | Some pr \<Rightarrow>
                                 (let sa = untrackConnection (p_ip pr) w s
                                  in case p_roomId pr of
                                       None \<Rightarrow> sa
                                     | Some r \<Rightarrow>
                                         if r = [] then sa
                                         else
                                           (case getRoom sa r of
                                              None \<Rightarrow> sa
                                            | Some room \<Rightarrow>
                                                if hostPeerId room = Some peerId
                                                then host_leaves now r sa
                                                else sa)));
                          s2 = s1\<lparr>messageRates := (messageRates s1)(peerId := None)\<rparr>;
                          s3 = s2\<lparr>wsConnections := (wsConnections s2)(peerId := None)\<rparr>
                      in deletePeer peerId s3))))"

definition sweep_rates :: "int \<Rightarrow> state \<Rightarrow> state" where
  "sweep_rates now s =
     s\<lparr>messageRates :=
         (\<lambda>p. case messageRates s p of
                None \<Rightarrow> None
              | Some d \<Rightarrow> if now - windowStart d > windowMs * 10 then None else Some d)\<rparr>"

definition sweep_sessions :: "int \<Rightarrow> int \<Rightarrow> state \<Rightarrow> state" where
  "sweep_sessions ttl now s =
     (let (expired, s1) = cleanupExpiredSessions ttl now s
      in fold (\<lambda>(tok, v) st.
                 case s_roomId v of
                   None \<Rightarrow> st
                 | Some r \<Rightarrow> if r = [] then st else removeRoomMember r (s_peerId v) st)
           expired s1)"

section \<open>Events and reachable states\<close>

text \<open>
  Each handler runs to completion before the next event is taken. \<open>Drop\<close> is a socket
  leaving the \<^verbatim>\<open>OPEN\<close> state before its \<^verbatim>\<open>'close'\<close> event is delivered.
\<close>

datatype event =
    Connection string ws
  | Message ws int jsstr "json option"
  | Close ws int
  | Drop ws
  | Timeout nat int
  | RateSweep int
  | SessionSweep int

fun apply_event :: "int \<Rightarrow> event \<Rightarrow> state \<Rightarrow> state" where
  "apply_event ttl (Connection ip w) s = on_connection ip w s"
| "apply_event ttl (Message w now fresh dat) s = on_message ttl now fresh w dat s"
| "apply_event ttl (Close w now) s = on_close now w s"
| "apply_event ttl (Drop w) s = ws_close w s"
| "apply_event ttl (Timeout t now) s = on_timeout t s"
| "apply_event ttl (RateSweep now) s = sweep_rates now s"
| "apply_event ttl (SessionSweep now) s = sweep_sessions ttl now s"

text \<open>
  A connection event brings a socket that has no handlers yet, messages and close
  events come from sockets with handlers, \<^verbatim>\<open>generatePeerId()\<close> yields 32 hex digits, and a
  timer fires no earlier than it is due.
\<close>

fun enabled :: "event \<Rightarrow> state \<Rightarrow> bool" where
  "enabled (Connection ip w) s = (conns s w = None)"
| "enabled (Message w now fresh dat) s = (conns s w \<noteq> None \<and> isValidPeerId (Some (JStr fresh)))"
| "enabled (Close w now) s = (conns s w \<noteq> None)"
| "enabled (Drop w) s = True"
| "enabled (Timeout t now) s =
     (case timerQueue s t of None \<Rightarrow> False | Some (r, due) \<Rightarrow> due \<le> now)"
| "enabled (RateSweep now) s = True"
| "enabled (SessionSweep now) s = True"

inductive reachable :: "int \<Rightarrow> state \<Rightarrow> bool" for ttl :: int where
  reachable_init: "reachable ttl init_state"
| reachable_step: "reachable ttl s \<Longrightarrow> enabled e s \<Longrightarrow> reachable ttl (apply_event ttl e s)"

section \<open>Notions the properties are stated with\<close>

text \<open>The outcomes of consecutive calls of \<open>checkRateLimit\<close> for one identity, at the given times.\<close>

fun rate_run :: "jsstr \<Rightarrow> int list \<Rightarrow> state \<Rightarrow> bool list" where
  "rate_run p [] s = []"
| "rate_run p (t # ts) s =
     fst (checkRateLimit t p s) # rate_run p ts (snd (checkRateLimit t p s))"

text \<open>A call at \<open>now\<close> starts a new window: no counter yet, or the window has elapsed.\<close>

definition window_opens :: "state \<Rightarrow> jsstr \<Rightarrow> int \<Rightarrow> bool" where
  "window_opens s p now =
     (case messageRates s p of None \<Rightarrow> True | Some d \<Rightarrow> now - windowStart d > windowMs)"

text \<open>
  What \<open>sendToPeer\<close> puts on the wire for a list of identities: one copy for each
  identity whose registered transport is open, in order.
\<close>

definition deliveries :: "state \<Rightarrow> jsstr list \<Rightarrow> out_msg \<Rightarrow> (ws \<times> out_msg) list" where
  "deliveries s ps m =
     concat (map (\<lambda>p. case wsConnections s p of
                         None \<Rightarrow> []
                       | Some x \<Rightarrow> if x \<in> open_ws s then [(x, m)] else []) ps)"

text \<open>The host a room records, if the room exists and records one.\<close>

definition host_of :: "state \<Rightarrow> jsstr \<Rightarrow> jsstr option" where
  "host_of s r = (case rooms s r of None \<Rightarrow> None | Some v \<Rightarrow> hostPeerId v)"

text \<open>
  The condition both register-host and claim-host test before they write: no room record,
  or a recorded host that \<open>hasPeer\<close> does not find.
\<close>

definition claim_allowed :: "state \<Rightarrow> jsstr \<Rightarrow> bool" where
  "claim_allowed s r = (case rooms s r of None \<Rightarrow> True | Some v \<Rightarrow> \<not> hasPeer s (hostPeerId v))"

text \<open>The state in which an accepted message is routed: counter bumped, lastSeen refreshed.\<close>

definition admitted :: "int \<Rightarrow> jsstr \<Rightarrow> jsstr option \<Rightarrow> state \<Rightarrow> state" where
  "admitted now p st s = refresh_session st now (snd (checkRateLimit now p s))"

text \<open>\<^verbatim>\<open>peer && peer.roomId\<close>: the peer record exists and names a room.\<close>

definition in_room :: "state \<Rightarrow> jsstr \<Rightarrow> bool" where
  "in_room s p = (case peers s p of None \<Rightarrow> False | Some v \<Rightarrow> truthy (p_roomId v))"

text \<open>
  The Transport Registry is \<open>wsConnections\<close>; a peer is live when it has an entry there, and
  a room has a live host when the host it records is live.
\<close>

definition live :: "state \<Rightarrow> jsstr \<Rightarrow> bool" where
  "live s p = (wsConnections s p \<noteq> None)"

definition live_host :: "state \<Rightarrow> jsstr \<Rightarrow> bool" where
  "live_host s r = (case host_of s r of None \<Rightarrow> False | Some h \<Rightarrow> live s h)"

text \<open>
  Two facts that hold in every reachable state. Every identity in the registry has a
  peer record, the empty string is no peer, and no session carries it as identity; and
  a timer that is armed for a room is the one \<open>cleanupTimers\<close> remembers for that room,
  the timers remembered are older than the next one, and no two rooms remember the
  same timer.
\<close>

definition registry_ok :: "state \<Rightarrow> bool" where
  "registry_ok s =
     (dom (wsConnections s) \<subseteq> dom (peers s) \<and> peers s [] = None \<and>
      (\<forall>e \<in> set (sessions s). s_peerId (snd e) \<noteq> []))"

definition timers_ok :: "state \<Rightarrow> bool" where
  "timers_ok s =
     ((\<forall>t r d. timerQueue s t = Some (r, d) \<longrightarrow> cleanupTimers s r = Some t) \<and>
      (\<forall>r t. cleanupTimers s r = Some t \<longrightarrow> t < nextTimer s) \<and>
      (\<forall>r r' t. cleanupTimers s r = Some t \<and> cleanupTimers s r' = Some t \<longrightarrow> r = r'))"

text \<open>
  Host loss and the grace period. A room is hostless when its record exists and
  \<^verbatim>\<open>!room.hostPeerId\<close> holds; it is armed with timer \<open>t\<close> when \<open>cleanupTimers\<close> remembers \<open>t\<close>
  for it and \<open>t\<close> is still to fire, at \<open>due\<close>; it is unarmed when no timer that is still
  to fire belongs to it.
\<close>

definition hostless :: "state \<Rightarrow> jsstr \<Rightarrow> bool" where
  "hostless s r = (case rooms s r of None \<Rightarrow> False | Some v \<Rightarrow> \<not> truthy (hostPeerId v))"

definition armed :: "state \<Rightarrow> jsstr \<Rightarrow> nat \<Rightarrow> int \<Rightarrow> bool" where
  "armed s r t due = (cleanupTimers s r = Some t \<and> timerQueue s t = Some (r, due))"

definition unarmed :: "state \<Rightarrow> jsstr \<Rightarrow> bool" where
  "unarmed s r = (\<forall>t d. timerQueue s t \<noteq> Some (r, d))"

text \<open>The \<open>room-closed\<close> messages for a room among everything sent so far.\<close>

fun is_room_closed :: "jsstr \<Rightarrow> out_msg \<Rightarrow> bool" where
  "is_room_closed r (RoomClosed r' reason) = (r' = r)"
| "is_room_closed r _ = False"

definition closed_msgs :: "state \<Rightarrow> jsstr \<Rightarrow> (ws \<times> out_msg) list" where
  "closed_msgs s r = filter (\<lambda>x. is_room_closed r (snd x)) (outbox s)"

text \<open>
  What the timers see of a room: whether the record exists and which host it names,
  the timer remembered for the room, and that timer's entry among the timers still to
  fire.
\<close>

definition room_view ::
  "state \<Rightarrow> jsstr \<Rightarrow> jsstr option option \<times> nat option \<times> (jsstr \<times> int) option" where
  "room_view s r =
     (map_option hostPeerId (rooms s r), cleanupTimers s r,
      Option.bind (cleanupTimers s r) (timerQueue s))"

text \<open>
  The ways an event changes this view of a room, the firing of a timer apart: not at all;
  a host is installed, and the room's timer is cleared and forgotten; or the room loses
  the host it had, and a timer is armed for it.
\<close>

definition view_step :: "state \<Rightarrow> state \<Rightarrow> jsstr \<Rightarrow> bool" where
  "view_step s s' r =
     (room_view s' r = room_view s r \<or>
      (\<exists>p. p \<noteq> [] \<and> room_view s' r = (Some (Some p), None, None)) \<or>
      (truthy (host_of s r) \<and> (\<exists>t d. room_view s' r = (Some None, Some t, Some (r, d)))))"

text \<open>Runs of events. In \<open>keeps_hosts\<close> every event is enabled and none takes the host of
  room \<open>r\<close> away; in \<open>nobody_claims\<close> every event is enabled, none is the firing of timer
  \<open>t\<close>, and after each the room \<open>r\<close> still has no host.\<close>

fun run :: "int \<Rightarrow> event list \<Rightarrow> state \<Rightarrow> state" where
  "run ttl [] s = s"
| "run ttl (e # es) s = run ttl es (apply_event ttl e s)"

fun keeps_hosts :: "int \<Rightarrow> jsstr \<Rightarrow> event list \<Rightarrow> state \<Rightarrow> bool" where
  "keeps_hosts ttl r [] s = True"
| "keeps_hosts ttl r (e # es) s =
     (enabled e s \<and>
      (truthy (host_of s r) \<longrightarrow> truthy (host_of (apply_event ttl e s) r)) \<and>
      keeps_hosts ttl r es (apply_event ttl e s))"

fun is_timeout_of :: "nat \<Rightarrow> event \<Rightarrow> bool" where
  "is_timeout_of t (Timeout t' now) = (t' = t)"
| "is_timeout_of t _ = False"

fun nobody_claims :: "int \<Rightarrow> jsstr \<Rightarrow> nat \<Rightarrow> event list \<Rightarrow> state \<Rightarrow> bool" where
  "nobody_claims ttl r t [] s = True"
| "nobody_claims ttl r t (e # es) s =
     (enabled e s \<and> \<not> is_timeout_of t e \<and> \<not> truthy (host_of (apply_event ttl e s) r) \<and>
      nobody_claims ttl r t es (apply_event ttl e s))"

section \<open>Concrete states\<close>

definition demo_host :: jsstr where
  "demo_host = replicate 32 97"

definition demo_token :: jsstr where
  "demo_token = replicate 32 99"

definition demo_conn :: conn where
  "demo_conn = \<lparr>c_peerId = Some demo_host, c_sessionToken = Some demo_token, c_ip = ''10.0.0.1''\<rparr>"

definition heartbeat_msg :: json where
  "heartbeat_msg = JObj [(lit ''type'', JStr (lit ''heartbeat''))]"

text \<open>One authenticated connection that has used up its 50 messages in the window opened at 0.\<close>

definition demo_limited :: state where
  "demo_limited = init_state\<lparr>
     conns := [7 \<mapsto> demo_conn], open_ws := {7},
     wsConnections := [demo_host \<mapsto> 7],
     peers := [demo_host \<mapsto> \<lparr>p_roomId = None, p_ip = Some ''10.0.0.1'', p_sessionToken = Some demo_token\<rparr>],
     messageRates := [demo_host \<mapsto> \<lparr>r_count = 50, windowStart = 0\<rparr>],
     sessions := [(demo_token, \<lparr>s_peerId = demo_host, s_roomId = None, lastSeen = 0\<rparr>)]\<rparr>"

text \<open>A socket that has connected and not yet said hello.\<close>

definition demo_connected :: state where
  "demo_connected = on_connection ''10.0.0.1'' 7 init_state"

definition demo_conn0 :: conn where
  "demo_conn0 = \<lparr>c_peerId = None, c_sessionToken = None, c_ip = ''10.0.0.1''\<rparr>"

definition bad_hello :: json where
  "bad_hello = JObj [(lit ''type'', JStr (lit ''hello'')), (lit ''sessionToken'', JStr (lit ''xyz''))]"

definition demo_member :: jsstr where
  "demo_member = replicate 32 98"

definition member_token :: jsstr where
  "member_token = replicate 32 100"

definition demo_room :: jsstr where
  "demo_room = lit ''abcd1234''"

definition member_conn :: conn where
  "member_conn = \<lparr>c_peerId = Some demo_member, c_sessionToken = Some member_token, c_ip = ''10.0.0.2''\<rparr>"

definition hello_msg :: "jsstr \<Rightarrow> json" where
  "hello_msg tok = JObj [(lit ''type'', JStr (lit ''hello'')), (lit ''sessionToken'', JStr tok)]"

definition room_msg :: "string \<Rightarrow> jsstr \<Rightarrow> json" where
  "room_msg ty r = JObj [(lit ''type'', JStr (lit ty)), (lit ''roomId'', JStr r)]"

text \<open>
  The scenario of the specification, event by event: the host connects, says hello and
  registers room \<open>abcd1234\<close>; a member connects, says hello and joins; the host's
  transport closes.
\<close>

definition sc1 :: state where
  "sc1 = apply_event 300 (Connection ''10.0.0.1'' 7) init_state"

definition sc2 :: state where
  "sc2 = apply_event 300 (Message 7 0 demo_host (Some (hello_msg demo_token))) sc1"

definition sc3 :: state where
  "sc3 = apply_event 300 (Message 7 1 demo_host (Some (room_msg ''register-host'' demo_room))) sc2"

definition sc4 :: state where
  "sc4 = apply_event 300 (Connection ''10.0.0.2'' 8) sc3"

definition sc5 :: state where
  "sc5 = apply_event 300 (Message 8 2 demo_member (Some (hello_msg member_token))) sc4"

definition sc6 :: state where
  "sc6 = apply_event 300 (Message 8 3 demo_member (Some (room_msg ''join-room'' demo_room))) sc5"

definition sc7 :: state where
  "sc7 = apply_event 300 (Close 7 4) sc6"

text \<open>A second room, registered by the same host while the member is in the first.\<close>

definition other_room :: jsstr where
  "other_room = lit ''wxyz-5678''"

definition sc_two :: state where
  "sc_two = apply_event 300 (Message 7 5 demo_host (Some (room_msg ''register-host'' other_room))) sc6"

definition plain_msg :: "string \<Rightarrow> json" where
  "plain_msg ty = JObj [(lit ''type'', JStr (lit ty))]"

text \<open>An offer to the host that also carries a \<^verbatim>\<open>fromPeerId\<close> the client made up.\<close>

definition offer_msg :: json where
  "offer_msg = JObj [(lit ''type'', JStr (lit ''offer'')), (lit ''targetPeerId'', JStr demo_host),
     (lit ''fromPeerId'', JStr demo_host), (lit ''sdp'', JStr (lit ''v=0''))]"

text \<open>The member joins the second room, then leaves.\<close>

definition joined_two :: state where
  "joined_two = on_message 300 6 demo_host 8 (Some (room_msg ''join-room'' other_room)) sc_two"

definition left_two :: state where
  "left_two = on_message 300 7 demo_host 8 (Some (plain_msg ''leave-room'')) joined_two"

definition first_room :: room where
  "first_room = \<lparr>hostPeerId = Some demo_host, members = [demo_member], createdAt = Some 1\<rparr>"

definition second_room :: room where
  "second_room = \<lparr>hostPeerId = Some demo_host, members = [], createdAt = Some 5\<rparr>"

text \<open>The member leaves the first room.\<close>

definition sc_left :: state where
  "sc_left = on_message 300 4 demo_host 8 (Some (plain_msg ''leave-room'')) sc6"

text \<open>
  The host comes back on a new socket with its token: while its old socket is still
  registered (\<open>sc_evict\<close>), and after the old socket has closed (\<open>sc_back\<close>).
\<close>

definition sc6c :: state where
  "sc6c = apply_event 300 (Connection ''10.0.0.1'' 9) sc6"

definition sc_evict :: state where
  "sc_evict = on_message 300 10 demo_host 9 (Some (hello_msg demo_token)) sc6c"

definition sc7c :: state where
  "sc7c = apply_event 300 (Connection ''10.0.0.1'' 9) sc7"

definition sc_back :: state where
  "sc_back = on_message 300 10 demo_host 9 (Some (hello_msg demo_token)) sc7c"

definition demo_session :: session where
  "demo_session = \<lparr>s_peerId = demo_host, s_roomId = Some demo_room, lastSeen = 1\<rparr>"

definition demo_conn9 :: conn where
  "demo_conn9 = \<lparr>c_peerId = None, c_sessionToken = None, c_ip = ''10.0.0.1''\<rparr>"

text \<open>The member claims the orphaned room within the grace period.\<close>

definition sc8 :: state where
  "sc8 = apply_event 300 (Message 8 5 demo_host (Some (room_msg ''claim-host'' demo_room))) sc7"

text \<open>Or nobody claims it, and the cleanup timer fires when it is due.\<close>

definition sc_closed :: state where
  "sc_closed = apply_event 300 (Timeout 0 30004) sc7"

text \<open>
  The host's old socket closes after the host has come back on a new one (\<open>sc_evict\<close>):
  the close handler of the old socket runs for the identity that the new socket now
  carries. Then the host registers the room again on its new socket.
\<close>

definition sc_torn :: state where
  "sc_torn = apply_event 300 (Close 7 11) sc_evict"

definition sc_ghost :: state where
  "sc_ghost = apply_event 300 (Message 9 12 demo_host (Some (room_msg ''register-host'' demo_room))) sc_torn"

text \<open>The host of two rooms loses its transport; then the timer armed at that moment fires.\<close>

definition sc_two_gone :: state where
  "sc_two_gone = apply_event 300 (Close 7 6) sc_two"

definition sc_two_late :: state where
  "sc_two_late = apply_event 300 (Timeout 0 30006) sc_two_gone"

text \<open>
  The member comes back on a new socket and its old socket closes; then the host's
  transport closes, and the cleanup timer fires.
\<close>

definition sc_m9 :: state where
  "sc_m9 = apply_event 300 (Connection ''10.0.0.2'' 9) sc6"

definition sc_mback :: state where
  "sc_mback = apply_event 300 (Message 9 10 demo_member (Some (hello_msg member_token))) sc_m9"

definition sc_mtorn :: state where
  "sc_mtorn = apply_event 300 (Close 8 11) sc_mback"

definition sc_mlost :: state where
  "sc_mlost = apply_event 300 (Close 7 12) sc_mtorn"

definition sc_mclosed :: state where
  "sc_mclosed = apply_event 300 (Timeout 0 30012) sc_mlost"

text \<open>
  The member, listed in both rooms, loses its transport. The host keeps its session alive
  with a heartbeat; the member's session has expired when the sessions are swept.
\<close>

definition sc_away :: state where
  "sc_away = apply_event 300 (Close 8 7) joined_two"

definition sc_beat :: state where
  "sc_beat = apply_event 300 (Message 7 200000 demo_host (Some (plain_msg ''heartbeat''))) sc_away"

definition sc_expired :: state where
  "sc_expired = apply_event 300 (SessionSweep 400000) sc_beat"

section \<open>Frame and unfolding lemmas\<close>

lemma ws_close_frame [simp]:
  "wsConnections (ws_close w s) = wsConnections s"
  "hostWsConnections (ws_close w s) = hostWsConnections s"
  "connectionsByIp (ws_close w s) = connectionsByIp s"
  "messageRates (ws_close w s) = messageRates s"
  "cleanupTimers (ws_close w s) = cleanupTimers s"
  "sessions (ws_close w s) = sessions s"
  "peers (ws_close w s) = peers s"
  "rooms (ws_close w s) = rooms s"
  "conns (ws_close w s) = conns s"
  "timerQueue (ws_close w s) = timerQueue s"
  "nextTimer (ws_close w s) = nextTimer s"
  "outbox (ws_close w s) = outbox s"
  by (simp_all add: ws_close_def)

lemma sendTo_frame [simp]:
  "wsConnections (sendTo w m s) = wsConnections s"
  "hostWsConnections (sendTo w m s) = hostWsConnections s"
  "connectionsByIp (sendTo w m s) = connectionsByIp s"
  "messageRates (sendTo w m s) = messageRates s"
  "cleanupTimers (sendTo w m s) = cleanupTimers s"
  "sessions (sendTo w m s) = sessions s"
  "peers (sendTo w m s) = peers s"
  "rooms (sendTo w m s) = rooms s"
  "conns (sendTo w m s) = conns s"
  "open_ws (sendTo w m s) = open_ws s"
  "timerQueue (sendTo w m s) = timerQueue s"
  "nextTimer (sendTo w m s) = nextTimer s"
  by (simp_all add: sendTo_def split: option.splits)

lemma sendToPeer_frame [simp]:
  "wsConnections (sendToPeer p m s) = wsConnections s"
  "hostWsConnections (sendToPeer p m s) = hostWsConnections s"
  "connectionsByIp (sendToPeer p m s) = connectionsByIp s"
  "messageRates (sendToPeer p m s) = messageRates s"
  "cleanupTimers (sendToPeer p m s) = cleanupTimers s"
  "sessions (sendToPeer p m s) = sessions s"
  "peers (sendToPeer p m s) = peers s"
  "rooms (sendToPeer p m s) = rooms s"
  "conns (sendToPeer p m s) = conns s"
  "open_ws (sendToPeer p m s) = open_ws s"
  "timerQueue (sendToPeer p m s) = timerQueue s"
  "nextTimer (sendToPeer p m s) = nextTimer s"
  by (simp_all add: sendToPeer_def sendTo_def split: option.splits)

lemma sendError_frame [simp]:
  "wsConnections (sendError w e r s) = wsConnections s"
  "hostWsConnections (sendError w e r s) = hostWsConnections s"
  "connectionsByIp (sendError w e r s) = connectionsByIp s"
  "messageRates (sendError w e r s) = messageRates s"
  "cleanupTimers (sendError w e r s) = cleanupTimers s"
  "sessions (sendError w e r s) = sessions s"
  "peers (sendError w e r s) = peers s"
  "rooms (sendError w e r s) = rooms s"
  "conns (sendError w e r s) = conns s"
  "open_ws (sendError w e r s) = open_ws s"
  "timerQueue (sendError w e r s) = timerQueue s"
  "nextTimer (sendError w e r s) = nextTimer s"
  by (simp_all add: sendError_def sendTo_def split: option.splits)

lemma setSession_frame [simp]:
  "wsConnections (setSession t v s) = wsConnections s"
  "hostWsConnections (setSession t v s) = hostWsConnections s"
  "connectionsByIp (setSession t v s) = connectionsByIp s"
  "messageRates (setSession t v s) = messageRates s"
  "cleanupTimers (setSession t v s) = cleanupTimers s"
  "peers (setSession t v s) = peers s"
  "rooms (setSession t v s) = rooms s"
  "conns (setSession t v s) = conns s"
  "open_ws (setSession t v s) = open_ws s"
  "timerQueue (setSession t v s) = timerQueue s"
  "nextTimer (setSession t v s) = nextTimer s"
  "outbox (setSession t v s) = outbox s"
  by (simp_all add: setSession_def)

lemma updateSessionLastSeen_frame [simp]:
  "wsConnections (updateSessionLastSeen t n s) = wsConnections s"
  "hostWsConnections (updateSessionLastSeen t n s) = hostWsConnections s"
  "connectionsByIp (updateSessionLastSeen t n s) = connectionsByIp s"
  "messageRates (updateSessionLastSeen t n s) = messageRates s"
  "cleanupTimers (updateSessionLastSeen t n s) = cleanupTimers s"
  "peers (updateSessionLastSeen t n s) = peers s"
  "rooms (updateSessionLastSeen t n s) = rooms s"
  "conns (updateSessionLastSeen t n s) = conns s"
  "open_ws (updateSessionLastSeen t n s) = open_ws s"
  "timerQueue (updateSessionLastSeen t n s) = timerQueue s"
  "nextTimer (updateSessionLastSeen t n s) = nextTimer s"
  "outbox (updateSessionLastSeen t n s) = outbox s"
  by (simp_all add: updateSessionLastSeen_def split: option.splits)

lemma updateSessionRoom_frame [simp]:
  "wsConnections (updateSessionRoom t r s) = wsConnections s"
  "hostWsConnections (updateSessionRoom t r s) = hostWsConnections s"
  "connectionsByIp (updateSessionRoom t r s) = connectionsByIp s"
  "messageRates (updateSessionRoom t r s) = messageRates s"
  "cleanupTimers (updateSessionRoom t r s) = cleanupTimers s"
  "peers (updateSessionRoom t r s) = peers s"
  "rooms (updateSessionRoom t r s) = rooms s"
  "conns (updateSessionRoom t r s) = conns s"
  "open_ws (updateSessionRoom t r s) = open_ws s"
  "timerQueue (updateSessionRoom t r s) = timerQueue s"
  "nextTimer (updateSessionRoom t r s) = nextTimer s"
  "outbox (updateSessionRoom t r s) = outbox s"
  by (simp_all add: updateSessionRoom_def split: option.splits)

lemma setPeer_frame [simp]:
  "wsConnections (setPeer p v s) = wsConnections s"
  "hostWsConnections (setPeer p v s) = hostWsConnections s"
  "connectionsByIp (setPeer p v s) = connectionsByIp s"
  "messageRates (setPeer p v s) = messageRates s"
  "cleanupTimers (setPeer p v s) = cleanupTimers s"
  "sessions (setPeer p v s) = sessions s"
  "rooms (setPeer p v s) = rooms s"
  "conns (setPeer p v s) = conns s"
  "open_ws (setPeer p v s) = open_ws s"
  "timerQueue (setPeer p v s) = timerQueue s"
  "nextTimer (setPeer p v s) = nextTimer s"
  "outbox (setPeer p v s) = outbox s"
  by (simp_all add: setPeer_def)

lemma deletePeer_frame [simp]:
  "wsConnections (deletePeer p s) = wsConnections s"
  "hostWsConnections (deletePeer p s) = hostWsConnections s"
  "connectionsByIp (deletePeer p s) = connectionsByIp s"
  "messageRates (deletePeer p s) = messageRates s"
  "cleanupTimers (deletePeer p s) = cleanupTimers s"
  "sessions (deletePeer p s) = sessions s"
  "rooms (deletePeer p s) = rooms s"
  "conns (deletePeer p s) = conns s"
  "open_ws (deletePeer p s) = open_ws s"
  "timerQueue (deletePeer p s) = timerQueue s"
  "nextTimer (deletePeer p s) = nextTimer s"
  "outbox (deletePeer p s) = outbox s"
  by (simp_all add: deletePeer_def)

lemma setRoom_frame [simp]:
  "wsConnections (setRoom r h c s) = wsConnections s"
  "hostWsConnections (setRoom r h c s) = hostWsConnections s"
  "connectionsByIp (setRoom r h c s) = connectionsByIp s"
  "messageRates (setRoom r h c s) = messageRates s"
  "cleanupTimers (setRoom r h c s) = cleanupTimers s"
  "sessions (setRoom r h c s) = sessions s"
  "peers (setRoom r h c s) = peers s"
  "conns (setRoom r h c s) = conns s"
  "open_ws (setRoom r h c s) = open_ws s"
  "timerQueue (setRoom r h c s) = timerQueue s"
  "nextTimer (setRoom r h c s) = nextTimer s"
  "outbox (setRoom r h c s) = outbox s"
  by (simp_all add: setRoom_def split: option.splits)

lemma deleteRoom_frame [simp]:
  "wsConnections (deleteRoom r s) = wsConnections s"
  "hostWsConnections (deleteRoom r s) = hostWsConnections s"
  "connectionsByIp (deleteRoom r s) = connectionsByIp s"
  "messageRates (deleteRoom r s) = messageRates s"
  "cleanupTimers (deleteRoom r s) = cleanupTimers s"
  "sessions (deleteRoom r s) = sessions s"
  "peers (deleteRoom r s) = peers s"
  "conns (deleteRoom r s) = conns s"
  "open_ws (deleteRoom r s) = open_ws s"
  "timerQueue (deleteRoom r s) = timerQueue s"
  "nextTimer (deleteRoom r s) = nextTimer s"
  "outbox (deleteRoom r s) = outbox s"
  by (simp_all add: deleteRoom_def)

lemma addRoomMember_frame [simp]:
  "wsConnections (addRoomMember r p s) = wsConnections s"
  "hostWsConnections (addRoomMember r p s) = hostWsConnections s"
  "connectionsByIp (addRoomMember r p s) = connectionsByIp s"
  "messageRates (addRoomMember r p s) = messageRates s"
  "cleanupTimers (addRoomMember r p s) = cleanupTimers s"
  "sessions (addRoomMember r p s) = sessions s"
  "peers (addRoomMember r p s) = peers s"
  "conns (addRoomMember r p s) = conns s"
  "open_ws (addRoomMember r p s) = open_ws s"
  "timerQueue (addRoomMember r p s) = timerQueue s"
  "nextTimer (addRoomMember r p s) = nextTimer s"
  "outbox (addRoomMember r p s) = outbox s"
  by (simp_all add: addRoomMember_def split: option.splits)

lemma removeRoomMember_frame [simp]:
  "wsConnections (removeRoomMember r p s) = wsConnections s"
  "hostWsConnections (removeRoomMember r p s) = hostWsConnections s"
  "connectionsByIp (removeRoomMember r p s) = connectionsByIp s"
  "messageRates (removeRoomMember r p s) = messageRates s"
  "cleanupTimers (removeRoomMember r p s) = cleanupTimers s"
  "sessions (removeRoomMember r p s) = sessions s"
  "peers (removeRoomMember r p s) = peers s"
  "conns (removeRoomMember r p s) = conns s"
  "open_ws (removeRoomMember r p s) = open_ws s"
  "timerQueue (removeRoomMember r p s) = timerQueue s"
  "nextTimer (removeRoomMember r p s) = nextTimer s"
  "outbox (removeRoomMember r p s) = outbox s"
  by (simp_all add: removeRoomMember_def split: option.splits)

lemma trackConnection_frame [simp]:
  "wsConnections (trackConnection i w s) = wsConnections s"
  "hostWsConnections (trackConnection i w s) = hostWsConnections s"
  "messageRates (trackConnection i w s) = messageRates s"
  "cleanupTimers (trackConnection i w s) = cleanupTimers s"
  "sessions (trackConnection i w s) = sessions s"
  "peers (trackConnection i w s) = peers s"
  "rooms (trackConnection i w s) = rooms s"
  "conns (trackConnection i w s) = conns s"
  "open_ws (trackConnection i w s) = open_ws s"
  "timerQueue (trackConnection i w s) = timerQueue s"
  "nextTimer (trackConnection i w s) = nextTimer s"
  "outbox (trackConnection i w s) = outbox s"
  by (simp_all add: trackConnection_def Let_def)

lemma untrackConnection_frame [simp]:
  "wsConnections (untrackConnection i w s) = wsConnections s"
  "hostWsConnections (untrackConnection i w s) = hostWsConnections s"
  "messageRates (untrackConnection i w s) = messageRates s"
  "cleanupTimers (untrackConnection i w s) = cleanupTimers s"
  "sessions (untrackConnection i w s) = sessions s"
  "peers (untrackConnection i w s) = peers s"
  "rooms (untrackConnection i w s) = rooms s"
  "conns (untrackConnection i w s) = conns s"
  "open_ws (untrackConnection i w s) = open_ws s"
  "timerQueue (untrackConnection i w s) = timerQueue s"
  "nextTimer (untrackConnection i w s) = nextTimer s"
  "outbox (untrackConnection i w s) = outbox s"
  by (simp_all add: untrackConnection_def Let_def split: option.splits)

lemma clearTimeout_frame [simp]:
  "wsConnections (clearTimeout t s) = wsConnections s"
  "hostWsConnections (clearTimeout t s) = hostWsConnections s"
  "connectionsByIp (clearTimeout t s) = connectionsByIp s"
  "messageRates (clearTimeout t s) = messageRates s"
  "cleanupTimers (clearTimeout t s) = cleanupTimers s"
  "sessions (clearTimeout t s) = sessions s"
  "peers (clearTimeout t s) = peers s"
  "rooms (clearTimeout t s) = rooms s"
  "conns (clearTimeout t s) = conns s"
  "open_ws (clearTimeout t s) = open_ws s"
  "nextTimer (clearTimeout t s) = nextTimer s"
  "outbox (clearTimeout t s) = outbox s"
  by (simp_all add: clearTimeout_def)

lemma cancelCleanup_frame [simp]:
  "wsConnections (cancelCleanup r s) = wsConnections s"
  "hostWsConnections (cancelCleanup r s) = hostWsConnections s"
  "connectionsByIp (cancelCleanup r s) = connectionsByIp s"
  "messageRates (cancelCleanup r s) = messageRates s"
  "sessions (cancelCleanup r s) = sessions s"
  "peers (cancelCleanup r s) = peers s"
  "rooms (cancelCleanup r s) = rooms s"
  "conns (cancelCleanup r s) = conns s"
  "open_ws (cancelCleanup r s) = open_ws s"
  "nextTimer (cancelCleanup r s) = nextTimer s"
  "outbox (cancelCleanup r s) = outbox s"
  by (simp_all add: cancelCleanup_def clearTimeout_def split: option.splits)

lemma scheduleRoomCleanup_frame [simp]:
  "wsConnections (scheduleRoomCleanup n r s) = wsConnections s"
  "hostWsConnections (scheduleRoomCleanup n r s) = hostWsConnections s"
  "connectionsByIp (scheduleRoomCleanup n r s) = connectionsByIp s"
  "messageRates (scheduleRoomCleanup n r s) = messageRates s"
  "sessions (scheduleRoomCleanup n r s) = sessions s"
  "peers (scheduleRoomCleanup n r s) = peers s"
  "rooms (scheduleRoomCleanup n r s) = rooms s"
  "conns (scheduleRoomCleanup n r s) = conns s"
  "open_ws (scheduleRoomCleanup n r s) = open_ws s"
  "outbox (scheduleRoomCleanup n r s) = outbox s"
  by (simp_all add: scheduleRoomCleanup_def clearTimeout_def Let_def split: option.splits)

lemma notify_members_frame [simp]:
  "wsConnections (notify_members ms m s) = wsConnections s"
  "hostWsConnections (notify_members ms m s) = hostWsConnections s"
  "connectionsByIp (notify_members ms m s) = connectionsByIp s"
  "messageRates (notify_members ms m s) = messageRates s"
  "cleanupTimers (notify_members ms m s) = cleanupTimers s"
  "sessions (notify_members ms m s) = sessions s"
  "peers (notify_members ms m s) = peers s"
  "rooms (notify_members ms m s) = rooms s"
  "conns (notify_members ms m s) = conns s"
  "open_ws (notify_members ms m s) = open_ws s"
  "timerQueue (notify_members ms m s) = timerQueue s"
  "nextTimer (notify_members ms m s) = nextTimer s"
  unfolding notify_members_def by (induction ms arbitrary: s; simp)+

lemma checkRateLimit_frame [simp]:
  "wsConnections (snd (checkRateLimit n p s)) = wsConnections s"
  "hostWsConnections (snd (checkRateLimit n p s)) = hostWsConnections s"
  "connectionsByIp (snd (checkRateLimit n p s)) = connectionsByIp s"
  "cleanupTimers (snd (checkRateLimit n p s)) = cleanupTimers s"
  "sessions (snd (checkRateLimit n p s)) = sessions s"
  "peers (snd (checkRateLimit n p s)) = peers s"
  "rooms (snd (checkRateLimit n p s)) = rooms s"
  "conns (snd (checkRateLimit n p s)) = conns s"
  "open_ws (snd (checkRateLimit n p s)) = open_ws s"
  "timerQueue (snd (checkRateLimit n p s)) = timerQueue s"
  "nextTimer (snd (checkRateLimit n p s)) = nextTimer s"
  "outbox (snd (checkRateLimit n p s)) = outbox s"
  by (simp_all add: checkRateLimit_def Let_def)

lemma refresh_session_frame [simp]:
  "wsConnections (refresh_session t n s) = wsConnections s"
  "hostWsConnections (refresh_session t n s) = hostWsConnections s"
  "connectionsByIp (refresh_session t n s) = connectionsByIp s"
  "messageRates (refresh_session t n s) = messageRates s"
  "cleanupTimers (refresh_session t n s) = cleanupTimers s"
  "peers (refresh_session t n s) = peers s"
  "rooms (refresh_session t n s) = rooms s"
  "conns (refresh_session t n s) = conns s"
  "open_ws (refresh_session t n s) = open_ws s"
  "timerQueue (refresh_session t n s) = timerQueue s"
  "nextTimer (refresh_session t n s) = nextTimer s"
  "outbox (refresh_session t n s) = outbox s"
  by (simp_all add: refresh_session_def split: option.splits)

lemma host_leaves_frame [simp]:
  "wsConnections (host_leaves n r s) = wsConnections s"
  "connectionsByIp (host_leaves n r s) = connectionsByIp s"
  "messageRates (host_leaves n r s) = messageRates s"
  "sessions (host_leaves n r s) = sessions s"
  "peers (host_leaves n r s) = peers s"
  "conns (host_leaves n r s) = conns s"
  "open_ws (host_leaves n r s) = open_ws s"
  by (simp_all add: host_leaves_def Let_def)

lemma inj_lit [simp]: "(lit a = lit b) = (a = b)"
  unfolding lit_def by (simp add: inj_map_eq_map inj_on_def)

lemma outbox_sendTo:
  "outbox (sendTo w m s) =
     (case w of None \<Rightarrow> outbox s
      | Some x \<Rightarrow> if x \<in> open_ws s then outbox s @ [(x, m)] else outbox s)"
  by (simp add: sendTo_def split: option.splits)

lemma sendTo_open: "w \<in> open_ws s \<Longrightarrow> sendTo (Some w) m s = s\<lparr>outbox := outbox s @ [(w, m)]\<rparr>"
  by (simp add: sendTo_def)

lemma hasPeer_cong: "peers s' = peers s \<Longrightarrow> hasPeer s' = hasPeer s"
  by (auto simp: hasPeer_def fun_eq_iff split: option.splits)

lemma getRoom_cong: "rooms s' = rooms s \<Longrightarrow> getRoom s' = getRoom s"
  by (auto simp: getRoom_def fun_eq_iff)

lemma getRoomMembers_cong: "rooms s' = rooms s \<Longrightarrow> getRoomMembers s' = getRoomMembers s"
  by (auto simp: getRoomMembers_def fun_eq_iff)

lemma on_message_active:
  "conns s w = Some c \<Longrightarrow> c_peerId c = Some p \<Longrightarrow> p \<noteq> [] \<Longrightarrow> msg_type m = Some ty \<Longrightarrow>
   on_message ttl now fresh w (Some m) s = active now w p (c_sessionToken c) ty m s"
  by (simp add: on_message_def)

lemma active_rejected:
  "\<not> fst (checkRateLimit now p s) \<Longrightarrow>
   active now w p st ty m s = sendError w ''rate-limit'' ''Too many messages'' (snd (checkRateLimit now p s))"
  by (simp add: active_def case_prod_beta)

lemma active_routed:
  "fst (checkRateLimit now p s) \<Longrightarrow> ty \<noteq> lit ''heartbeat'' \<Longrightarrow>
   active now w p st ty m s =
     route now w p st ty m (refresh_session st now (snd (checkRateLimit now p s)))"
  by (simp add: active_def case_prod_beta)

lemma active_heartbeat:
  "fst (checkRateLimit now p s) \<Longrightarrow>
   active now w p st (lit ''heartbeat'') m s =
     sendTo (Some w) HeartbeatAck (refresh_session st now (snd (checkRateLimit now p s)))"
  by (simp add: active_def case_prod_beta)

lemma route_simps:
  "route now w p st (lit ''query-room'') m s = query_room w m s"
  "route now w p st (lit ''register-host'') m s = register_host now w p st (getPeer s p) m s"
  "route now w p st (lit ''claim-host'') m s = claim_host now w p st (getPeer s p) m s"
  "route now w p st (lit ''join-room'') m s = join_room w p st (getPeer s p) m s"
  "route now w p st (lit ''offer'') m s = relay w p m s"
  "route now w p st (lit ''answer'') m s = relay w p m s"
  "route now w p st (lit ''ice-candidate'') m s = relay w p m s"
  "route now w p st (lit ''leave-room'') m s = leave_room now p st (getPeer s p) s"
  by (simp_all add: route_def)

lemma outbox_notify_members:
  "outbox (notify_members ms m s) = outbox s @ deliveries s ms m"
proof (induction ms arbitrary: s)
  case Nil
  then show ?case by (simp add: notify_members_def deliveries_def)
next
  case (Cons a ms)
  have step: "notify_members (a # ms) m s = notify_members ms m (sendToPeer a m s)"
    by (simp add: notify_members_def)
  have d: "deliveries (sendToPeer a m s) ms m = deliveries s ms m"
    by (simp add: deliveries_def cong: option.case_cong if_cong)
  have o: "outbox (sendToPeer a m s) = outbox s @ deliveries s [a] m"
    by (simp add: sendToPeer_def deliveries_def outbox_sendTo split: option.splits)
  show ?case unfolding step Cons.IH d o by (simp add: deliveries_def)
qed

lemma rate_run_in_window:
  "messageRates s p = Some \<lparr>r_count = k, windowStart = start\<rparr> \<Longrightarrow> \<forall>t \<in> set ts. t - start \<le> windowMs \<Longrightarrow>
   rate_run p ts s = map (\<lambda>i. k + i < maxMessages) [0..<length ts]"
proof (induction ts arbitrary: s k)
  case Nil
  then show ?case by simp
next
  case (Cons t ts)
  have in_w: "\<not> t - start > windowMs" using Cons.prems(2) by simp
  have ok: "fst (checkRateLimit t p s) = (k < maxMessages)"
    using Cons.prems(1) in_w by (simp add: checkRateLimit_def Let_def Suc_le_eq)
  have nxt: "messageRates (snd (checkRateLimit t p s)) p = Some \<lparr>r_count = Suc k, windowStart = start\<rparr>"
    using Cons.prems(1) in_w by (simp add: checkRateLimit_def Let_def)
  have rest: "rate_run p ts (snd (checkRateLimit t p s)) = map (\<lambda>i. Suc k + i < maxMessages) [0..<length ts]"
    using Cons.IH[OF nxt] Cons.prems(2) by simp
  have "[0..<length (t # ts)] = 0 # map Suc [0..<length ts]"
    by (simp add: upt_conv_Cons map_Suc_upt del: upt_Suc)
  then show ?case using ok rest by (simp add: comp_def del: upt_Suc)
qed

lemma first_in_window:
  "window_opens s p start \<Longrightarrow>
   fst (checkRateLimit start p s) \<and>
   messageRates (snd (checkRateLimit start p s)) p = Some \<lparr>r_count = 1, windowStart = start\<rparr>"
  by (auto simp: window_opens_def checkRateLimit_def Let_def maxMessages_def split: option.splits)

lemma rate_window:
  assumes "window_opens s p start" "\<forall>t \<in> set ts. t - start \<le> windowMs"
  shows "rate_run p (start # ts) s = map (\<lambda>i. i < maxMessages) [0..<Suc (length ts)]"
proof -
  have a: "rate_run p ts (snd (checkRateLimit start p s)) = map (\<lambda>i. 1 + i < maxMessages) [0..<length ts]"
    using rate_run_in_window[of _ p 1 start ts] first_in_window[OF assms(1)] assms(2) by simp
  have "[0..<Suc (length ts)] = 0 # map Suc [0..<length ts]"
    by (simp add: upt_conv_Cons map_Suc_upt del: upt_Suc)
  then show ?thesis using a first_in_window[OF assms(1)] by (simp add: comp_def maxMessages_def del: upt_Suc)
qed

lemma rate_reject:
  assumes "conns s w = Some c" "c_peerId c = Some p" "p \<noteq> []" "msg_type m = Some ty"
      "\<not> fst (checkRateLimit now p s)" "w \<in> open_ws s"
  shows "on_message ttl now fresh w (Some m) s =
           (snd (checkRateLimit now p s))\<lparr>outbox := outbox s @ [(w, ErrorMsg ''rate-limit'' ''Too many messages'')]\<rparr>"
  using assms by (simp add: on_message_active active_rejected sendError_def sendTo_open)

lemma lastSeen_updateSessionRoom:
  "map_option lastSeen (map_of (sessions (updateSessionRoom st r s)) t) =
   map_option lastSeen (map_of (sessions s) t)"
  by (auto simp: updateSessionRoom_def update_conv' split: option.splits)

lemma sessions_query_room [simp]: "sessions (query_room w m s) = sessions s"
  by (simp add: query_room_def Let_def split: option.splits)

lemma sessions_relay [simp]: "sessions (relay w p m s) = sessions s"
  by (simp add: relay_def Let_def split: option.splits)

lemma lastSeen_register_host:
  "map_option lastSeen (map_of (sessions (register_host now w p st pr m s)) t) =
   map_option lastSeen (map_of (sessions s) t)"
  by (simp add: register_host_def Let_def lastSeen_updateSessionRoom split: option.splits)

lemma lastSeen_claim_host:
  "map_option lastSeen (map_of (sessions (claim_host now w p st pr m s)) t) =
   map_option lastSeen (map_of (sessions s) t)"
  by (simp add: claim_host_def Let_def lastSeen_updateSessionRoom split: option.splits)

lemma lastSeen_join_room:
  "map_option lastSeen (map_of (sessions (join_room w p st pr m s)) t) =
   map_option lastSeen (map_of (sessions s) t)"
  by (simp add: join_room_def Let_def lastSeen_updateSessionRoom split: option.splits)

lemma lastSeen_leave_room:
  "map_option lastSeen (map_of (sessions (leave_room now p st pr s)) t) =
   map_option lastSeen (map_of (sessions s) t)"
  by (simp add: leave_room_def Let_def lastSeen_updateSessionRoom split: option.splits)

lemma lastSeen_route:
  "map_option lastSeen (map_of (sessions (route now w p st ty m s)) t) =
   map_option lastSeen (map_of (sessions s) t)"
  by (simp add: route_def Let_def lastSeen_register_host lastSeen_claim_host
      lastSeen_join_room lastSeen_leave_room)

lemma lastSeen_refresh:
  "map_of (sessions s) tok = Some v \<Longrightarrow> tok \<noteq> [] \<Longrightarrow>
   map_of (sessions (refresh_session (Some tok) now s)) tok = Some (v\<lparr>lastSeen := now\<rparr>)"
  by (simp add: refresh_session_def updateSessionLastSeen_def update_conv')

lemma cancelCleanup_at:
  "cleanupTimers (cancelCleanup r s) r = None"
  "cleanupTimers s r = Some t \<Longrightarrow> timerQueue (cancelCleanup r s) t = None"
  by (simp_all add: cancelCleanup_def clearTimeout_def split: option.splits)

lemma rooms_setRoom:
  "rooms (setRoom r h c s) =
     (rooms s)(r \<mapsto>
        (case rooms s r of
           None \<Rightarrow> \<lparr>hostPeerId = h, members = [], createdAt = c\<rparr>
         | Some v \<Rightarrow> v\<lparr>hostPeerId := h,
                        createdAt := (case c of None \<Rightarrow> createdAt v | Some t \<Rightarrow> Some t)\<rparr>))"
  by (simp add: setRoom_def split: option.splits)

lemma claim_host_ok:
  assumes "field m (lit ''roomId'') = Some (JStr r)" and "isValidRoomId (Some (JStr r))"
    and "claim_allowed s r" and "w \<in> open_ws s"
  shows "outbox (claim_host now w p st pr m s) = outbox s @ [(w, ClaimHostSuccess r)]"
    and "host_of (claim_host now w p st pr m s) r = Some p"
    and "cleanupTimers (claim_host now w p st pr m s) r = None"
    and "cleanupTimers s r = Some t \<Longrightarrow> timerQueue (claim_host now w p st pr m s) t = None"
    and "getRoomMembers (claim_host now w p st pr m s) r = getRoomMembers s r"
    and "wsConnections (claim_host now w p st pr m s) = wsConnections s"
    and "open_ws (claim_host now w p st pr m s) = open_ws s"
  using assms
  by (simp_all add: claim_host_def claim_allowed_def getRoom_def Let_def outbox_sendTo host_of_def
      rooms_setRoom cancelCleanup_at getRoomMembers_def del: isValidRoomId.simps split: option.splits)

lemma claim_host_refused:
  assumes "field m (lit ''roomId'') = Some (JStr r)" and "isValidRoomId (Some (JStr r))"
    and "\<not> claim_allowed s r" and "w \<in> open_ws s"
  shows "claim_host now w p st pr m s =
           s\<lparr>outbox := outbox s @ [(w, ClaimHostFailed (Some (JStr r)) ''Room already has active host'')]\<rparr>"
  using assms
  by (simp add: claim_host_def claim_allowed_def getRoom_def Let_def sendTo_open
      del: isValidRoomId.simps split: option.splits)

lemma register_host_ok:
  assumes "field m (lit ''roomId'') = Some (JStr r)" and "isValidRoomId (Some (JStr r))"
    and "claim_allowed s r" and "w \<in> open_ws s"
  shows "outbox (register_host now w p st pr m s) = outbox s @ [(w, RegisterHostSuccess r)]"
    and "host_of (register_host now w p st pr m s) r = Some p"
    and "cleanupTimers (register_host now w p st pr m s) r = None"
    and "cleanupTimers s r = Some t \<Longrightarrow> timerQueue (register_host now w p st pr m s) t = None"
  using assms
  by (simp_all add: register_host_def claim_allowed_def getRoom_def Let_def outbox_sendTo host_of_def
      rooms_setRoom cancelCleanup_at del: isValidRoomId.simps split: option.splits)

lemma register_host_refused:
  assumes "field m (lit ''roomId'') = Some (JStr r)" and "isValidRoomId (Some (JStr r))"
    and "\<not> claim_allowed s r" and "w \<in> open_ws s"
  shows "register_host now w p st pr m s =
           s\<lparr>outbox := outbox s @ [(w, RegisterHostFailed (Some (JStr r)) ''Room already has a host'')]\<rparr>"
  using assms
  by (simp add: register_host_def claim_allowed_def getRoom_def Let_def sendTo_open
      del: isValidRoomId.simps split: option.splits)

lemma admitted_frame [simp]:
  "wsConnections (admitted n p st s) = wsConnections s"
  "hostWsConnections (admitted n p st s) = hostWsConnections s"
  "connectionsByIp (admitted n p st s) = connectionsByIp s"
  "cleanupTimers (admitted n p st s) = cleanupTimers s"
  "peers (admitted n p st s) = peers s"
  "rooms (admitted n p st s) = rooms s"
  "conns (admitted n p st s) = conns s"
  "open_ws (admitted n p st s) = open_ws s"
  "timerQueue (admitted n p st s) = timerQueue s"
  "nextTimer (admitted n p st s) = nextTimer s"
  "outbox (admitted n p st s) = outbox s"
  by (simp_all add: admitted_def)

lemma claim_allowed_admitted [simp]: "claim_allowed (admitted n p st s) r = claim_allowed s r"
  by (simp add: claim_allowed_def hasPeer_def cong: option.case_cong)

lemma on_message_routed:
  "conns s w = Some c \<Longrightarrow> c_peerId c = Some p \<Longrightarrow> p \<noteq> [] \<Longrightarrow> msg_type m = Some ty \<Longrightarrow>
   fst (checkRateLimit now p s) \<Longrightarrow> ty \<noteq> lit ''heartbeat'' \<Longrightarrow>
   on_message ttl now fresh w (Some m) s =
     route now w p (c_sessionToken c) ty m (admitted now p (c_sessionToken c) s)"
  by (simp add: on_message_active active_routed admitted_def)

lemma msg_type_obj: "msg_type m = Some ty \<Longrightarrow> \<exists>kvs. m = JObj kvs"
  by (cases m) (simp_all add: msg_type_def)

lemma field_with_from:
  assumes "msg_type m = Some ty"
  shows "field (with_from m a) k = (if k = lit ''fromPeerId'' then Some (JStr a) else field m k)"
proof -
  obtain kvs where "m = JObj kvs" using msg_type_obj[OF assms] by blast
  then show ?thesis by (simp add: update_conv')
qed

lemma relay_ok:
  assumes "field m (lit ''targetPeerId'') = Some (JStr b)" and "isValidPeerId (Some (JStr b))"
    and "hasPeer s (Some b)"
  shows "relay w a m s = sendToPeer b (Relayed (with_from m a)) s"
  using assms by (simp add: relay_def Let_def del: isValidPeerId.simps)

lemma outbox_sendToPeer: "outbox (sendToPeer b x s) = outbox s @ deliveries s [b] x"
  by (simp add: sendToPeer_def deliveries_def outbox_sendTo split: option.splits)

lemma hasPeer_admitted [simp]: "hasPeer (admitted n p st s) = hasPeer s"
  by (simp add: hasPeer_def fun_eq_iff cong: option.case_cong)

lemma deliveries_admitted [simp]: "deliveries (admitted n p st s) = deliveries s"
  by (simp add: deliveries_def fun_eq_iff cong: option.case_cong if_cong)

lemma leave_room_not_in_room:
  "\<not> in_room s p \<Longrightarrow> leave_room now p st (getPeer s p) s = s"
  by (auto simp: leave_room_def in_room_def getPeer_def split: option.splits)

lemma peers_host_leaves: "peers (host_leaves now r s) = peers s"
  by simp

lemma leave_room_leaves: "\<not> in_room (leave_room now p st (getPeer s p) s) p"
  by (auto simp: leave_room_def in_room_def getPeer_def Let_def setPeer_def peer_with_room_def
      split: option.splits)

lemma in_room_admitted [simp]: "in_room (admitted n p st s) q = in_room s q"
  by (simp add: in_room_def)

lemma conns_leave_room [simp]: "conns (leave_room now p st pr s) = conns s"
  by (simp add: leave_room_def Let_def split: option.splits)

lemma join_room_ok:
  assumes "field m (lit ''roomId'') = Some (JStr y)" and "isValidRoomId (Some (JStr y))"
    and "rooms s y = Some ry" and "hasPeer s (hostPeerId ry)"
  shows "rooms (join_room w p st pr m s) =
           (rooms s)(y \<mapsto> ry\<lparr>members := (if p \<in> set (members ry) then members ry else members ry @ [p])\<rparr>)"
    and "peers (join_room w p st pr m s) = (peers s)(p \<mapsto> peer_with_room pr (Some y))"
    and "outbox (join_room w p st pr m s) =
           outbox s @ (if w \<in> open_ws s then [(w, JoinRoomSuccess y (hostPeerId ry))] else [])
             @ (case hostWsConnections s y of None \<Rightarrow> []
                | Some h \<Rightarrow> if h \<in> open_ws s then [(h, PeerConnecting p)] else [])"
    and "conns (join_room w p st pr m s) = conns s"
  using assms
  by (simp_all add: join_room_def getRoom_def Let_def outbox_sendTo addRoomMember_def setPeer_def
      del: isValidRoomId.simps split: option.splits)

lemma rooms_host_leaves:
  "rooms s r = Some v \<Longrightarrow> rooms (host_leaves now r s) = (rooms s)(r \<mapsto> v\<lparr>hostPeerId := None\<rparr>)"
  by (simp add: host_leaves_def Let_def rooms_setRoom)

lemma leave_room_in_room:
  assumes "peers s p = Some v" and "p_roomId v = Some y" and "y \<noteq> []" and "rooms s y = Some r"
  shows "rooms (leave_room now p st (getPeer s p) s) =
           (rooms s)(y \<mapsto> (if hostPeerId r = Some p then r\<lparr>hostPeerId := None\<rparr>
                             else r\<lparr>members := removeAll p (members r)\<rparr>))"
  using assms
  by (simp add: leave_room_def getPeer_def getRoom_def Let_def rooms_host_leaves removeRoomMember_def)

lemma deliveries_cong:
  "wsConnections s' = wsConnections s \<Longrightarrow> open_ws s' = open_ws s \<Longrightarrow> deliveries s' = deliveries s"
  by (simp add: deliveries_def fun_eq_iff cong: option.case_cong if_cong)

lemma restore_identity_fields:
  "conns (restore_identity now w c tok v s) =
     (conns s)(w \<mapsto> c\<lparr>c_peerId := Some (s_peerId v), c_sessionToken := Some tok\<rparr>)"
  "sessions (restore_identity now w c tok v s) = sessions (updateSessionLastSeen tok now s)"
  "wsConnections (restore_identity now w c tok v s) = (wsConnections s)(s_peerId v \<mapsto> w)"
  "peers (restore_identity now w c tok v s) =
     (peers s)(s_peerId v \<mapsto> \<lparr>p_roomId = s_roomId v, p_ip = Some (c_ip c), p_sessionToken = Some tok\<rparr>)"
  "open_ws (restore_identity now w c tok v s) =
     (case wsConnections s (s_peerId v) of
        None \<Rightarrow> open_ws s
      | Some oldWs \<Rightarrow> if oldWs \<noteq> w then open_ws s - {oldWs} else open_ws s)"
  "rooms (restore_identity now w c tok v s) = rooms s"
  "cleanupTimers (restore_identity now w c tok v s) = cleanupTimers s"
  "timerQueue (restore_identity now w c tok v s) = timerQueue s"
  "hostWsConnections (restore_identity now w c tok v s) = hostWsConnections s"
  "nextTimer (restore_identity now w c tok v s) = nextTimer s"
  "messageRates (restore_identity now w c tok v s) = messageRates s"
  "connectionsByIp (restore_identity now w c tok v s) = connectionsByIp s"
  by (simp_all add: restore_identity_def Let_def setPeer_def ws_close_def updateSessionLastSeen_def
      split: option.splits)

lemma restore_identity_outbox:
  "w \<in> open_ws s \<Longrightarrow>
   outbox (restore_identity now w c tok v s) = outbox s @ [(w, PeerIdRestored (s_peerId v) (s_roomId v))]"
  by (simp add: restore_identity_def Let_def outbox_sendTo ws_close_def split: option.splits)

lemma restore_membership_frame [simp]:
  "wsConnections (restore_membership w p r s) = wsConnections s"
  "connectionsByIp (restore_membership w p r s) = connectionsByIp s"
  "messageRates (restore_membership w p r s) = messageRates s"
  "sessions (restore_membership w p r s) = sessions s"
  "peers (restore_membership w p r s) = peers s"
  "conns (restore_membership w p r s) = conns s"
  "open_ws (restore_membership w p r s) = open_ws s"
  "nextTimer (restore_membership w p r s) = nextTimer s"
  by (simp_all add: restore_membership_def Let_def split: option.splits)

lemma restore_membership_no_room:
  "rooms s r = None \<Longrightarrow> restore_membership w p (Some r) s = s"
  by (simp add: restore_membership_def getRoom_def)

lemma restore_membership_members:
  assumes "rooms s r = Some room" and "r \<noteq> []"
  shows "getRoomMembers (restore_membership w p (Some r) s) r =
           (if p \<in> set (members room) \<or> hostPeerId room = Some p then members room
            else members room @ [p])"
  using assms
  by (simp add: restore_membership_def getRoom_def getRoomMembers_def Let_def rooms_setRoom
      addRoomMember_def)

lemma restore_membership_hosted:
  assumes "rooms s r = Some room" and "r \<noteq> []" and "truthy (hostPeerId room)"
  shows "host_of (restore_membership w p (Some r) s) r = hostPeerId room"
    and "outbox (restore_membership w p (Some r) s) = outbox s"
    and "cleanupTimers (restore_membership w p (Some r) s) = cleanupTimers s"
    and "timerQueue (restore_membership w p (Some r) s) = timerQueue s"
  using assms
  by (simp_all add: restore_membership_def getRoom_def getRoomMembers_def Let_def host_of_def
      addRoomMember_def)

lemma restore_membership_hostless:
  assumes "rooms s r = Some room" and "r \<noteq> []" and "\<not> truthy (hostPeerId room)"
  shows "host_of (restore_membership w p (Some r) s) r = Some p"
    and "hostWsConnections (restore_membership w p (Some r) s) r = Some w"
    and "cleanupTimers (restore_membership w p (Some r) s) r = None"
    and "cleanupTimers s r = Some t \<Longrightarrow> timerQueue (restore_membership w p (Some r) s) t = None"
    and "outbox (restore_membership w p (Some r) s) =
           outbox s @ deliveries s (getRoomMembers (restore_membership w p (Some r) s) r)
                       (HostReconnected r p)"
proof -
  let ?s6 = "if p \<notin> set (getRoomMembers s r) \<and> hostPeerId room \<noteq> Some p
             then addRoomMember r p s else s"
  let ?s8 = "(setRoom r (Some p) None ?s6)\<lparr>hostWsConnections :=
               (hostWsConnections (setRoom r (Some p) None ?s6))(r \<mapsto> w)\<rparr>"
  let ?s9 = "cancelCleanup r ?s8"
  have e: "restore_membership w p (Some r) s =
             notify_members (getRoomMembers ?s9 r) (HostReconnected r p) ?s9"
    using assms by (simp add: restore_membership_def getRoom_def Let_def)
  have rooms9: "rooms (restore_membership w p (Some r) s) = rooms ?s9"
    by (simp add: e)
  have m: "getRoomMembers (restore_membership w p (Some r) s) r = getRoomMembers ?s9 r"
    using rooms9 by (simp add: getRoomMembers_def)
  have d: "deliveries ?s9 = deliveries s"
    by (rule deliveries_cong) simp_all
  show "host_of (restore_membership w p (Some r) s) r = Some p"
    by (simp add: e host_of_def rooms_setRoom split: option.splits)
  show "hostWsConnections (restore_membership w p (Some r) s) r = Some w"
    by (simp add: e)
  show "cleanupTimers (restore_membership w p (Some r) s) r = None"
    by (simp add: e cancelCleanup_at)
  show "timerQueue (restore_membership w p (Some r) s) t = None" if "cleanupTimers s r = Some t"
  proof -
    have "cleanupTimers ?s8 r = Some t" using that by simp
    then show ?thesis by (simp add: e cancelCleanup_at)
  qed
  show "outbox (restore_membership w p (Some r) s) =
           outbox s @ deliveries s (getRoomMembers (restore_membership w p (Some r) s) r)
                       (HostReconnected r p)"
  proof -
    have o9: "outbox ?s9 = outbox s" by simp
    show ?thesis
      unfolding m unfolding e outbox_notify_members d o9 ..
  qed
qed

lemma on_message_restore:
  assumes "conns s w = Some c" and "\<not> truthy (c_peerId c)"
    and "msg_type m = Some (lit ''hello'')" and "field m (lit ''sessionToken'') = Some (JStr tok)"
    and "isValidSessionToken (Some (JStr tok))"
    and "getSession s tok = Some v" and "now - lastSeen v < ttl * 1000"
  shows "on_message ttl now fresh w (Some m) s =
           restore_membership w (s_peerId v) (s_roomId v)
             (restore_identity now w (c\<lparr>c_sessionToken := Some tok\<rparr>) tok v
                (s\<lparr>conns := (conns s)(w \<mapsto> c\<lparr>c_sessionToken := Some tok\<rparr>)\<rparr>))"
  using assms
  by (simp add: on_message_def handshake_def Let_def getSession_def restore_session_def
      del: isValidSessionToken.simps)

section \<open>Invariants of the reachable states\<close>

lemma timers_ok_frame [simp]:
  "timers_ok (ws_close w1 s) = timers_ok s"
  "timers_ok (sendTo wo2 m2 s) = timers_ok s"
  "timers_ok (sendToPeer p3 m3 s) = timers_ok s"
  "timers_ok (sendError w4 e4 r4 s) = timers_ok s"
  "timers_ok (notify_members ms5 m5 s) = timers_ok s"
  "timers_ok (setSession t6 v6 s) = timers_ok s"
  "timers_ok (updateSessionLastSeen t7 n7 s) = timers_ok s"
  "timers_ok (updateSessionRoom t8 r8 s) = timers_ok s"
  "timers_ok (setPeer p9 v9 s) = timers_ok s"
  "timers_ok (deletePeer p10 s) = timers_ok s"
  "timers_ok (setRoom r11 h11 c11 s) = timers_ok s"
  "timers_ok (deleteRoom r12 s) = timers_ok s"
  "timers_ok (addRoomMember r13 p13 s) = timers_ok s"
  "timers_ok (removeRoomMember r14 p14 s) = timers_ok s"
  "timers_ok (trackConnection i15 w15 s) = timers_ok s"
  "timers_ok (untrackConnection i16 w16 s) = timers_ok s"
  "timers_ok (admitted n17 p17 st17 s) = timers_ok s"
  "timers_ok (refresh_session t18 n18 s) = timers_ok s"
  "timers_ok (s\<lparr>wsConnections := x_wsConnections\<rparr>) = timers_ok s"
  "timers_ok (s\<lparr>hostWsConnections := x_hostWsConnections\<rparr>) = timers_ok s"
  "timers_ok (s\<lparr>connectionsByIp := x_connectionsByIp\<rparr>) = timers_ok s"
  "timers_ok (s\<lparr>messageRates := x_messageRates\<rparr>) = timers_ok s"
  "timers_ok (s\<lparr>sessions := x_sessions\<rparr>) = timers_ok s"
  "timers_ok (s\<lparr>peers := x_peers\<rparr>) = timers_ok s"
  "timers_ok (s\<lparr>rooms := x_rooms\<rparr>) = timers_ok s"
  "timers_ok (s\<lparr>conns := x_conns\<rparr>) = timers_ok s"
  "timers_ok (s\<lparr>open_ws := x_open_ws\<rparr>) = timers_ok s"
  "timers_ok (s\<lparr>outbox := x_outbox\<rparr>) = timers_ok s"
  by (simp_all add: timers_ok_def)

lemma registry_ok_frame [simp]:
  "registry_ok (ws_close w19 s) = registry_ok s"
  "registry_ok (sendTo wo20 m20 s) = registry_ok s"
  "registry_ok (sendToPeer p21 m21 s) = registry_ok s"
  "registry_ok (sendError w22 e22 r22 s) = registry_ok s"
  "registry_ok (notify_members ms23 m23 s) = registry_ok s"
  "registry_ok (setRoom r24 h24 c24 s) = registry_ok s"
  "registry_ok (deleteRoom r25 s) = registry_ok s"
  "registry_ok (addRoomMember r26 p26 s) = registry_ok s"
  "registry_ok (removeRoomMember r27 p27 s) = registry_ok s"
  "registry_ok (trackConnection i28 w28 s) = registry_ok s"
  "registry_ok (untrackConnection i29 w29 s) = registry_ok s"
  "registry_ok (clearTimeout t30 s) = registry_ok s"
  "registry_ok (cancelCleanup r31 s) = registry_ok s"
  "registry_ok (scheduleRoomCleanup n32 r32 s) = registry_ok s"
  "registry_ok (s\<lparr>hostWsConnections := x_hostWsConnections\<rparr>) = registry_ok s"
  "registry_ok (s\<lparr>connectionsByIp := x_connectionsByIp\<rparr>) = registry_ok s"
  "registry_ok (s\<lparr>messageRates := x_messageRates\<rparr>) = registry_ok s"
  "registry_ok (s\<lparr>cleanupTimers := x_cleanupTimers\<rparr>) = registry_ok s"
  "registry_ok (s\<lparr>rooms := x_rooms\<rparr>) = registry_ok s"
  "registry_ok (s\<lparr>conns := x_conns\<rparr>) = registry_ok s"
  "registry_ok (s\<lparr>open_ws := x_open_ws\<rparr>) = registry_ok s"
  "registry_ok (s\<lparr>timerQueue := x_timerQueue\<rparr>) = registry_ok s"
  "registry_ok (s\<lparr>nextTimer := x_nextTimer\<rparr>) = registry_ok s"
  "registry_ok (s\<lparr>outbox := x_outbox\<rparr>) = registry_ok s"
  by (simp_all add: registry_ok_def)

lemma registry_ok_checkRateLimit [simp]: "registry_ok (snd (checkRateLimit n p s)) = registry_ok s"
  by (simp add: registry_ok_def)

lemma timers_ok_checkRateLimit [simp]: "timers_ok (snd (checkRateLimit n p s)) = timers_ok s"
  by (simp add: timers_ok_def)

lemma set_alist_update: "e \<in> set (AList.update k v al) \<Longrightarrow> e = (k, v) \<or> e \<in> set al"
  by (induction al) (auto split: if_splits)

lemma registry_ok_setPeer: "registry_ok s \<Longrightarrow> p \<noteq> [] \<Longrightarrow> registry_ok (setPeer p v s)"
  by (auto simp: registry_ok_def setPeer_def)

lemma session_peer_nonempty:
  "registry_ok s \<Longrightarrow> map_of (sessions s) t = Some v \<Longrightarrow> s_peerId v \<noteq> []"
  by (auto simp: registry_ok_def dest!: map_of_SomeD)

lemma registry_ok_sessions_update:
  assumes "registry_ok s" and "s_peerId v \<noteq> []"
  shows "registry_ok (s\<lparr>sessions := AList.update t v (sessions s)\<rparr>)"
  using assms by (auto simp: registry_ok_def dest!: set_alist_update)

lemma registry_ok_updateSessionRoom: "registry_ok s \<Longrightarrow> registry_ok (updateSessionRoom t r s)"
  by (auto simp: updateSessionRoom_def split: option.splits
      intro!: registry_ok_sessions_update dest: session_peer_nonempty)

lemma registry_ok_updateSessionLastSeen:
  "registry_ok s \<Longrightarrow> registry_ok (updateSessionLastSeen t n s)"
  by (auto simp: updateSessionLastSeen_def split: option.splits
      intro!: registry_ok_sessions_update dest: session_peer_nonempty)

lemma registry_ok_refresh_session: "registry_ok s \<Longrightarrow> registry_ok (refresh_session t n s)"
  by (simp add: refresh_session_def registry_ok_updateSessionLastSeen split: option.splits)

lemma registry_ok_admitted: "registry_ok s \<Longrightarrow> registry_ok (admitted n p st s)"
  by (simp add: admitted_def registry_ok_refresh_session)

lemma registry_ok_host_leaves [simp]: "registry_ok (host_leaves n r s) = registry_ok s"
  by (simp add: host_leaves_def Let_def)

lemma registry_ok_query_room [simp]: "registry_ok (query_room w m s) = registry_ok s"
  by (simp add: query_room_def Let_def split: option.splits)

lemma registry_ok_relay [simp]: "registry_ok (relay w p m s) = registry_ok s"
  by (simp add: relay_def Let_def split: option.splits)

lemma registry_ok_register_host:
  "registry_ok s \<Longrightarrow> p \<noteq> [] \<Longrightarrow> registry_ok (register_host now w p st pr m s)"
  by (simp add: register_host_def Let_def registry_ok_updateSessionRoom registry_ok_setPeer
      split: option.splits)

lemma registry_ok_claim_host:
  "registry_ok s \<Longrightarrow> p \<noteq> [] \<Longrightarrow> registry_ok (claim_host now w p st pr m s)"
  by (simp add: claim_host_def Let_def registry_ok_updateSessionRoom registry_ok_setPeer
      split: option.splits)

lemma registry_ok_join_room:
  "registry_ok s \<Longrightarrow> p \<noteq> [] \<Longrightarrow> registry_ok (join_room w p st pr m s)"
  by (simp add: join_room_def Let_def registry_ok_updateSessionRoom registry_ok_setPeer
      split: option.splits)

lemma registry_ok_leave_room:
  "registry_ok s \<Longrightarrow> p \<noteq> [] \<Longrightarrow> registry_ok (leave_room now p st pr s)"
  by (simp add: leave_room_def Let_def registry_ok_updateSessionRoom registry_ok_setPeer
      split: option.splits)

lemma registry_ok_route:
  "registry_ok s \<Longrightarrow> p \<noteq> [] \<Longrightarrow> registry_ok (route now w p st ty m s)"
  by (simp add: route_def Let_def registry_ok_register_host registry_ok_claim_host
      registry_ok_join_room registry_ok_leave_room)

lemma registry_ok_active:
  "registry_ok s \<Longrightarrow> p \<noteq> [] \<Longrightarrow> registry_ok (active now w p st ty m s)"
  by (simp add: active_def case_prod_beta Let_def registry_ok_route registry_ok_refresh_session)

lemma registry_ok_new_session:
  "registry_ok s \<Longrightarrow> fresh \<noteq> [] \<Longrightarrow> registry_ok (new_session now fresh w c tok s)"
  by (auto simp: new_session_def Let_def registry_ok_def setSession_def setPeer_def
      dest!: set_alist_update)

lemma registry_ok_restore_identity:
  assumes "registry_ok s" and "map_of (sessions s) tok = Some v"
  shows "registry_ok (restore_identity now w c tok v s)"
proof -
  have "(tok, v) \<in> set (sessions s)" using assms(2) by (rule map_of_SomeD)
  then have p: "s_peerId v \<noteq> []" using assms(1) by (auto simp: registry_ok_def)
  have u: "registry_ok (updateSessionLastSeen tok now s)"
    using assms(1) by (rule registry_ok_updateSessionLastSeen)
  show ?thesis
    using u p
    by (auto simp: registry_ok_def restore_identity_fields)
qed

lemma registry_ok_restore_membership [simp]:
  "registry_ok (restore_membership w p r s) = registry_ok s"
  by (simp add: registry_ok_def)

lemma registry_ok_handshake:
  "registry_ok s \<Longrightarrow> fresh \<noteq> [] \<Longrightarrow> registry_ok (handshake ttl now fresh w c ty m s)"
  by (auto simp: handshake_def Let_def getSession_def restore_session_def
      intro!: registry_ok_new_session registry_ok_restore_identity split: option.splits)

lemma registry_ok_on_message:
  "registry_ok s \<Longrightarrow> fresh \<noteq> [] \<Longrightarrow> registry_ok (on_message ttl now fresh w dat s)"
  by (auto simp: on_message_def registry_ok_handshake registry_ok_active split: option.splits)

lemma registry_ok_on_connection: "registry_ok s \<Longrightarrow> registry_ok (on_connection ip w s)"
  by (simp add: on_connection_def Let_def)

lemma on_close_registry_fields:
  "sessions (on_close now w s) = sessions s"
  "wsConnections (on_close now w s) =
     (case conns s w of None \<Rightarrow> wsConnections s
      | Some c \<Rightarrow> (case c_peerId c of None \<Rightarrow> wsConnections s
          | Some p \<Rightarrow> if p = [] then wsConnections s else (wsConnections s)(p := None)))"
  "peers (on_close now w s) =
     (case conns s w of None \<Rightarrow> peers s
      | Some c \<Rightarrow> (case c_peerId c of None \<Rightarrow> peers s
          | Some p \<Rightarrow> if p = [] then peers s else (peers s)(p := None)))"
  by (simp_all add: on_close_def Let_def deletePeer_def getPeer_def getRoom_def split: option.splits)

lemma registry_ok_on_close: "registry_ok s \<Longrightarrow> registry_ok (on_close now w s)"
  unfolding registry_ok_def on_close_registry_fields
  by (auto split: option.splits)

lemma registry_ok_cleanup_callback [simp]: "registry_ok (cleanup_callback r s) = registry_ok s"
  by (simp add: cleanup_callback_def Let_def split: option.splits)

lemma registry_ok_on_timeout: "registry_ok s \<Longrightarrow> registry_ok (on_timeout t s)"
  by (simp add: on_timeout_def split: option.splits prod.splits)

lemma registry_ok_sweep_rates: "registry_ok s \<Longrightarrow> registry_ok (sweep_rates now s)"
  by (simp add: sweep_rates_def)

lemma registry_ok_fold_remove:
  "registry_ok (fold (\<lambda>(tok, v) st. case s_roomId v of None \<Rightarrow> st
       | Some r \<Rightarrow> if r = [] then st else removeRoomMember r (s_peerId v) st) xs s) = registry_ok s"
proof (induction xs arbitrary: s)
  case Nil
  show ?case by simp
next
  case (Cons x xs)
  show ?case by (cases x) (simp add: Cons.IH split: option.splits)
qed

lemma registry_ok_sessions_filter:
  "registry_ok s \<Longrightarrow> registry_ok (s\<lparr>sessions := filter P (sessions s)\<rparr>)"
  by (simp add: registry_ok_def)

lemma registry_ok_sweep_sessions: "registry_ok s \<Longrightarrow> registry_ok (sweep_sessions ttl now s)"
  by (simp add: sweep_sessions_def cleanupExpiredSessions_def registry_ok_fold_remove
      registry_ok_sessions_filter)

lemma registry_ok_step:
  "registry_ok s \<Longrightarrow> enabled e s \<Longrightarrow> registry_ok (apply_event ttl e s)"
proof (cases e)
  case (Message w now fresh dat)
  assume "registry_ok s" "enabled e s"
  then show ?thesis using Message by (auto intro!: registry_ok_on_message)
qed (simp_all add: registry_ok_on_connection registry_ok_on_close registry_ok_on_timeout
      registry_ok_sweep_rates registry_ok_sweep_sessions)

lemma timers_okD:
  assumes "timers_ok s"
  shows "timerQueue s t = Some (r, d) \<Longrightarrow> cleanupTimers s r = Some t"
    and "cleanupTimers s r = Some t \<Longrightarrow> t < nextTimer s"
    and "cleanupTimers s r = Some t \<Longrightarrow> cleanupTimers s r' = Some t \<Longrightarrow> r = r'"
  using assms unfolding timers_ok_def by blast+

lemma timers_okI:
  assumes "\<And>t r d. timerQueue s t = Some (r, d) \<Longrightarrow> cleanupTimers s r = Some t"
    and "\<And>r t. cleanupTimers s r = Some t \<Longrightarrow> t < nextTimer s"
    and "\<And>r r' t. cleanupTimers s r = Some t \<Longrightarrow> cleanupTimers s r' = Some t \<Longrightarrow> r = r'"
  shows "timers_ok s"
  using assms unfolding timers_ok_def by blast

lemma timers_ok_cancelCleanup: "timers_ok s \<Longrightarrow> timers_ok (cancelCleanup r s)"
proof (cases "cleanupTimers s r")
  case None
  assume "timers_ok s"
  then show ?thesis using None by (simp add: cancelCleanup_def)
next
  case (Some t0)
  assume ok: "timers_ok s"
  have q: "timerQueue (cancelCleanup r s) = (timerQueue s)(t0 := None)"
    and c: "cleanupTimers (cancelCleanup r s) = (cleanupTimers s)(r := None)"
    and n: "nextTimer (cancelCleanup r s) = nextTimer s"
    using Some by (simp_all add: cancelCleanup_def clearTimeout_def)
  show ?thesis
  proof (rule timers_okI; unfold q c n)
    fix t r' d assume h: "((timerQueue s)(t0 := None)) t = Some (r', d)"
    then have t: "t \<noteq> t0" and h': "timerQueue s t = Some (r', d)" by (auto split: if_splits)
    have k: "cleanupTimers s r' = Some t" using timers_okD(1)[OF ok h'] .
    then have "r' \<noteq> r" using Some t by auto
    then show "((cleanupTimers s)(r := None)) r' = Some t" using k by simp
  next
    fix r' t assume "((cleanupTimers s)(r := None)) r' = Some t"
    then have "cleanupTimers s r' = Some t" by (auto split: if_splits)
    then show "t < nextTimer s" using timers_okD(2)[OF ok] by blast
  next
    fix r1 r2 t
    assume "((cleanupTimers s)(r := None)) r1 = Some t" "((cleanupTimers s)(r := None)) r2 = Some t"
    then have "cleanupTimers s r1 = Some t" "cleanupTimers s r2 = Some t"
      by (auto split: if_splits)
    then show "r1 = r2" using timers_okD(3)[OF ok] by blast
  qed
qed

lemma scheduleRoomCleanup_fields:
  assumes "rooms s r = Some v"
  shows "timerQueue (scheduleRoomCleanup now r s) =
           ((case cleanupTimers s r of None \<Rightarrow> timerQueue s
             | Some t0 \<Rightarrow> (timerQueue s)(t0 := None)))(nextTimer s \<mapsto> (r, now + ROOM_CLEANUP_DELAY))"
    and "cleanupTimers (scheduleRoomCleanup now r s) = (cleanupTimers s)(r \<mapsto> nextTimer s)"
    and "nextTimer (scheduleRoomCleanup now r s) = Suc (nextTimer s)"
  using assms
  by (simp_all add: scheduleRoomCleanup_def getRoom_def clearTimeout_def Let_def split: option.splits)

lemma timers_ok_scheduleRoomCleanup: "timers_ok s \<Longrightarrow> timers_ok (scheduleRoomCleanup now r s)"
proof (cases "rooms s r")
  case None
  assume "timers_ok s"
  then show ?thesis using None by (simp add: scheduleRoomCleanup_def getRoom_def)
next
  case (Some v)
  assume ok: "timers_ok s"
  note f = scheduleRoomCleanup_fields[OF Some, of now]
  show ?thesis
  proof (rule timers_okI; unfold f)
    fix t r' d
    assume h: "((case cleanupTimers s r of None \<Rightarrow> timerQueue s
             | Some t0 \<Rightarrow> (timerQueue s)(t0 := None))(nextTimer s \<mapsto> (r, now + ROOM_CLEANUP_DELAY))) t
            = Some (r', d)"
    show "((cleanupTimers s)(r \<mapsto> nextTimer s)) r' = Some t"
    proof (cases "t = nextTimer s")
      case True
      then show ?thesis using h by simp
    next
      case False
      then have h': "timerQueue s t = Some (r', d)" and ne: "cleanupTimers s r \<noteq> Some t"
        using h by (auto split: option.splits if_splits)
      have k: "cleanupTimers s r' = Some t" using timers_okD(1)[OF ok h'] .
      then have "r' \<noteq> r" using ne by auto
      then show ?thesis using k by simp
    qed
  next
    fix r' t assume "((cleanupTimers s)(r \<mapsto> nextTimer s)) r' = Some t"
    then have "t = nextTimer s \<or> cleanupTimers s r' = Some t" by (auto split: if_splits)
    then show "t < Suc (nextTimer s)" using timers_okD(2)[OF ok] by (auto simp: less_Suc_eq)
  next
    fix r1 r2 t
    assume a: "((cleanupTimers s)(r \<mapsto> nextTimer s)) r1 = Some t"
      and b: "((cleanupTimers s)(r \<mapsto> nextTimer s)) r2 = Some t"
    have fresh: "cleanupTimers s x \<noteq> Some (nextTimer s)" for x
      using timers_okD(2)[OF ok, of x "nextTimer s"] by auto
    show "r1 = r2"
      using a b fresh timers_okD(3)[OF ok, of r1 t r2] by (auto split: if_splits)
  qed
qed

lemma timers_ok_host_leaves: "timers_ok s \<Longrightarrow> timers_ok (host_leaves now r s)"
  by (simp add: host_leaves_def Let_def timers_ok_scheduleRoomCleanup)

lemma timers_ok_on_timeout: "timers_ok s \<Longrightarrow> timers_ok (on_timeout t s)"
proof (cases "timerQueue s t")
  case None
  assume "timers_ok s"
  then show ?thesis using None by (simp add: on_timeout_def)
next
  case (Some a)
  assume ok: "timers_ok s"
  obtain r due where a: "a = (r, due)" by (cases a)
  let ?s0 = "s\<lparr>timerQueue := (timerQueue s)(t := None)\<rparr>"
  have ct: "cleanupTimers s r = Some t" using timers_okD(1)[OF ok] Some a by simp
  have ok0: "timers_ok ?s0"
    using ok unfolding timers_ok_def by (auto split: if_splits)
  have none: "timerQueue ?s0 t' \<noteq> Some (r, d)" for t' d
    using timers_okD(1)[OF ok, of t' r d] ct by auto
  have "timers_ok (cleanup_callback r ?s0)"
  proof (cases "getRoom ?s0 r")
    case None
    then show ?thesis using ok0 by (simp add: cleanup_callback_def)
  next
    case (Some room)
    show ?thesis
    proof (cases "truthy (hostPeerId room)")
      case True
      then show ?thesis using ok0 Some by (simp add: cleanup_callback_def)
    next
      case False
      have q: "timerQueue (cleanup_callback r ?s0) = timerQueue ?s0"
        and c: "cleanupTimers (cleanup_callback r ?s0) = (cleanupTimers ?s0)(r := None)"
        and n: "nextTimer (cleanup_callback r ?s0) = nextTimer ?s0"
        using False Some by (simp_all add: cleanup_callback_def Let_def)
      show ?thesis
      proof (rule timers_okI; unfold q c n)
        fix t' r' d assume h: "timerQueue ?s0 t' = Some (r', d)"
        then have "r' \<noteq> r" using none by blast
        moreover have "cleanupTimers ?s0 r' = Some t'" using timers_okD(1)[OF ok0 h] .
        ultimately show "((cleanupTimers ?s0)(r := None)) r' = Some t'" by simp
      next
        fix r' t' assume "((cleanupTimers ?s0)(r := None)) r' = Some t'"
        then have "cleanupTimers ?s0 r' = Some t'" by (auto split: if_splits)
        then show "t' < nextTimer ?s0" using timers_okD(2)[OF ok0] by blast
      next
        fix r1 r2 t'
        assume "((cleanupTimers ?s0)(r := None)) r1 = Some t'"
          "((cleanupTimers ?s0)(r := None)) r2 = Some t'"
        then have "cleanupTimers ?s0 r1 = Some t'" "cleanupTimers ?s0 r2 = Some t'"
          by (auto split: if_splits)
        then show "r1 = r2" using timers_okD(3)[OF ok0] by blast
      qed
    qed
  qed
  then show ?thesis using Some a by (simp add: on_timeout_def)
qed

lemma timers_ok_query_room [simp]: "timers_ok (query_room w m s) = timers_ok s"
  by (simp add: query_room_def Let_def split: option.splits)

lemma timers_ok_relay [simp]: "timers_ok (relay w p m s) = timers_ok s"
  by (simp add: relay_def Let_def split: option.splits)

lemma timers_ok_join_room [simp]: "timers_ok (join_room w p st pr m s) = timers_ok s"
  by (simp add: join_room_def Let_def split: option.splits)

lemma timers_ok_register_host: "timers_ok s \<Longrightarrow> timers_ok (register_host now w p st pr m s)"
  by (simp add: register_host_def Let_def timers_ok_cancelCleanup split: option.splits)

lemma timers_ok_claim_host: "timers_ok s \<Longrightarrow> timers_ok (claim_host now w p st pr m s)"
  by (simp add: claim_host_def Let_def timers_ok_cancelCleanup split: option.splits)

lemma timers_ok_leave_room: "timers_ok s \<Longrightarrow> timers_ok (leave_room now p st pr s)"
  by (simp add: leave_room_def Let_def timers_ok_host_leaves split: option.splits)

lemma timers_ok_route: "timers_ok s \<Longrightarrow> timers_ok (route now w p st ty m s)"
  by (simp add: route_def Let_def timers_ok_register_host timers_ok_claim_host timers_ok_leave_room)

lemma timers_ok_active: "timers_ok s \<Longrightarrow> timers_ok (active now w p st ty m s)"
  by (simp add: active_def case_prod_beta Let_def timers_ok_route)

lemma timers_ok_restore_identity [simp]:
  "timers_ok (restore_identity now w c tok v s) = timers_ok s"
  by (simp add: timers_ok_def restore_identity_fields)

lemma timers_ok_restore_membership:
  "timers_ok s \<Longrightarrow> timers_ok (restore_membership w p r s)"
  by (simp add: restore_membership_def Let_def timers_ok_cancelCleanup split: option.splits)

lemma timers_ok_new_session [simp]: "timers_ok (new_session now fresh w c tok s) = timers_ok s"
  by (simp add: new_session_def Let_def)

lemma timers_ok_handshake: "timers_ok s \<Longrightarrow> timers_ok (handshake ttl now fresh w c ty m s)"
  by (simp add: handshake_def Let_def restore_session_def timers_ok_restore_membership
      split: option.splits)

lemma timers_ok_on_message: "timers_ok s \<Longrightarrow> timers_ok (on_message ttl now fresh w dat s)"
  by (simp add: on_message_def timers_ok_handshake timers_ok_active split: option.splits)

lemma timers_ok_on_connection: "timers_ok s \<Longrightarrow> timers_ok (on_connection ip w s)"
  by (simp add: on_connection_def Let_def)

lemma timers_ok_on_close: "timers_ok s \<Longrightarrow> timers_ok (on_close now w s)"
  by (simp add: on_close_def Let_def getPeer_def getRoom_def timers_ok_host_leaves
      split: option.splits)

lemma timers_ok_fold_remove:
  "timers_ok (fold (\<lambda>(tok, v) st. case s_roomId v of None \<Rightarrow> st
       | Some r \<Rightarrow> if r = [] then st else removeRoomMember r (s_peerId v) st) xs s) = timers_ok s"
proof (induction xs arbitrary: s)
  case Nil
  show ?case by simp
next
  case (Cons x xs)
  show ?case by (cases x) (simp add: Cons.IH split: option.splits)
qed

lemma timers_ok_sweep_sessions: "timers_ok s \<Longrightarrow> timers_ok (sweep_sessions ttl now s)"
  by (simp add: sweep_sessions_def cleanupExpiredSessions_def timers_ok_fold_remove)

lemma timers_ok_step: "timers_ok s \<Longrightarrow> timers_ok (apply_event ttl e s)"
  by (cases e)
    (simp_all add: timers_ok_on_connection timers_ok_on_message timers_ok_on_close
      timers_ok_on_timeout timers_ok_sweep_sessions sweep_rates_def)

lemma reachable_invariants: "reachable ttl s \<Longrightarrow> registry_ok s \<and> timers_ok s"
proof (induction rule: reachable.induct)
  case reachable_init
  show ?case by (simp add: registry_ok_def timers_ok_def init_state_def)
next
  case (reachable_step s e)
  then show ?case by (simp add: registry_ok_step timers_ok_step)
qed

section \<open>How a room gets its host\<close>

lemma host_of_frame [simp]:
  "host_of (ws_close x1_0 s) a0 = host_of s a0"
  "host_of (sendTo x2_0 x2_1 s) a0 = host_of s a0"
  "host_of (sendToPeer x3_0 x3_1 s) a0 = host_of s a0"
  "host_of (sendError x4_0 x4_1 x4_2 s) a0 = host_of s a0"
  "host_of (notify_members x5_0 x5_1 s) a0 = host_of s a0"
  "host_of (setSession x6_0 x6_1 s) a0 = host_of s a0"
  "host_of (updateSessionLastSeen x7_0 x7_1 s) a0 = host_of s a0"
  "host_of (updateSessionRoom x8_0 x8_1 s) a0 = host_of s a0"
  "host_of (setPeer x9_0 x9_1 s) a0 = host_of s a0"
  "host_of (deletePeer x10_0 s) a0 = host_of s a0"
  "host_of (trackConnection x11_0 x11_1 s) a0 = host_of s a0"
  "host_of (untrackConnection x12_0 x12_1 s) a0 = host_of s a0"
  "host_of (clearTimeout x13_0 s) a0 = host_of s a0"
  "host_of (cancelCleanup x14_0 s) a0 = host_of s a0"
  "host_of (scheduleRoomCleanup x15_0 x15_1 s) a0 = host_of s a0"
  "host_of (admitted x16_0 x16_1 x16_2 s) a0 = host_of s a0"
  "host_of (refresh_session x17_0 x17_1 s) a0 = host_of s a0"
  "host_of (s\<lparr>wsConnections := x_wsConnections\<rparr>) a0 = host_of s a0"
  "host_of (s\<lparr>hostWsConnections := x_hostWsConnections\<rparr>) a0 = host_of s a0"
  "host_of (s\<lparr>connectionsByIp := x_connectionsByIp\<rparr>) a0 = host_of s a0"
  "host_of (s\<lparr>messageRates := x_messageRates\<rparr>) a0 = host_of s a0"
  "host_of (s\<lparr>cleanupTimers := x_cleanupTimers\<rparr>) a0 = host_of s a0"
  "host_of (s\<lparr>sessions := x_sessions\<rparr>) a0 = host_of s a0"
  "host_of (s\<lparr>peers := x_peers\<rparr>) a0 = host_of s a0"
  "host_of (s\<lparr>conns := x_conns\<rparr>) a0 = host_of s a0"
  "host_of (s\<lparr>open_ws := x_open_ws\<rparr>) a0 = host_of s a0"
  "host_of (s\<lparr>timerQueue := x_timerQueue\<rparr>) a0 = host_of s a0"
  "host_of (s\<lparr>nextTimer := x_nextTimer\<rparr>) a0 = host_of s a0"
  "host_of (s\<lparr>outbox := x_outbox\<rparr>) a0 = host_of s a0"
  "host_of (snd (checkRateLimit n p s)) a0 = host_of s a0"
  by (simp_all add: host_of_def)

lemma host_of_setRoom: "host_of (setRoom r h c s) r' = (if r' = r then h else host_of s r')"
  by (simp add: host_of_def rooms_setRoom split: option.splits)

lemma host_of_addRoomMember [simp]: "host_of (addRoomMember r p s) r' = host_of s r'"
  by (simp add: host_of_def addRoomMember_def split: option.splits)

lemma host_of_removeRoomMember [simp]: "host_of (removeRoomMember r p s) r' = host_of s r'"
  by (simp add: host_of_def removeRoomMember_def split: option.splits)

lemma host_of_deleteRoom: "host_of (deleteRoom r s) r' = (if r' = r then None else host_of s r')"
  by (simp add: host_of_def deleteRoom_def)

lemma host_of_host_leaves:
  "host_of (host_leaves now r s) r' = (if r' = r then None else host_of s r')"
  by (simp add: host_leaves_def Let_def host_of_setRoom)

lemma host_of_cong: "rooms s' = rooms s \<Longrightarrow> host_of s' r = host_of s r"
  by (simp add: host_of_def)

lemma live_host_cong:
  "rooms s' = rooms s \<Longrightarrow> wsConnections s' = wsConnections s \<Longrightarrow> live_host s' r = live_host s r"
  by (simp add: live_host_def live_def host_of_def cong: option.case_cong)

lemma claim_allowed_not_live:
  assumes "registry_ok s" and "claim_allowed s r"
  shows "\<not> live_host s r"
proof (cases "rooms s r")
  case None
  then show ?thesis by (simp add: live_host_def host_of_def)
next
  case (Some v)
  then have n: "\<not> hasPeer s (hostPeerId v)" using assms(2) by (simp add: claim_allowed_def)
  show ?thesis
  proof (cases "hostPeerId v")
    case None
    then show ?thesis using Some by (simp add: live_host_def host_of_def)
  next
    case (Some h)
    then have "peers s h = None" using n by (simp add: hasPeer_def)
    then have "wsConnections s h = None" using assms(1) by (auto simp: registry_ok_def)
    then show ?thesis using Some \<open>rooms s r = Some v\<close> by (simp add: live_host_def host_of_def live_def)
  qed
qed

lemma falsy_host_not_live:
  assumes "registry_ok s" and "\<not> truthy (host_of s r)"
  shows "\<not> live_host s r"
proof (cases "host_of s r")
  case None
  then show ?thesis by (simp add: live_host_def)
next
  case (Some h)
  then have "h = []" using assms(2) by simp
  moreover have "wsConnections s [] = None" using assms(1) by (auto simp: registry_ok_def)
  ultimately show ?thesis using Some by (simp add: live_host_def live_def)
qed

lemma host_register_host_cases:
  "host_of (register_host now w p st pr m s) r = host_of s r \<or> claim_allowed s r"
  by (simp add: register_host_def Let_def host_of_setRoom claim_allowed_def getRoom_def
      split: option.splits)

lemma host_register_host:
  assumes "host_of (register_host now w p st pr m s) r = Some q"
  shows "host_of s r = Some q \<or> claim_allowed s r"
  using assms host_register_host_cases[of now w p st pr m s r] by auto

lemma host_claim_host_cases:
  "host_of (claim_host now w p st pr m s) r = host_of s r \<or> claim_allowed s r"
  by (simp add: claim_host_def Let_def host_of_setRoom claim_allowed_def getRoom_def
      split: option.splits)

lemma host_claim_host:
  assumes "host_of (claim_host now w p st pr m s) r = Some q"
  shows "host_of s r = Some q \<or> claim_allowed s r"
  using assms host_claim_host_cases[of now w p st pr m s r] by auto

lemma host_join_room [simp]: "host_of (join_room w p st pr m s) r = host_of s r"
  by (simp add: join_room_def Let_def split: option.splits)

lemma host_query_room [simp]: "host_of (query_room w m s) r = host_of s r"
  by (simp add: query_room_def Let_def split: option.splits)

lemma host_relay [simp]: "host_of (relay w p m s) r = host_of s r"
  by (simp add: relay_def Let_def split: option.splits)

lemma host_leave_room_cases:
  "host_of (leave_room now p st pr s) r = host_of s r \<or> host_of (leave_room now p st pr s) r = None"
  by (simp add: leave_room_def Let_def host_of_host_leaves split: option.splits)

lemma host_leave_room:
  "host_of (leave_room now p st pr s) r = Some q \<Longrightarrow> host_of s r = Some q"
  using host_leave_room_cases[of now p st pr s r] by auto

lemma host_route:
  assumes "host_of (route now w p st ty m s) r = Some q"
  shows "host_of s r = Some q \<or> claim_allowed s r"
proof -
  have "route now w p st ty m s = register_host now w p st (getPeer s p) m s
    \<or> route now w p st ty m s = claim_host now w p st (getPeer s p) m s
    \<or> route now w p st ty m s = leave_room now p st (getPeer s p) s
    \<or> host_of (route now w p st ty m s) r = host_of s r"
    by (simp add: route_def Let_def)
  then consider "route now w p st ty m s = register_host now w p st (getPeer s p) m s"
    | "route now w p st ty m s = claim_host now w p st (getPeer s p) m s"
    | "route now w p st ty m s = leave_room now p st (getPeer s p) s"
    | "host_of (route now w p st ty m s) r = host_of s r"
    by blast
  then show ?thesis
  proof cases
    case 1
    then show ?thesis using assms host_register_host by metis
  next
    case 2
    then show ?thesis using assms host_claim_host by metis
  next
    case 3
    then show ?thesis using assms host_leave_room by metis
  next
    case 4
    then show ?thesis using assms by simp
  qed
qed

lemma host_active:
  assumes "host_of (active now w p st ty m s) r = Some q"
  shows "host_of s r = Some q \<or> claim_allowed s r"
proof (cases "fst (checkRateLimit now p s)")
  case False
  then show ?thesis using assms by (simp add: active_rejected)
next
  case True
  show ?thesis
  proof (cases "ty = lit ''heartbeat''")
    case True
    then show ?thesis using assms \<open>fst (checkRateLimit now p s)\<close> by (simp add: active_heartbeat)
  next
    case False
    then have "host_of (route now w p st ty m (admitted now p st s)) r = Some q"
      using assms True by (simp add: active_routed admitted_def)
    then show ?thesis using host_route[of now w p st ty m "admitted now p st s" r q] by simp
  qed
qed

lemma host_restore_membership_cases:
  "host_of (restore_membership w p pr s) r = host_of s r \<or>
   (\<not> truthy (host_of s r) \<and> host_of (restore_membership w p pr s) r = Some p)"
proof (cases pr)
  case None
  then show ?thesis by (simp add: restore_membership_def)
next
  case (Some x)
  show ?thesis
  proof (cases "rooms s x")
    case None
    then show ?thesis using Some by (simp add: restore_membership_def getRoom_def)
  next
    case (Some room)
    have h: "host_of s x = hostPeerId room" using Some by (simp add: host_of_def)
    show ?thesis
      using \<open>pr = Some x\<close> Some h
      by (simp add: restore_membership_def getRoom_def Let_def host_of_setRoom)
  qed
qed

lemma host_restore_membership:
  assumes "host_of (restore_membership w p pr s) r = Some q"
  shows "host_of s r = Some q \<or> \<not> truthy (host_of s r)"
  using assms host_restore_membership_cases[of w p pr s r] by auto

lemma host_restore_identity [simp]: "host_of (restore_identity now w c tok v s) r = host_of s r"
  by (simp add: host_of_def restore_identity_fields)

lemma host_new_session [simp]: "host_of (new_session now fresh w c tok s) r = host_of s r"
  by (simp add: new_session_def Let_def)

lemma host_restore_session_cases:
  "host_of (restore_session now w c tok v s) r = host_of s r \<or>
   (\<not> truthy (host_of s r) \<and> host_of (restore_session now w c tok v s) r = Some (s_peerId v))"
  using host_restore_membership_cases[of w "s_peerId v" "s_roomId v"
      "restore_identity now w c tok v s" r]
  by (simp add: restore_session_def)

lemma host_handshake_cases:
  "host_of (handshake ttl now fresh w c ty m s) r = host_of s r \<or>
   (\<not> truthy (host_of s r) \<and> (\<exists>p. host_of (handshake ttl now fresh w c ty m s) r = Some p))"
proof (cases "ty = lit ''hello'' \<and> isValidSessionToken (field m (lit ''sessionToken''))")
  case False
  then show ?thesis by (auto simp: handshake_def Let_def)
next
  case True
  let ?c1 = "c\<lparr>c_sessionToken := str_of (field m (lit ''sessionToken''))\<rparr>"
  let ?s1 = "s\<lparr>conns := (conns s)(w \<mapsto> ?c1)\<rparr>"
  have h1: "host_of ?s1 r = host_of s r" by simp
  show ?thesis
  proof (cases "str_of (field m (lit ''sessionToken''))")
    case None
    then show ?thesis using True by (simp add: handshake_def Let_def)
  next
    case (Some tok)
    show ?thesis
    proof (cases "getSession ?s1 tok")
      case None
      then show ?thesis using True Some by (simp add: handshake_def Let_def)
    next
      case (Some v)
      show ?thesis
      proof (cases "now - lastSeen v < ttl * 1000")
        case False
        then show ?thesis
          using True \<open>str_of (field m (lit ''sessionToken'')) = Some tok\<close> Some
          by (simp add: handshake_def Let_def)
      next
        case fresh: True
        have e: "handshake ttl now fresh w c ty m s = restore_session now w ?c1 tok v ?s1"
          using True \<open>str_of (field m (lit ''sessionToken'')) = Some tok\<close> Some fresh
          by (simp add: handshake_def Let_def)
        show ?thesis
          using host_restore_session_cases[of now w ?c1 tok v ?s1 r] h1 unfolding e by auto
      qed
    qed
  qed
qed

lemma host_handshake:
  assumes "host_of (handshake ttl now fresh w c ty m s) r = Some q"
  shows "host_of s r = Some q \<or> \<not> truthy (host_of s r)"
  using assms host_handshake_cases[of ttl now fresh w c ty m s r] by auto

lemma host_on_message:
  assumes "registry_ok s" and "host_of (on_message ttl now fresh w dat s) r = Some q"
  shows "host_of s r = Some q \<or> \<not> live_host s r"
proof -
  have "host_of (on_message ttl now fresh w dat s) r = host_of s r
    \<or> (\<exists>c ty m. on_message ttl now fresh w dat s = handshake ttl now fresh w c ty m s)
    \<or> (\<exists>p st ty m. on_message ttl now fresh w dat s = active now w p st ty m s)"
    by (simp add: on_message_def split: option.splits) blast
  then consider "host_of (on_message ttl now fresh w dat s) r = host_of s r"
    | c ty m where "on_message ttl now fresh w dat s = handshake ttl now fresh w c ty m s"
    | p st ty m where "on_message ttl now fresh w dat s = active now w p st ty m s"
    by blast
  then have "host_of s r = Some q \<or> claim_allowed s r \<or> \<not> truthy (host_of s r)"
  proof cases
    case 1
    then show ?thesis using assms(2) by simp
  next
    case 2
    then show ?thesis using assms(2) host_handshake by metis
  next
    case 3
    then show ?thesis using assms(2) host_active by metis
  qed
  then show ?thesis
    using claim_allowed_not_live[OF assms(1)] falsy_host_not_live[OF assms(1)] by blast
qed

lemma host_on_close_cases:
  "host_of (on_close now w s) r = host_of s r \<or> host_of (on_close now w s) r = None"
  by (simp add: on_close_def Let_def host_of_host_leaves getPeer_def getRoom_def
      split: option.splits)

lemma host_on_close: "host_of (on_close now w s) r = Some q \<Longrightarrow> host_of s r = Some q"
  using host_on_close_cases[of now w s r] by auto

lemma host_on_timeout_cases:
  "host_of (on_timeout t s) r = host_of s r \<or> host_of (on_timeout t s) r = None"
  by (simp add: on_timeout_def cleanup_callback_def Let_def host_of_deleteRoom
      split: option.splits prod.splits)

lemma host_on_timeout: "host_of (on_timeout t s) r = Some q \<Longrightarrow> host_of s r = Some q"
  using host_on_timeout_cases[of t s r] by auto

lemma host_on_connection [simp]: "host_of (on_connection ip w s) r = host_of s r"
  by (simp add: on_connection_def Let_def)

lemma host_fold_remove:
  "host_of (fold (\<lambda>(tok, v) st. case s_roomId v of None \<Rightarrow> st
       | Some r \<Rightarrow> if r = [] then st else removeRoomMember r (s_peerId v) st) xs s) r = host_of s r"
proof (induction xs arbitrary: s)
  case Nil
  show ?case by simp
next
  case (Cons x xs)
  show ?case by (cases x) (simp add: Cons.IH split: option.splits)
qed

lemma host_sweep_sessions [simp]: "host_of (sweep_sessions ttl now s) r = host_of s r"
  by (simp add: sweep_sessions_def cleanupExpiredSessions_def host_fold_remove)

lemma host_step:
  assumes "registry_ok s" and "host_of (apply_event ttl e s) r = Some q"
  shows "host_of s r = Some q \<or> \<not> live_host s r"
proof (cases e)
  case (Connection ip w)
  then have "host_of (apply_event ttl e s) r = host_of s r" by simp
  then show ?thesis using assms(2) by simp
next
  case (Message w now fresh dat)
  then show ?thesis using assms host_on_message by simp
next
  case (Close w now)
  then have "host_of (on_close now w s) r = Some q" using assms(2) by simp
  then show ?thesis using host_on_close by blast
next
  case (Drop w)
  then have "host_of (apply_event ttl e s) r = host_of s r" by simp
  then show ?thesis using assms(2) by simp
next
  case (Timeout t now)
  then have "host_of (on_timeout t s) r = Some q" using assms(2) by simp
  then show ?thesis using host_on_timeout by blast
next
  case (RateSweep now)
  then have "host_of (apply_event ttl e s) r = host_of s r"
    by (simp add: sweep_rates_def host_of_def)
  then show ?thesis using assms(2) by simp
next
  case (SessionSweep now)
  then have "host_of (apply_event ttl e s) r = host_of s r" by simp
  then show ?thesis using assms(2) by simp
qed

section \<open>Who sends room-closed\<close>

lemma closed_msgs_frame [simp]:
  "closed_msgs (ws_close x1_0 s) a0 = closed_msgs s a0"
  "closed_msgs (setSession x2_0 x2_1 s) a0 = closed_msgs s a0"
  "closed_msgs (updateSessionLastSeen x3_0 x3_1 s) a0 = closed_msgs s a0"
  "closed_msgs (updateSessionRoom x4_0 x4_1 s) a0 = closed_msgs s a0"
  "closed_msgs (setPeer x5_0 x5_1 s) a0 = closed_msgs s a0"
  "closed_msgs (deletePeer x6_0 s) a0 = closed_msgs s a0"
  "closed_msgs (setRoom x7_0 x7_1 x7_2 s) a0 = closed_msgs s a0"
  "closed_msgs (deleteRoom x8_0 s) a0 = closed_msgs s a0"
  "closed_msgs (addRoomMember x9_0 x9_1 s) a0 = closed_msgs s a0"
  "closed_msgs (removeRoomMember x10_0 x10_1 s) a0 = closed_msgs s a0"
  "closed_msgs (trackConnection x11_0 x11_1 s) a0 = closed_msgs s a0"
  "closed_msgs (untrackConnection x12_0 x12_1 s) a0 = closed_msgs s a0"
  "closed_msgs (clearTimeout x13_0 s) a0 = closed_msgs s a0"
  "closed_msgs (cancelCleanup x14_0 s) a0 = closed_msgs s a0"
  "closed_msgs (scheduleRoomCleanup x15_0 x15_1 s) a0 = closed_msgs s a0"
  "closed_msgs (admitted x16_0 x16_1 x16_2 s) a0 = closed_msgs s a0"
  "closed_msgs (refresh_session x17_0 x17_1 s) a0 = closed_msgs s a0"
  "closed_msgs (s\<lparr>wsConnections := x_wsConnections\<rparr>) a0 = closed_msgs s a0"
  "closed_msgs (s\<lparr>hostWsConnections := x_hostWsConnections\<rparr>) a0 = closed_msgs s a0"
  "closed_msgs (s\<lparr>connectionsByIp := x_connectionsByIp\<rparr>) a0 = closed_msgs s a0"
  "closed_msgs (s\<lparr>messageRates := x_messageRates\<rparr>) a0 = closed_msgs s a0"
  "closed_msgs (s\<lparr>cleanupTimers := x_cleanupTimers\<rparr>) a0 = closed_msgs s a0"
  "closed_msgs (s\<lparr>sessions := x_sessions\<rparr>) a0 = closed_msgs s a0"
  "closed_msgs (s\<lparr>peers := x_peers\<rparr>) a0 = closed_msgs s a0"
  "closed_msgs (s\<lparr>rooms := x_rooms\<rparr>) a0 = closed_msgs s a0"
  "closed_msgs (s\<lparr>conns := x_conns\<rparr>) a0 = closed_msgs s a0"
  "closed_msgs (s\<lparr>open_ws := x_open_ws\<rparr>) a0 = closed_msgs s a0"
  "closed_msgs (s\<lparr>timerQueue := x_timerQueue\<rparr>) a0 = closed_msgs s a0"
  "closed_msgs (s\<lparr>nextTimer := x_nextTimer\<rparr>) a0 = closed_msgs s a0"
  "closed_msgs (snd (checkRateLimit n p s)) a0 = closed_msgs s a0"
  by (simp_all add: closed_msgs_def)

lemma closed_msgs_sendTo:
  "\<not> is_room_closed r m \<Longrightarrow> closed_msgs (sendTo w m s) r = closed_msgs s r"
  by (simp add: closed_msgs_def sendTo_def split: option.splits)

lemma closed_msgs_sendError [simp]: "closed_msgs (sendError w e x s) r = closed_msgs s r"
  by (simp add: sendError_def closed_msgs_sendTo)

lemma closed_msgs_sendToPeer:
  "\<not> is_room_closed r m \<Longrightarrow> closed_msgs (sendToPeer p m s) r = closed_msgs s r"
  by (simp add: sendToPeer_def closed_msgs_sendTo split: option.splits)

lemma closed_msgs_notify_members:
  "\<not> is_room_closed r m \<Longrightarrow> closed_msgs (notify_members ps m s) r = closed_msgs s r"
  unfolding notify_members_def
  by (induction ps arbitrary: s) (simp_all add: closed_msgs_sendToPeer)

lemma closed_msgs_host_leaves [simp]: "closed_msgs (host_leaves now r' s) r = closed_msgs s r"
  by (simp add: host_leaves_def Let_def closed_msgs_notify_members)

lemma closed_msgs_query_room [simp]: "closed_msgs (query_room w m s) r = closed_msgs s r"
  by (simp add: query_room_def Let_def closed_msgs_sendTo split: option.splits)

lemma closed_msgs_relay [simp]: "closed_msgs (relay w p m s) r = closed_msgs s r"
  by (simp add: relay_def Let_def closed_msgs_sendToPeer split: option.splits)

lemma closed_msgs_register_host [simp]:
  "closed_msgs (register_host now w p st pr m s) r = closed_msgs s r"
  by (simp add: register_host_def Let_def closed_msgs_sendTo split: option.splits)

lemma closed_msgs_claim_host [simp]:
  "closed_msgs (claim_host now w p st pr m s) r = closed_msgs s r"
  by (simp add: claim_host_def Let_def closed_msgs_sendTo split: option.splits)

lemma closed_msgs_join_room [simp]:
  "closed_msgs (join_room w p st pr m s) r = closed_msgs s r"
  by (simp add: join_room_def Let_def closed_msgs_sendTo split: option.splits)

lemma closed_msgs_leave_room [simp]:
  "closed_msgs (leave_room now p st pr s) r = closed_msgs s r"
  by (simp add: leave_room_def Let_def split: option.splits)

lemma closed_msgs_route [simp]: "closed_msgs (route now w p st ty m s) r = closed_msgs s r"
  by (simp add: route_def Let_def)

lemma closed_msgs_active [simp]: "closed_msgs (active now w p st ty m s) r = closed_msgs s r"
  by (simp add: active_def case_prod_beta Let_def closed_msgs_sendTo)

lemma closed_msgs_restore_identity [simp]:
  "closed_msgs (restore_identity now w c tok v s) r = closed_msgs s r"
  by (simp add: restore_identity_def Let_def closed_msgs_sendTo split: option.splits)

lemma closed_msgs_restore_membership [simp]:
  "closed_msgs (restore_membership w p pr s) r = closed_msgs s r"
  by (simp add: restore_membership_def Let_def closed_msgs_notify_members split: option.splits)

lemma closed_msgs_new_session [simp]:
  "closed_msgs (new_session now fresh w c tok s) r = closed_msgs s r"
  by (simp add: new_session_def Let_def closed_msgs_sendTo)

lemma closed_msgs_handshake [simp]:
  "closed_msgs (handshake ttl now fresh w c ty m s) r = closed_msgs s r"
  by (simp add: handshake_def Let_def restore_session_def split: option.splits)

lemma closed_msgs_on_message [simp]:
  "closed_msgs (on_message ttl now fresh w dat s) r = closed_msgs s r"
  by (simp add: on_message_def split: option.splits)

lemma closed_msgs_on_connection [simp]: "closed_msgs (on_connection ip w s) r = closed_msgs s r"
  by (simp add: on_connection_def Let_def closed_msgs_sendTo)

lemma closed_msgs_on_close [simp]: "closed_msgs (on_close now w s) r = closed_msgs s r"
  by (simp add: on_close_def Let_def getPeer_def getRoom_def split: option.splits)

lemma closed_msgs_fold_remove:
  "closed_msgs (fold (\<lambda>(tok, v) st. case s_roomId v of None \<Rightarrow> st
       | Some r \<Rightarrow> if r = [] then st else removeRoomMember r (s_peerId v) st) xs s) r = closed_msgs s r"
proof (induction xs arbitrary: s)
  case Nil
  show ?case by simp
next
  case (Cons x xs)
  show ?case by (cases x) (simp add: Cons.IH split: option.splits)
qed

lemma closed_msgs_sweep_sessions [simp]:
  "closed_msgs (sweep_sessions ttl now s) r = closed_msgs s r"
  by (simp add: sweep_sessions_def cleanupExpiredSessions_def closed_msgs_fold_remove)

lemma closed_msgs_cleanup_callback:
  "r' \<noteq> r \<Longrightarrow> closed_msgs (cleanup_callback r' s) r = closed_msgs s r"
  by (simp add: cleanup_callback_def Let_def closed_msgs_notify_members split: option.splits)

lemma closed_msgs_on_timeout:
  "\<forall>d. timerQueue s t \<noteq> Some (r, d) \<Longrightarrow>
   closed_msgs (on_timeout t s) r = closed_msgs s r"
  by (auto simp: on_timeout_def closed_msgs_cleanup_callback split: option.splits)

lemma closed_step:
  assumes "closed_msgs (apply_event ttl e s) r \<noteq> closed_msgs s r"
  shows "\<exists>t now due. e = Timeout t now \<and> timerQueue s t = Some (r, due)"
proof (cases e)
  case (Timeout t now)
  then have "closed_msgs (on_timeout t s) r \<noteq> closed_msgs s r" using assms by simp
  then have "\<exists>d. timerQueue s t = Some (r, d)"
    using closed_msgs_on_timeout[of s t r] by blast
  then show ?thesis using Timeout by blast
qed (use assms in \<open>simp_all add: sweep_rates_def\<close>)

section \<open>The grace period\<close>

lemma room_view_frame [simp]:
  "room_view (ws_close x1_0 s) a0 = room_view s a0"
  "room_view (sendTo x2_0 x2_1 s) a0 = room_view s a0"
  "room_view (sendToPeer x3_0 x3_1 s) a0 = room_view s a0"
  "room_view (sendError x4_0 x4_1 x4_2 s) a0 = room_view s a0"
  "room_view (notify_members x5_0 x5_1 s) a0 = room_view s a0"
  "room_view (setSession x6_0 x6_1 s) a0 = room_view s a0"
  "room_view (updateSessionLastSeen x7_0 x7_1 s) a0 = room_view s a0"
  "room_view (updateSessionRoom x8_0 x8_1 s) a0 = room_view s a0"
  "room_view (setPeer x9_0 x9_1 s) a0 = room_view s a0"
  "room_view (deletePeer x10_0 s) a0 = room_view s a0"
  "room_view (trackConnection x11_0 x11_1 s) a0 = room_view s a0"
  "room_view (untrackConnection x12_0 x12_1 s) a0 = room_view s a0"
  "room_view (admitted x13_0 x13_1 x13_2 s) a0 = room_view s a0"
  "room_view (refresh_session x14_0 x14_1 s) a0 = room_view s a0"
  "room_view (s\<lparr>wsConnections := x_wsConnections\<rparr>) a0 = room_view s a0"
  "room_view (s\<lparr>hostWsConnections := x_hostWsConnections\<rparr>) a0 = room_view s a0"
  "room_view (s\<lparr>connectionsByIp := x_connectionsByIp\<rparr>) a0 = room_view s a0"
  "room_view (s\<lparr>messageRates := x_messageRates\<rparr>) a0 = room_view s a0"
  "room_view (s\<lparr>sessions := x_sessions\<rparr>) a0 = room_view s a0"
  "room_view (s\<lparr>peers := x_peers\<rparr>) a0 = room_view s a0"
  "room_view (s\<lparr>conns := x_conns\<rparr>) a0 = room_view s a0"
  "room_view (s\<lparr>open_ws := x_open_ws\<rparr>) a0 = room_view s a0"
  "room_view (s\<lparr>nextTimer := x_nextTimer\<rparr>) a0 = room_view s a0"
  "room_view (s\<lparr>outbox := x_outbox\<rparr>) a0 = room_view s a0"
  "room_view (snd (checkRateLimit n p s)) a0 = room_view s a0"
  by (simp_all add: room_view_def)

lemma room_view_cong:
  "rooms s' = rooms s \<Longrightarrow> cleanupTimers s' = cleanupTimers s \<Longrightarrow> timerQueue s' = timerQueue s \<Longrightarrow>
   room_view s' r = room_view s r"
  by (simp add: room_view_def)

lemma view_setRoom_other: "r \<noteq> r' \<Longrightarrow> room_view (setRoom r' h c s) r = room_view s r"
  by (simp add: room_view_def rooms_setRoom)

lemma view_setRoom_same:
  "room_view (setRoom r h c s) r =
     (Some h, cleanupTimers s r, Option.bind (cleanupTimers s r) (timerQueue s))"
  by (simp add: room_view_def rooms_setRoom split: option.splits)

lemma view_addRoomMember [simp]: "room_view (addRoomMember r' p s) r = room_view s r"
  by (simp add: room_view_def addRoomMember_def split: option.splits)

lemma view_removeRoomMember [simp]: "room_view (removeRoomMember r' p s) r = room_view s r"
  by (simp add: room_view_def removeRoomMember_def split: option.splits)

lemma view_cancelCleanup_same:
  "room_view (cancelCleanup r s) r = (map_option hostPeerId (rooms s r), None, None)"
  by (simp add: room_view_def cancelCleanup_at)

lemma view_cancelCleanup_other:
  assumes "timers_ok s" and "r \<noteq> r'"
  shows "room_view (cancelCleanup r' s) r = room_view s r"
proof (cases "cleanupTimers s r'")
  case None
  then show ?thesis by (simp add: cancelCleanup_def)
next
  case (Some t0)
  have ne: "cleanupTimers s r \<noteq> Some t0" using timers_okD(3)[OF assms(1) _ Some] assms(2) by blast
  show ?thesis
    using Some ne assms(2)
    by (cases "cleanupTimers s r")
      (auto simp: room_view_def cancelCleanup_def clearTimeout_def split: option.splits)
qed

lemma view_scheduleRoomCleanup_other:
  assumes "timers_ok s" and "r \<noteq> r'"
  shows "room_view (scheduleRoomCleanup now r' s) r = room_view s r"
proof (cases "rooms s r'")
  case None
  then show ?thesis by (simp add: scheduleRoomCleanup_def getRoom_def)
next
  case (Some v)
  note f = scheduleRoomCleanup_fields[OF Some, of now]
  have rm: "rooms (scheduleRoomCleanup now r' s) = rooms s" by simp
  have fresh: "cleanupTimers s r \<noteq> Some (nextTimer s)"
    using timers_okD(2)[OF assms(1), of r "nextTimer s"] by auto
  have inj: "cleanupTimers s r' = Some t0 \<Longrightarrow> cleanupTimers s r \<noteq> Some t0" for t0
    using timers_okD(3)[OF assms(1), of r t0 r'] assms(2) by blast
  show ?thesis
    unfolding room_view_def rm f using assms(2) fresh inj
    by (cases "cleanupTimers s r") (auto split: option.splits)
qed

lemma view_scheduleRoomCleanup_same:
  assumes "rooms s r = Some v"
  shows "room_view (scheduleRoomCleanup now r s) r =
           (Some (hostPeerId v), Some (nextTimer s), Some (r, now + ROOM_CLEANUP_DELAY))"
proof -
  note f = scheduleRoomCleanup_fields[OF assms, of now]
  have rm: "rooms (scheduleRoomCleanup now r s) = rooms s" by simp
  show ?thesis unfolding room_view_def rm f using assms by simp
qed

lemma view_host_leaves_other:
  assumes "timers_ok s" and "r \<noteq> r'"
  shows "room_view (host_leaves now r' s) r = room_view s r"
proof -
  let ?s3 = "(setRoom r' None None (notify_members (getRoomMembers s r') (HostDisconnected r') s))
               \<lparr>hostWsConnections := (hostWsConnections s)(r' := None)\<rparr>"
  have e: "host_leaves now r' s = scheduleRoomCleanup now r' ?s3"
    by (simp add: host_leaves_def Let_def)
  have ok: "timers_ok ?s3" using assms(1) by simp
  have "room_view (host_leaves now r' s) r = room_view ?s3 r"
    unfolding e by (rule view_scheduleRoomCleanup_other[OF ok assms(2)])
  then show ?thesis using assms(2) by (simp add: view_setRoom_other)
qed

lemma view_host_leaves_same:
  "\<exists>t d. room_view (host_leaves now r s) r = (Some None, Some t, Some (r, d))"
proof -
  let ?s3 = "(setRoom r None None (notify_members (getRoomMembers s r) (HostDisconnected r) s))
               \<lparr>hostWsConnections := (hostWsConnections s)(r := None)\<rparr>"
  have e: "host_leaves now r s = scheduleRoomCleanup now r ?s3"
    by (simp add: host_leaves_def Let_def)
  obtain v where v: "rooms ?s3 r = Some v" and h: "hostPeerId v = None"
    by (simp add: rooms_setRoom split: option.splits)
  show ?thesis
    unfolding e using view_scheduleRoomCleanup_same[OF v, of now] h by auto
qed

lemma host_of_view: "host_of s r = (case fst (room_view s r) of None \<Rightarrow> None | Some h \<Rightarrow> h)"
  by (simp add: host_of_def room_view_def split: option.splits)

lemma view_step_same: "room_view s' r = room_view s r \<Longrightarrow> view_step s s' r"
  by (simp add: view_step_def)

lemma view_step_installed:
  "p \<noteq> [] \<Longrightarrow> room_view s' r = (Some (Some p), None, None) \<Longrightarrow> view_step s s' r"
  by (auto simp: view_step_def)

lemma view_step_lost:
  "truthy (host_of s r) \<Longrightarrow> \<exists>t d. room_view s' r = (Some None, Some t, Some (r, d)) \<Longrightarrow>
   view_step s s' r"
  by (auto simp: view_step_def)

lemma view_step_cong:
  assumes "view_step s s' r" and "room_view s'' r = room_view s' r"
  shows "view_step s s'' r"
  using assms by (simp add: view_step_def)

lemma view_step_cong_pre:
  assumes "view_step s0 s' r" and "room_view s0 r = room_view s r"
  shows "view_step s s' r"
  using assms by (simp add: view_step_def host_of_view)

lemma view_install:
  assumes "timers_ok s" and "p \<noteq> []"
  shows "view_step s (setRoom r' (Some p) c (cancelCleanup r' s)) r"
proof (cases "r = r'")
  case True
  have "room_view (setRoom r' (Some p) c (cancelCleanup r' s)) r = (Some (Some p), None, None)"
    unfolding True by (simp add: view_setRoom_same cancelCleanup_at)
  then show ?thesis using assms(2) by (rule view_step_installed[rotated])
next
  case False
  have "room_view (setRoom r' (Some p) c (cancelCleanup r' s)) r = room_view s r"
    using False by (simp add: view_setRoom_other view_cancelCleanup_other[OF assms(1)])
  then show ?thesis by (rule view_step_same)
qed

lemma view_host_leaves:
  assumes "timers_ok s" and "host_of s r' = Some p" and "p \<noteq> []"
  shows "view_step s (host_leaves now r' s) r"
proof (cases "r = r'")
  case True
  have "truthy (host_of s r)" using assms(2,3) True by simp
  then show ?thesis using view_host_leaves_same[of now r s] True by (auto intro: view_step_lost)
next
  case False
  then show ?thesis using view_host_leaves_other[OF assms(1)] by (auto intro: view_step_same)
qed

lemma view_register_host_cases:
  "room_view (register_host now w p st pr m s) r = room_view s r \<or>
   (\<exists>r' c. room_view (register_host now w p st pr m s) r =
             room_view (setRoom r' (Some p) c (cancelCleanup r' s)) r)"
  by (simp add: register_host_def Let_def split: option.splits) blast

lemma view_claim_host_cases:
  "room_view (claim_host now w p st pr m s) r = room_view s r \<or>
   (\<exists>r' c. room_view (claim_host now w p st pr m s) r =
             room_view (setRoom r' (Some p) c (cancelCleanup r' s)) r)"
  by (simp add: claim_host_def Let_def split: option.splits) blast

lemma view_step_register_host:
  assumes "timers_ok s" and "p \<noteq> []"
  shows "view_step s (register_host now w p st pr m s) r"
proof -
  from view_register_host_cases[of now w p st pr m s r]
  consider "room_view (register_host now w p st pr m s) r = room_view s r"
    | r' c where "room_view (register_host now w p st pr m s) r =
                    room_view (setRoom r' (Some p) c (cancelCleanup r' s)) r"
    by blast
  then show ?thesis
  proof cases
    case 1
    then show ?thesis by (rule view_step_same)
  next
    case 2
    show ?thesis using view_install[OF assms, of r' c r] 2 by (rule view_step_cong)
  qed
qed

lemma view_step_claim_host:
  assumes "timers_ok s" and "p \<noteq> []"
  shows "view_step s (claim_host now w p st pr m s) r"
proof -
  from view_claim_host_cases[of now w p st pr m s r]
  consider "room_view (claim_host now w p st pr m s) r = room_view s r"
    | r' c where "room_view (claim_host now w p st pr m s) r =
                    room_view (setRoom r' (Some p) c (cancelCleanup r' s)) r"
    by blast
  then show ?thesis
  proof cases
    case 1
    then show ?thesis by (rule view_step_same)
  next
    case 2
    show ?thesis using view_install[OF assms, of r' c r] 2 by (rule view_step_cong)
  qed
qed

lemma view_join_room [simp]: "room_view (join_room w p st pr m s) r = room_view s r"
  by (simp add: join_room_def Let_def split: option.splits)

lemma view_query_room [simp]: "room_view (query_room w m s) r = room_view s r"
  by (simp add: query_room_def Let_def split: option.splits)

lemma view_relay [simp]: "room_view (relay w p m s) r = room_view s r"
  by (simp add: relay_def Let_def split: option.splits)

lemma view_leave_room_cases:
  "room_view (leave_room now p st pr s) r = room_view s r \<or>
   (\<exists>r'. host_of s r' = Some p \<and>
      room_view (leave_room now p st pr s) r = room_view (host_leaves now r' s) r)"
proof (cases "\<exists>v r' room. pr = Some v \<and> p_roomId v = Some r' \<and> r' \<noteq> [] \<and>
                 rooms s r' = Some room \<and> hostPeerId room = Some p")
  case True
  then obtain v r' room where h: "pr = Some v" "p_roomId v = Some r'" "r' \<noteq> []"
    "rooms s r' = Some room" "hostPeerId room = Some p" by blast
  have "host_of s r' = Some p" using h by (simp add: host_of_def)
  moreover have "room_view (leave_room now p st pr s) r = room_view (host_leaves now r' s) r"
    using h by (simp add: leave_room_def Let_def getRoom_def)
  ultimately show ?thesis by blast
next
  case False
  then have "room_view (leave_room now p st pr s) r = room_view s r"
    by (simp add: leave_room_def Let_def getRoom_def split: option.splits) blast
  then show ?thesis by simp
qed

lemma view_step_leave_room:
  assumes "timers_ok s" and "p \<noteq> []"
  shows "view_step s (leave_room now p st pr s) r"
proof -
  from view_leave_room_cases[of now p st pr s r]
  consider "room_view (leave_room now p st pr s) r = room_view s r"
    | r' where "host_of s r' = Some p"
        "room_view (leave_room now p st pr s) r = room_view (host_leaves now r' s) r"
    by blast
  then show ?thesis
  proof cases
    case 1
    then show ?thesis by (rule view_step_same)
  next
    case 2
    show ?thesis
      using view_host_leaves[OF assms(1) 2(1) assms(2), of now r] 2(2) by (rule view_step_cong)
  qed
qed

lemma view_step_route:
  assumes "timers_ok s" and "p \<noteq> []"
  shows "view_step s (route now w p st ty m s) r"
  using view_step_register_host[OF assms] view_step_claim_host[OF assms]
    view_step_leave_room[OF assms]
  by (simp add: route_def Let_def view_step_same)

lemma view_admitted [simp]: "room_view (admitted n p st s) r = room_view s r"
  by (simp add: admitted_def)

lemma view_step_active:
  assumes "timers_ok s" and "p \<noteq> []"
  shows "view_step s (active now w p st ty m s) r"
proof (cases "fst (checkRateLimit now p s)")
  case False
  then show ?thesis by (simp add: active_rejected view_step_same)
next
  case True
  show ?thesis
  proof (cases "ty = lit ''heartbeat''")
    case True
    then show ?thesis using \<open>fst (checkRateLimit now p s)\<close>
      by (simp add: active_heartbeat view_step_same)
  next
    case False
    let ?a = "admitted now p st s"
    have ok: "timers_ok ?a" using assms(1) by simp
    have "view_step ?a (route now w p st ty m ?a) r" by (rule view_step_route[OF ok assms(2)])
    then have "view_step s (route now w p st ty m ?a) r"
      by (rule view_step_cong_pre) simp
    then show ?thesis using True False by (simp add: active_routed admitted_def)
  qed
qed

lemma view_restore_identity [simp]:
  "room_view (restore_identity now w c tok v s) r = room_view s r"
  by (simp add: room_view_def restore_identity_fields)

lemma view_new_session [simp]: "room_view (new_session now fresh w c tok s) r = room_view s r"
  by (simp add: new_session_def Let_def)

lemma view_restore_install:
  assumes "timers_ok s" and "p \<noteq> []"
  shows "view_step s (cancelCleanup r' ((setRoom r' (Some p) c s)\<lparr>hostWsConnections := x\<rparr>)) r"
proof (cases "r = r'")
  case True
  have "room_view (cancelCleanup r' ((setRoom r' (Some p) c s)\<lparr>hostWsConnections := x\<rparr>)) r =
          (Some (Some p), None, None)"
    unfolding True by (simp add: view_cancelCleanup_same rooms_setRoom split: option.splits)
  then show ?thesis using assms(2) by (rule view_step_installed[rotated])
next
  case False
  have ok: "timers_ok ((setRoom r' (Some p) c s)\<lparr>hostWsConnections := x\<rparr>)"
    using assms(1) by simp
  have "room_view (cancelCleanup r' ((setRoom r' (Some p) c s)\<lparr>hostWsConnections := x\<rparr>)) r =
          room_view s r"
    using False by (simp add: view_cancelCleanup_other[OF ok] view_setRoom_other)
  then show ?thesis by (rule view_step_same)
qed

lemma view_restore_membership_cases:
  "room_view (restore_membership w p pr s) r = room_view s r \<or>
   (\<exists>r' s6 x. timers_ok s6 = timers_ok s \<and> (\<forall>q. room_view s6 q = room_view s q) \<and>
      room_view (restore_membership w p pr s) r =
        room_view (cancelCleanup r' ((setRoom r' (Some p) None s6)\<lparr>hostWsConnections := x\<rparr>)) r)"
proof (cases pr)
  case None
  then show ?thesis by (simp add: restore_membership_def)
next
  case (Some r')
  show ?thesis
  proof (cases "r' = [] \<or> getRoom s r' = None")
    case True
    then show ?thesis using Some by (auto simp: restore_membership_def)
  next
    case False
    then obtain room where room: "getRoom s r' = Some room" and ne: "r' \<noteq> []" by auto
    let ?s6 = "if p \<notin> set (getRoomMembers s r') \<and> hostPeerId room \<noteq> Some p
               then addRoomMember r' p s else s"
    have v6: "room_view ?s6 q = room_view s q" for q by simp
    have t6: "timers_ok ?s6 = timers_ok s" by simp
    show ?thesis
    proof (cases "truthy (hostPeerId room)")
      case True
      then have "restore_membership w p pr s = ?s6"
        using Some room ne by (simp add: restore_membership_def Let_def)
      then show ?thesis using v6 by simp
    next
      case False
      let ?s9 = "cancelCleanup r' ((setRoom r' (Some p) None ?s6)\<lparr>hostWsConnections :=
                    (hostWsConnections (setRoom r' (Some p) None ?s6))(r' \<mapsto> w)\<rparr>)"
      have "restore_membership w p pr s =
              notify_members (getRoomMembers ?s9 r') (HostReconnected r' p) ?s9"
        using Some room ne False by (simp add: restore_membership_def Let_def)
      then have "room_view (restore_membership w p pr s) r = room_view ?s9 r" by simp
      then show ?thesis using v6 t6 by blast
    qed
  qed
qed

lemma view_step_restore_membership:
  assumes "timers_ok s" and "p \<noteq> []"
  shows "view_step s (restore_membership w p pr s) r"
proof -
  from view_restore_membership_cases[of w p pr s r]
  consider "room_view (restore_membership w p pr s) r = room_view s r"
    | r' s6 x where "timers_ok s6 = timers_ok s" "\<forall>q. room_view s6 q = room_view s q"
        "room_view (restore_membership w p pr s) r =
           room_view (cancelCleanup r' ((setRoom r' (Some p) None s6)\<lparr>hostWsConnections := x\<rparr>)) r"
    by blast
  then show ?thesis
  proof cases
    case 1
    then show ?thesis by (rule view_step_same)
  next
    case 2
    have ok: "timers_ok s6" using 2(1) assms(1) by simp
    have "view_step s6 (cancelCleanup r' ((setRoom r' (Some p) None s6)\<lparr>hostWsConnections := x\<rparr>)) r"
      by (rule view_restore_install[OF ok assms(2)])
    then have "view_step s6 (restore_membership w p pr s) r"
      using 2(3) by (rule view_step_cong)
    then show ?thesis using 2(2) by (auto elim: view_step_cong_pre)
  qed
qed

lemma view_step_restore_session:
  assumes "timers_ok s" and "s_peerId v \<noteq> []"
  shows "view_step s (restore_session now w c tok v s) r"
proof -
  let ?s1 = "restore_identity now w c tok v s"
  have ok: "timers_ok ?s1" using assms(1) by simp
  have "view_step ?s1 (restore_membership w (s_peerId v) (s_roomId v) ?s1) r"
    by (rule view_step_restore_membership[OF ok assms(2)])
  then have "view_step s (restore_membership w (s_peerId v) (s_roomId v) ?s1) r"
    by (rule view_step_cong_pre) simp
  then show ?thesis by (simp add: restore_session_def)
qed

lemma view_step_handshake:
  assumes "timers_ok s" and "registry_ok s"
  shows "view_step s (handshake ttl now fresh w c ty m s) r"
proof (cases "ty = lit ''hello'' \<and> isValidSessionToken (field m (lit ''sessionToken''))")
  case False
  then show ?thesis by (auto simp: handshake_def Let_def view_step_same)
next
  case True
  let ?c1 = "c\<lparr>c_sessionToken := str_of (field m (lit ''sessionToken''))\<rparr>"
  let ?s1 = "s\<lparr>conns := (conns s)(w \<mapsto> ?c1)\<rparr>"
  have v1: "room_view ?s1 r = room_view s r" by simp
  have ok: "timers_ok ?s1" using assms(1) by simp
  show ?thesis
  proof (cases "str_of (field m (lit ''sessionToken''))")
    case None
    then show ?thesis using True by (simp add: handshake_def Let_def view_step_same)
  next
    case (Some tok)
    show ?thesis
    proof (cases "getSession ?s1 tok")
      case None
      then show ?thesis using True Some by (simp add: handshake_def Let_def view_step_same)
    next
      case (Some v)
      then have "map_of (sessions s) tok = Some v" by (simp add: getSession_def)
      then have "(tok, v) \<in> set (sessions s)" by (rule map_of_SomeD)
      then have ne: "s_peerId v \<noteq> []" using assms(2) by (force simp: registry_ok_def)
      show ?thesis
      proof (cases "now - lastSeen v < ttl * 1000")
        case False
        then show ?thesis
          using True \<open>str_of (field m (lit ''sessionToken'')) = Some tok\<close> Some
          by (simp add: handshake_def Let_def view_step_same)
      next
        case fresh: True
        have e: "handshake ttl now fresh w c ty m s = restore_session now w ?c1 tok v ?s1"
          using True \<open>str_of (field m (lit ''sessionToken'')) = Some tok\<close> Some fresh
          by (simp add: handshake_def Let_def)
        have "view_step ?s1 (restore_session now w ?c1 tok v ?s1) r"
          by (rule view_step_restore_session[OF ok ne])
        then show ?thesis unfolding e by (rule view_step_cong_pre) simp
      qed
    qed
  qed
qed

lemma view_step_on_message:
  assumes "timers_ok s" and "registry_ok s"
  shows "view_step s (on_message ttl now fresh w dat s) r"
proof -
  have "room_view (on_message ttl now fresh w dat s) r = room_view s r
    \<or> (\<exists>c ty m. on_message ttl now fresh w dat s = handshake ttl now fresh w c ty m s)
    \<or> (\<exists>p st ty m. p \<noteq> [] \<and> on_message ttl now fresh w dat s = active now w p st ty m s)"
    by (simp add: on_message_def split: option.splits) blast
  then consider "room_view (on_message ttl now fresh w dat s) r = room_view s r"
    | c ty m where "on_message ttl now fresh w dat s = handshake ttl now fresh w c ty m s"
    | p st ty m where "p \<noteq> []" "on_message ttl now fresh w dat s = active now w p st ty m s"
    by blast
  then show ?thesis
  proof cases
    case 1
    then show ?thesis by (rule view_step_same)
  next
    case 2
    show ?thesis unfolding 2 by (rule view_step_handshake[OF assms])
  next
    case 3
    show ?thesis unfolding 3(2) by (rule view_step_active[OF assms(1) 3(1)])
  qed
qed

lemma view_on_connection [simp]: "room_view (on_connection ip w s) r = room_view s r"
  by (simp add: on_connection_def Let_def)

lemma view_fold_remove:
  "room_view (fold (\<lambda>(tok, v) st. case s_roomId v of None \<Rightarrow> st
       | Some r \<Rightarrow> if r = [] then st else removeRoomMember r (s_peerId v) st) xs s) r = room_view s r"
proof (induction xs arbitrary: s)
  case Nil
  show ?case by simp
next
  case (Cons x xs)
  show ?case by (cases x) (simp add: Cons.IH split: option.splits)
qed

lemma view_sweep_sessions [simp]: "room_view (sweep_sessions ttl now s) r = room_view s r"
  by (simp add: sweep_sessions_def cleanupExpiredSessions_def view_fold_remove)

lemma view_sweep_rates [simp]: "room_view (sweep_rates now s) r = room_view s r"
  by (simp add: sweep_rates_def)

lemma view_on_close_cases:
  "room_view (on_close now w s) r = room_view s r \<or>
   (\<exists>r' p s1. p \<noteq> [] \<and> host_of s1 r' = Some p \<and> timers_ok s1 = timers_ok s \<and>
      (\<forall>q. room_view s1 q = room_view s q) \<and>
      room_view (on_close now w s) r = room_view (host_leaves now r' s1) r)"
proof (cases "\<exists>c p pr r' room. conns s w = Some c \<and> c_peerId c = Some p \<and> p \<noteq> [] \<and>
                 peers s p = Some pr \<and> p_roomId pr = Some r' \<and> r' \<noteq> [] \<and>
                 rooms s r' = Some room \<and> hostPeerId room = Some p")
  case True
  then obtain c p pr r' room where h: "conns s w = Some c" "c_peerId c = Some p" "p \<noteq> []"
    "peers s p = Some pr" "p_roomId pr = Some r'" "r' \<noteq> []"
    "rooms s r' = Some room" "hostPeerId room = Some p" by blast
  let ?s1 = "untrackConnection (p_ip pr) w (s\<lparr>open_ws := open_ws s - {w}, conns := (conns s)(w := None)\<rparr>)"
  have "host_of ?s1 r' = Some p" using h by (simp add: host_of_def)
  moreover have "timers_ok ?s1 = timers_ok s" by simp
  moreover have "\<forall>q. room_view ?s1 q = room_view s q" by simp
  moreover have "room_view (on_close now w s) r = room_view (host_leaves now r' ?s1) r"
    using h by (simp add: on_close_def Let_def getPeer_def getRoom_def)
  ultimately show ?thesis using h(3) by blast
next
  case False
  then have "room_view (on_close now w s) r = room_view s r"
    by (simp add: on_close_def Let_def getPeer_def getRoom_def split: option.splits) blast
  then show ?thesis by simp
qed

lemma view_step_on_close:
  assumes "timers_ok s"
  shows "view_step s (on_close now w s) r"
proof -
  from view_on_close_cases[of now w s r]
  consider "room_view (on_close now w s) r = room_view s r"
    | r' p s1 where "p \<noteq> []" "host_of s1 r' = Some p" "timers_ok s1 = timers_ok s"
        "\<forall>q. room_view s1 q = room_view s q"
        "room_view (on_close now w s) r = room_view (host_leaves now r' s1) r"
    by blast
  then show ?thesis
  proof cases
    case 1
    then show ?thesis by (rule view_step_same)
  next
    case 2
    have ok: "timers_ok s1" using 2(3) assms by simp
    have "view_step s1 (host_leaves now r' s1) r" by (rule view_host_leaves[OF ok 2(2) 2(1)])
    then have "view_step s1 (on_close now w s) r" using 2(5) by (rule view_step_cong)
    then show ?thesis using 2(4) by (auto elim: view_step_cong_pre)
  qed
qed

lemma view_on_timeout:
  assumes "timers_ok s" and "\<forall>d. timerQueue s t \<noteq> Some (r, d)"
  shows "room_view (on_timeout t s) r = room_view s r"
proof (cases "timerQueue s t")
  case None
  then show ?thesis by (simp add: on_timeout_def)
next
  case (Some x)
  obtain r' d where x: "x = (r', d)" by (cases x)
  have ne: "r' \<noteq> r" using assms(2) Some x by auto
  have c': "cleanupTimers s r' = Some t" using timers_okD(1)[OF assms(1)] Some x by simp
  have c: "cleanupTimers s r \<noteq> Some t"
    using timers_okD(3)[OF assms(1), of r t r'] c' ne by auto
  have b: "Option.bind (cleanupTimers s r) ((timerQueue s)(t := None)) =
           Option.bind (cleanupTimers s r) (timerQueue s)"
    using c by (cases "cleanupTimers s r") simp_all
  show ?thesis
    using Some x ne b
    by (simp add: on_timeout_def cleanup_callback_def Let_def room_view_def getRoom_def
        deleteRoom_def split: option.splits)
qed

lemma view_step_event:
  assumes "registry_ok s" and "timers_ok s" and "enabled e s"
    and "\<forall>t now d. e = Timeout t now \<longrightarrow> timerQueue s t \<noteq> Some (r, d)"
  shows "view_step s (apply_event ttl e s) r"
proof (cases e)
  case (Connection ip w)
  then show ?thesis by (simp add: view_step_same)
next
  case (Message w now fresh dat)
  then show ?thesis using view_step_on_message[OF assms(2) assms(1)] by simp
next
  case (Close w now)
  then show ?thesis using view_step_on_close[OF assms(2)] by simp
next
  case (Drop w)
  then show ?thesis by (simp add: view_step_same)
next
  case (Timeout t now)
  then have "\<forall>d. timerQueue s t \<noteq> Some (r, d)" using assms(4) by simp
  then show ?thesis using Timeout view_on_timeout[OF assms(2)] by (simp add: view_step_same)
next
  case (RateSweep now)
  then show ?thesis by (simp add: view_step_same)
next
  case (SessionSweep now)
  then show ?thesis by (simp add: view_step_same)
qed

lemma unarmed_view: "timers_ok s \<Longrightarrow> unarmed s r = (snd (snd (room_view s r)) = None)"
proof
  assume ok: "timers_ok s" and u: "unarmed s r"
  show "snd (snd (room_view s r)) = None"
  proof (rule ccontr)
    assume "snd (snd (room_view s r)) \<noteq> None"
    then obtain t r' d where c: "cleanupTimers s r = Some t" and q: "timerQueue s t = Some (r', d)"
      by (cases "cleanupTimers s r") (auto simp: room_view_def)
    have "cleanupTimers s r' = Some t" using timers_okD(1)[OF ok q] .
    then have "r = r'" using timers_okD(3)[OF ok c] by simp
    then show False using u q by (simp add: unarmed_def)
  qed
next
  assume ok: "timers_ok s" and v: "snd (snd (room_view s r)) = None"
  show "unarmed s r"
    unfolding unarmed_def
  proof (intro allI notI)
    fix t d
    assume q: "timerQueue s t = Some (r, d)"
    have "cleanupTimers s r = Some t" using timers_okD(1)[OF ok q] .
    then show False using v q by (simp add: room_view_def)
  qed
qed

lemma armed_view:
  "armed s r t due = (fst (snd (room_view s r)) = Some t \<and> snd (snd (room_view s r)) = Some (r, due))"
  by (auto simp: armed_def room_view_def)

lemma hostless_view:
  "hostless s r = (\<exists>h. fst (room_view s r) = Some h \<and> \<not> truthy h)"
  by (cases "rooms s r") (simp_all add: hostless_def room_view_def)

lemma hostless_host: "hostless s r \<Longrightarrow> \<not> truthy (host_of s r)"
  by (cases "rooms s r") (simp_all add: hostless_def host_of_def)

lemma unarmed_step:
  assumes "registry_ok s" and "timers_ok s" and "enabled e s" and "unarmed s r"
    and "truthy (host_of s r) \<longrightarrow> truthy (host_of (apply_event ttl e s) r)"
  shows "unarmed (apply_event ttl e s) r"
proof -
  let ?s' = "apply_event ttl e s"
  have ok': "timers_ok ?s'" using assms(2) by (rule timers_ok_step)
  have nt: "\<forall>t now d. e = Timeout t now \<longrightarrow> timerQueue s t \<noteq> Some (r, d)"
    using assms(4) by (simp add: unarmed_def)
  have u: "snd (snd (room_view s r)) = None" using assms(2,4) by (simp add: unarmed_view)
  have "view_step s ?s' r" by (rule view_step_event[OF assms(1-3) nt])
  then consider "room_view ?s' r = room_view s r"
    | p where "room_view ?s' r = (Some (Some p), None, None)"
    | t d where "truthy (host_of s r)" "room_view ?s' r = (Some None, Some t, Some (r, d))"
    unfolding view_step_def by blast
  then have "snd (snd (room_view ?s' r)) = None"
  proof cases
    case 1
    then show ?thesis using u by simp
  next
    case 2
    then show ?thesis by simp
  next
    case 3
    have "host_of ?s' r = None" using 3(2) by (simp add: host_of_view)
    then show ?thesis using assms(5) 3(1) by simp
  qed
  then show ?thesis using ok' by (simp add: unarmed_view)
qed

lemma closed_unarmed_step:
  assumes "unarmed s r"
  shows "closed_msgs (apply_event ttl e s) r = closed_msgs s r"
  using closed_step[of ttl e s r] assms by (auto simp: unarmed_def)

lemma keeps_hosts_run:
  assumes "registry_ok s" and "timers_ok s" and "unarmed s r" and "keeps_hosts ttl r es s"
  shows "closed_msgs (run ttl es s) r = closed_msgs s r \<and> unarmed (run ttl es s) r"
  using assms
proof (induction es arbitrary: s)
  case Nil
  then show ?case by simp
next
  case (Cons e es)
  let ?s' = "apply_event ttl e s"
  have en: "enabled e s" and kh: "truthy (host_of s r) \<longrightarrow> truthy (host_of ?s' r)"
    and rest: "keeps_hosts ttl r es ?s'"
    using Cons.prems(4) by simp_all
  have r': "registry_ok ?s'" using Cons.prems(1) en by (rule registry_ok_step)
  have t': "timers_ok ?s'" using Cons.prems(2) by (rule timers_ok_step)
  have u': "unarmed ?s' r" by (rule unarmed_step[OF Cons.prems(1,2) en Cons.prems(3) kh])
  have c: "closed_msgs ?s' r = closed_msgs s r" by (rule closed_unarmed_step[OF Cons.prems(3)])
  show ?case using Cons.IH[OF r' t' u' rest] c by simp
qed

lemma armed_step:
  assumes "registry_ok s" and "timers_ok s" and "enabled e s"
    and "armed s r t due" and "hostless s r" and "\<not> is_timeout_of t e"
    and "\<not> truthy (host_of (apply_event ttl e s) r)"
  shows "armed (apply_event ttl e s) r t due \<and> hostless (apply_event ttl e s) r \<and>
         closed_msgs (apply_event ttl e s) r = closed_msgs s r"
proof -
  let ?s' = "apply_event ttl e s"
  have ct: "cleanupTimers s r = Some t" using assms(4) by (simp add: armed_def)
  have nt: "\<forall>t' now d. e = Timeout t' now \<longrightarrow> timerQueue s t' \<noteq> Some (r, d)"
  proof (intro allI impI notI)
    fix t' now d
    assume e: "e = Timeout t' now" and q: "timerQueue s t' = Some (r, d)"
    have "cleanupTimers s r = Some t'" using timers_okD(1)[OF assms(2) q] .
    then have "t' = t" using ct by simp
    then show False using assms(6) e by simp
  qed
  have nh: "\<not> truthy (host_of s r)" using assms(5) by (rule hostless_host)
  have "view_step s ?s' r" by (rule view_step_event[OF assms(1-3) nt])
  then consider "room_view ?s' r = room_view s r"
    | p where "p \<noteq> []" "room_view ?s' r = (Some (Some p), None, None)"
    | "truthy (host_of s r)"
    unfolding view_step_def by blast
  then have v: "room_view ?s' r = room_view s r"
  proof cases
    case 1
    then show ?thesis .
  next
    case 2
    then have "host_of ?s' r = Some p" by (simp add: host_of_view)
    then show ?thesis using assms(7) 2(1) by simp
  next
    case 3
    then show ?thesis using nh by simp
  qed
  have c: "closed_msgs ?s' r = closed_msgs s r"
    using closed_step[of ttl e s r] nt by blast
  show ?thesis using v assms(4,5) c by (simp add: armed_view hostless_view)
qed

lemma nobody_claims_run:
  assumes "registry_ok s" and "timers_ok s" and "armed s r t due" and "hostless s r"
    and "nobody_claims ttl r t es s"
  shows "armed (run ttl es s) r t due \<and> hostless (run ttl es s) r \<and>
         closed_msgs (run ttl es s) r = closed_msgs s r"
  using assms
proof (induction es arbitrary: s)
  case Nil
  then show ?case by simp
next
  case (Cons e es)
  let ?s' = "apply_event ttl e s"
  have en: "enabled e s" and nt: "\<not> is_timeout_of t e" and nh: "\<not> truthy (host_of ?s' r)"
    and rest: "nobody_claims ttl r t es ?s'"
    using Cons.prems(5) by simp_all
  have r': "registry_ok ?s'" using Cons.prems(1) en by (rule registry_ok_step)
  have t': "timers_ok ?s'" using Cons.prems(2) by (rule timers_ok_step)
  note st = armed_step[OF Cons.prems(1,2) en Cons.prems(3,4) nt nh]
  have a': "armed ?s' r t due" and h': "hostless ?s' r" using st by simp_all
  have c: "closed_msgs ?s' r = closed_msgs s r" using st by simp
  show ?case using Cons.IH[OF r' t' a' h' rest] c by simp
qed

lemma on_timeout_hostless:
  assumes "timerQueue s t = Some (r, due)" and "hostless s r"
  shows "rooms (on_timeout t s) r = None"
    and "outbox (on_timeout t s) =
           outbox s @ deliveries s (getRoomMembers s r) (RoomClosed r ''Host did not return'')"
    and "timerQueue (on_timeout t s) t = None"
    and "cleanupTimers (on_timeout t s) r = None"
proof -
  obtain v where v: "rooms s r = Some v" "\<not> truthy (hostPeerId v)"
    using assms(2) by (cases "rooms s r") (simp_all add: hostless_def)
  let ?s0 = "s\<lparr>timerQueue := (timerQueue s)(t := None)\<rparr>"
  let ?s2 = "deleteRoom r (notify_members (getRoomMembers ?s0 r)
               (RoomClosed r ''Host did not return'') ?s0)"
  have e: "on_timeout t s = ?s2\<lparr>hostWsConnections := (hostWsConnections ?s2)(r := None),
                                 cleanupTimers := (cleanupTimers ?s2)(r := None)\<rparr>"
    using assms(1) v by (simp add: on_timeout_def cleanup_callback_def Let_def getRoom_def)
  have m: "getRoomMembers ?s0 r = getRoomMembers s r" by (simp add: getRoomMembers_def)
  have d: "deliveries ?s0 ms x = deliveries s ms x" for ms x
    by (simp add: deliveries_def cong: option.case_cong if_cong)
  show "rooms (on_timeout t s) r = None" unfolding e by (simp add: deleteRoom_def)
  show "outbox (on_timeout t s) =
           outbox s @ deliveries s (getRoomMembers s r) (RoomClosed r ''Host did not return'')"
    unfolding e m by (simp add: deleteRoom_def outbox_notify_members d)
  show "timerQueue (on_timeout t s) t = None" unfolding e by (simp add: deleteRoom_def)
  show "cleanupTimers (on_timeout t s) r = None" unfolding e by simp
qed

lemma on_timeout_hosted:
  assumes "timerQueue s t = Some (r, due)" and "\<not> hostless s r"
  shows "on_timeout t s = s\<lparr>timerQueue := (timerQueue s)(t := None)\<rparr>"
  using assms
  by (auto simp: on_timeout_def cleanup_callback_def Let_def hostless_def getRoom_def
      split: option.splits)

lemma armed_host_leaves:
  assumes "rooms s r \<noteq> None"
  shows "armed (host_leaves now r s) r (nextTimer s) (now + ROOM_CLEANUP_DELAY)"
    and "hostless (host_leaves now r s) r"
    and "getRoomMembers (host_leaves now r s) r = getRoomMembers s r"
proof -
  let ?s3 = "(setRoom r None None (notify_members (getRoomMembers s r) (HostDisconnected r) s))
               \<lparr>hostWsConnections := (hostWsConnections s)(r := None)\<rparr>"
  obtain v where v: "rooms ?s3 r = Some v" "hostPeerId v = None"
    "members v = getRoomMembers s r"
    using assms by (auto simp: rooms_setRoom getRoomMembers_def split: option.splits)
  have e: "host_leaves now r s = scheduleRoomCleanup now r ?s3"
    by (simp add: host_leaves_def Let_def)
  note f = scheduleRoomCleanup_fields[OF v(1), of now]
  have n: "nextTimer ?s3 = nextTimer s" by simp
  show "armed (host_leaves now r s) r (nextTimer s) (now + ROOM_CLEANUP_DELAY)"
    unfolding e armed_def f n by simp
  have rm: "rooms (scheduleRoomCleanup now r ?s3) = rooms ?s3" by simp
  show "hostless (host_leaves now r s) r"
    unfolding e hostless_def rm using v by simp
  have "getRoomMembers (scheduleRoomCleanup now r ?s3) r = members v"
    using v(1) by (simp add: getRoomMembers_def)
  then show "getRoomMembers (host_leaves now r s) r = getRoomMembers s r"
    unfolding e using v(3) by simp
qed

lemma on_close_host:
  assumes "conns s w = Some c" and "c_peerId c = Some h" and "h \<noteq> []"
    and "peers s h = Some pr" and "p_roomId pr = Some r" and "r \<noteq> []"
    and "host_of s r = Some h"
  shows "armed (on_close now w s) r (nextTimer s) (now + ROOM_CLEANUP_DELAY)"
    and "hostless (on_close now w s) r"
    and "getRoomMembers (on_close now w s) r = getRoomMembers s r"
proof -
  let ?s1 = "untrackConnection (p_ip pr) w (s\<lparr>open_ws := open_ws s - {w}, conns := (conns s)(w := None)\<rparr>)"
  let ?h = "host_leaves now r ?s1"
  obtain room where room: "rooms s r = Some room" "hostPeerId room = Some h"
    using assms(7) by (cases "rooms s r") (simp_all add: host_of_def)
  have ex: "rooms ?s1 r \<noteq> None" using room by simp
  have e: "on_close now w s =
           deletePeer h (?h\<lparr>messageRates := (messageRates ?h)(h := None),
                           wsConnections := (wsConnections ?h)(h := None)\<rparr>)"
    using assms(1-6) room by (simp add: on_close_def Let_def getPeer_def getRoom_def)
  note a = armed_host_leaves[OF ex, of now]
  have n: "nextTimer ?s1 = nextTimer s" by simp
  have m: "getRoomMembers ?s1 r = getRoomMembers s r" by (simp add: getRoomMembers_def)
  show "armed (on_close now w s) r (nextTimer s) (now + ROOM_CLEANUP_DELAY)"
    using a(1) unfolding e n by (simp add: armed_def)
  show "hostless (on_close now w s) r"
    using a(2) unfolding e by (simp add: hostless_def)
  show "getRoomMembers (on_close now w s) r = getRoomMembers s r"
    using a(3) unfolding e m by (simp add: getRoomMembers_def)
qed

lemma hostless_claim_allowed:
  assumes "registry_ok s" and "hostless s r"
  shows "claim_allowed s r"
proof -
  obtain v where v: "rooms s r = Some v" "\<not> truthy (hostPeerId v)"
    using assms(2) by (cases "rooms s r") (simp_all add: hostless_def)
  have "peers s [] = None" using assms(1) by (simp add: registry_ok_def)
  then have "\<not> hasPeer s (hostPeerId v)"
    using v(2) by (cases "hostPeerId v") (simp_all add: hasPeer_def)
  then show ?thesis using v(1) by (simp add: claim_allowed_def)
qed

text \<open>
  In the reachable states a timer that is still to fire belongs to a hostless room: every
  handler that records a host clears the room's timer before it returns.
\<close>

lemma queued_hostless_step:
  assumes "registry_ok s" and "timers_ok s" and "enabled e s"
    and ih: "\<And>t r d. timerQueue s t = Some (r, d) \<Longrightarrow> hostless s r"
    and q: "timerQueue (apply_event ttl e s) t = Some (r, d)"
  shows "hostless (apply_event ttl e s) r"
proof -
  let ?s' = "apply_event ttl e s"
  have ok': "timers_ok ?s'" using assms(2) by (rule timers_ok_step)
  have c': "cleanupTimers ?s' r = Some t" using timers_okD(1)[OF ok' q] .
  have v': "snd (snd (room_view ?s' r)) = Some (r, d)" using c' q by (simp add: room_view_def)
  show ?thesis
  proof (cases "\<exists>t0 now d0. e = Timeout t0 now \<and> timerQueue s t0 = Some (r, d0)")
    case True
    then obtain t0 now d0 where e: "e = Timeout t0 now" and q0: "timerQueue s t0 = Some (r, d0)"
      by blast
    have "hostless s r" using ih[OF q0] .
    then have "cleanupTimers (on_timeout t0 s) r = None" using on_timeout_hostless(4)[OF q0] by simp
    then show ?thesis using c' e by simp
  next
    case False
    then have nt: "\<forall>t0 now d0. e = Timeout t0 now \<longrightarrow> timerQueue s t0 \<noteq> Some (r, d0)" by blast
    have "view_step s ?s' r" by (rule view_step_event[OF assms(1-3) nt])
    then consider "room_view ?s' r = room_view s r"
      | p where "room_view ?s' r = (Some (Some p), None, None)"
      | t1 d1 where "room_view ?s' r = (Some None, Some t1, Some (r, d1))"
      unfolding view_step_def by blast
    then show ?thesis
    proof cases
      case 1
      then have "snd (snd (room_view s r)) = Some (r, d)" using v' by simp
      then obtain t1 where "timerQueue s t1 = Some (r, d)"
        by (cases "cleanupTimers s r") (auto simp: room_view_def)
      then have "hostless s r" by (rule ih)
      then show ?thesis using 1 by (simp add: hostless_view)
    next
      case 2
      then show ?thesis using v' by simp
    next
      case 3
      then show ?thesis by (simp add: hostless_view)
    qed
  qed
qed

lemma reachable_queued_hostless:
  "reachable ttl s \<Longrightarrow> timerQueue s t = Some (r, d) \<Longrightarrow> hostless s r"
proof (induction arbitrary: t r d rule: reachable.induct)
  case reachable_init
  then show ?case by (simp add: init_state_def)
next
  case (reachable_step s e)
  have inv: "registry_ok s" "timers_ok s"
    using reachable_invariants[OF reachable_step.hyps(1)] by simp_all
  show ?case
    by (rule queued_hostless_step[OF inv reachable_step.hyps(2) reachable_step.IH
          reachable_step.prems])
qed

lemma host_leaves_other_room:
  assumes "r \<noteq> r'"
  shows "rooms (host_leaves now r' s) r = rooms s r"
    and "cleanupTimers (host_leaves now r' s) r = cleanupTimers s r"
proof -
  let ?s3 = "(setRoom r' None None (notify_members (getRoomMembers s r') (HostDisconnected r') s))
               \<lparr>hostWsConnections := (hostWsConnections s)(r' := None)\<rparr>"
  have e: "host_leaves now r' s = scheduleRoomCleanup now r' ?s3"
    by (simp add: host_leaves_def Let_def)
  have r3: "rooms ?s3 r = rooms s r" using assms by (simp add: rooms_setRoom)
  show "rooms (host_leaves now r' s) r = rooms s r" unfolding e using r3 by simp
  have "cleanupTimers (scheduleRoomCleanup now r' ?s3) r = cleanupTimers ?s3 r"
    using assms
    by (simp add: scheduleRoomCleanup_def getRoom_def clearTimeout_def Let_def split: option.splits)
  then show "cleanupTimers (host_leaves now r' s) r = cleanupTimers s r" unfolding e by simp
qed

lemma on_close_other_room:
  assumes "conns s w = Some c" and "c_peerId c = Some h"
    and "\<forall>pr. peers s h = Some pr \<longrightarrow> p_roomId pr \<noteq> Some r"
  shows "rooms (on_close now w s) r = rooms s r"
    and "cleanupTimers (on_close now w s) r = cleanupTimers s r"
proof -
  let ?s0 = "s\<lparr>open_ws := open_ws s - {w}, conns := (conns s)(w := None)\<rparr>"
  have "rooms (on_close now w s) r = rooms s r \<and>
        cleanupTimers (on_close now w s) r = cleanupTimers s r"
  proof (cases "\<exists>pr r'. h \<noteq> [] \<and> peers s h = Some pr \<and> p_roomId pr = Some r' \<and> r' \<noteq> [] \<and>
                  host_of s r' = Some h")
    case True
    then obtain pr r' where k: "h \<noteq> []" "peers s h = Some pr" "p_roomId pr = Some r'" "r' \<noteq> []"
      "host_of s r' = Some h" by blast
    obtain room where room: "rooms s r' = Some room" "hostPeerId room = Some h"
      using k(5) by (cases "rooms s r'") (simp_all add: host_of_def)
    have ne: "r \<noteq> r'" using assms(3) k(2,3) by auto
    let ?s1 = "untrackConnection (p_ip pr) w ?s0"
    let ?h = "host_leaves now r' ?s1"
    have e: "on_close now w s =
           deletePeer h (?h\<lparr>messageRates := (messageRates ?h)(h := None),
                           wsConnections := (wsConnections ?h)(h := None)\<rparr>)"
      using assms(1,2) k room by (simp add: on_close_def Let_def getPeer_def getRoom_def)
    show ?thesis unfolding e using host_leaves_other_room[OF ne, of now ?s1] by simp
  next
    case False
    then show ?thesis using assms(1,2)
      by (simp add: on_close_def Let_def getPeer_def getRoom_def host_of_def split: option.splits)
        blast
  qed
  then show "rooms (on_close now w s) r = rooms s r"
    and "cleanupTimers (on_close now w s) r = cleanupTimers s r" by simp_all
qed

section \<open>The scenario states, computed\<close>

lemma lit_empty [simp]: "(lit a = []) = (a = [])" by (simp add: lit_def)

lemma demo_ids [simp]:
  "demo_host \<noteq> []" "demo_member \<noteq> []" "demo_token \<noteq> []" "member_token \<noteq> []" "demo_room \<noteq> []"
  "demo_host \<noteq> demo_member" "demo_member \<noteq> demo_host" "demo_token \<noteq> member_token" "member_token \<noteq> demo_token"
  by (simp_all add: demo_host_def demo_member_def demo_token_def member_token_def demo_room_def)

lemma demo_valid [simp]:
  "isValidPeerId (Some (JStr demo_host))" "isValidPeerId (Some (JStr demo_member))"
  "isValidSessionToken (Some (JStr demo_token))" "isValidSessionToken (Some (JStr member_token))"
  "isValidRoomId (Some (JStr demo_room))"
  by (simp_all add: demo_host_def demo_member_def demo_token_def member_token_def demo_room_def
      list_all_iff is_hex_lower_def is_token_char_def is_room_char_def is_dice_def lit_def)

lemma msg_simps [simp]:
  "msg_type (hello_msg tok) = Some (lit ''hello'')"
  "field (hello_msg tok) (lit ''sessionToken'') = Some (JStr tok)"
  "msg_type (room_msg ty r) = Some (lit ty)"
  "field (room_msg ty r) (lit ''roomId'') = Some (JStr r)"
  by (simp_all add: hello_msg_def room_msg_def msg_type_def)

lemmas model_defs = on_connection_def on_message_def handshake_def new_session_def restore_session_def
  restore_identity_def restore_membership_def
  active_def route_def register_host_def claim_host_def join_room_def leave_room_def relay_def
  query_room_def host_leaves_def on_close_def on_timeout_def cleanup_callback_def
  checkRateLimit_def refresh_session_def checkConnectionLimit_def trackConnection_def untrackConnection_def
  sendTo_def sendToPeer_def sendError_def notify_members_def ws_close_def
  getSession_def setSession_def updateSessionLastSeen_def updateSessionRoom_def getPeer_def setPeer_def
  deletePeer_def hasPeer_def getRoom_def setRoom_def deleteRoom_def getRoomMembers_def addRoomMember_def
  removeRoomMember_def clearTimeout_def cancelCleanup_def scheduleRoomCleanup_def peer_with_room_def
  windowMs_def maxMessages_def maxConnectionsPerIp_def ROOM_CLEANUP_DELAY_def Let_def

lemma sc1_eq:
  "sc1 =
     \<lparr>wsConnections = \<lambda>x. None, hostWsConnections = \<lambda>x. None,
     connectionsByIp = [''10.0.0.1'' \<mapsto> [7]], messageRates = \<lambda>x. None,
     cleanupTimers = \<lambda>x. None, sessions = [], peers = \<lambda>x. None,
     rooms = \<lambda>x. None,
     conns =
     [7 \<mapsto>
     \<lparr>c_peerId = None, c_sessionToken = None, c_ip = ''10.0.0.1''\<rparr>],
     open_ws = {7}, timerQueue = \<lambda>x. None, nextTimer = 0, outbox = []\<rparr>"
  by (simp add: sc1_def init_state_def demo_conn0_def model_defs del: isValidPeerId.simps isValidRoomId.simps isValidSessionToken.simps)

lemma sc2_eq:
  "sc2 =
     \<lparr>wsConnections = [demo_host \<mapsto> 7], hostWsConnections = \<lambda>x. None,
     connectionsByIp = [''10.0.0.1'' \<mapsto> [7]], messageRates = \<lambda>x. None,
     cleanupTimers = \<lambda>x. None,
     sessions =
     [(demo_token,
     \<lparr>s_peerId = demo_host, s_roomId = None, lastSeen = 0\<rparr>)],
     peers =
     [demo_host \<mapsto>
     \<lparr>p_roomId = None, p_ip = Some ''10.0.0.1'',
     p_sessionToken = Some demo_token\<rparr>],
     rooms = \<lambda>x. None,
     conns =
     [7 \<mapsto>
     \<lparr>c_peerId = Some demo_host, c_sessionToken = Some demo_token,
     c_ip = ''10.0.0.1''\<rparr>],
     open_ws = {7}, timerQueue = \<lambda>x. None, nextTimer = 0,
     outbox = [(7, PeerIdNew demo_host)]\<rparr>"
  by (simp add: sc2_def sc1_eq init_state_def demo_conn0_def model_defs del: isValidPeerId.simps isValidRoomId.simps isValidSessionToken.simps)

lemma sc3_eq:
  "sc3 =
     \<lparr>wsConnections = [demo_host \<mapsto> 7], hostWsConnections = [demo_room \<mapsto> 7],
     connectionsByIp = [''10.0.0.1'' \<mapsto> [7]],
     messageRates = [demo_host \<mapsto> \<lparr>r_count = Suc 0, windowStart = 1\<rparr>],
     cleanupTimers = \<lambda>x. None,
     sessions =
     [(demo_token,
     \<lparr>s_peerId = demo_host, s_roomId = Some demo_room,
     lastSeen = 1\<rparr>)],
     peers =
     [demo_host \<mapsto>
     \<lparr>p_roomId = Some demo_room, p_ip = Some ''10.0.0.1'',
     p_sessionToken = Some demo_token\<rparr>],
     rooms =
     [demo_room \<mapsto>
     \<lparr>hostPeerId = Some demo_host, members = [], createdAt = Some 1\<rparr>],
     conns =
     [7 \<mapsto>
     \<lparr>c_peerId = Some demo_host, c_sessionToken = Some demo_token,
     c_ip = ''10.0.0.1''\<rparr>],
     open_ws = {7}, timerQueue = \<lambda>x. None, nextTimer = 0,
     outbox =
     [(7, PeerIdNew demo_host), (7, RegisterHostSuccess demo_room)]\<rparr>"
  by (simp add: sc3_def sc2_eq init_state_def demo_conn0_def model_defs del: isValidPeerId.simps isValidRoomId.simps isValidSessionToken.simps)

lemma sc4_eq:
  "sc4 =
     \<lparr>wsConnections = [demo_host \<mapsto> 7], hostWsConnections = [demo_room \<mapsto> 7],
     connectionsByIp = [''10.0.0.1'' \<mapsto> [7], ''10.0.0.2'' \<mapsto> [8]],
     messageRates = [demo_host \<mapsto> \<lparr>r_count = Suc 0, windowStart = 1\<rparr>],
     cleanupTimers = \<lambda>x. None,
     sessions =
     [(demo_token,
     \<lparr>s_peerId = demo_host, s_roomId = Some demo_room,
     lastSeen = 1\<rparr>)],
     peers =
     [demo_host \<mapsto>
     \<lparr>p_roomId = Some demo_room, p_ip = Some ''10.0.0.1'',
     p_sessionToken = Some demo_token\<rparr>],
     rooms =
     [demo_room \<mapsto>
     \<lparr>hostPeerId = Some demo_host, members = [], createdAt = Some 1\<rparr>],
     conns =
     [7 \<mapsto>
     \<lparr>c_peerId = Some demo_host, c_sessionToken = Some demo_token,
     c_ip = ''10.0.0.1''\<rparr>,
     8 \<mapsto>
     \<lparr>c_peerId = None, c_sessionToken = None, c_ip = ''10.0.0.2''\<rparr>],
     open_ws = {8, 7}, timerQueue = \<lambda>x. None, nextTimer = 0,
     outbox =
     [(7, PeerIdNew demo_host), (7, RegisterHostSuccess demo_room)]\<rparr>"
  by (simp add: sc4_def sc3_eq init_state_def demo_conn0_def model_defs del: isValidPeerId.simps isValidRoomId.simps isValidSessionToken.simps)

lemma sc5_eq:
  "sc5 =
     \<lparr>wsConnections = [demo_host \<mapsto> 7, demo_member \<mapsto> 8],
     hostWsConnections = [demo_room \<mapsto> 7],
     connectionsByIp = [''10.0.0.1'' \<mapsto> [7], ''10.0.0.2'' \<mapsto> [8]],
     messageRates = [demo_host \<mapsto> \<lparr>r_count = Suc 0, windowStart = 1\<rparr>],
     cleanupTimers = \<lambda>x. None,
     sessions =
     [(demo_token,
     \<lparr>s_peerId = demo_host, s_roomId = Some demo_room, lastSeen = 1\<rparr>),
     (member_token,
     \<lparr>s_peerId = demo_member, s_roomId = None, lastSeen = 2\<rparr>)],
     peers =
     [demo_host \<mapsto>
     \<lparr>p_roomId = Some demo_room, p_ip = Some ''10.0.0.1'',
     p_sessionToken = Some demo_token\<rparr>,
     demo_member \<mapsto>
     \<lparr>p_roomId = None, p_ip = Some ''10.0.0.2'',
     p_sessionToken = Some member_token\<rparr>],
     rooms =
     [demo_room \<mapsto>
     \<lparr>hostPeerId = Some demo_host, members = [], createdAt = Some 1\<rparr>],
     conns =
     [7 \<mapsto>
     \<lparr>c_peerId = Some demo_host, c_sessionToken = Some demo_token,
     c_ip = ''10.0.0.1''\<rparr>,
     8 \<mapsto>
     \<lparr>c_peerId = Some demo_member, c_sessionToken = Some member_token,
     c_ip = ''10.0.0.2''\<rparr>],
     open_ws = {8, 7}, timerQueue = \<lambda>x. None, nextTimer = 0,
     outbox =
     [(7, PeerIdNew demo_host), (7, RegisterHostSuccess demo_room),
     (8, PeerIdNew demo_member)]\<rparr>"
  by (simp add: sc5_def sc4_eq init_state_def demo_conn0_def model_defs del: isValidPeerId.simps isValidRoomId.simps isValidSessionToken.simps)

lemma sc6_eq:
  "sc6 =
     \<lparr>wsConnections = [demo_host \<mapsto> 7, demo_member \<mapsto> 8],
     hostWsConnections = [demo_room \<mapsto> 7],
     connectionsByIp = [''10.0.0.1'' \<mapsto> [7], ''10.0.0.2'' \<mapsto> [8]],
     messageRates =
     [demo_host \<mapsto> \<lparr>r_count = Suc 0, windowStart = 1\<rparr>,
     demo_member \<mapsto> \<lparr>r_count = Suc 0, windowStart = 3\<rparr>],
     cleanupTimers = \<lambda>x. None,
     sessions =
     [(demo_token,
     \<lparr>s_peerId = demo_host, s_roomId = Some demo_room, lastSeen = 1\<rparr>),
     (member_token,
     \<lparr>s_peerId = demo_member, s_roomId = Some demo_room,
     lastSeen = 3\<rparr>)],
     peers =
     [demo_host \<mapsto>
     \<lparr>p_roomId = Some demo_room, p_ip = Some ''10.0.0.1'',
     p_sessionToken = Some demo_token\<rparr>,
     demo_member \<mapsto>
     \<lparr>p_roomId = Some demo_room, p_ip = Some ''10.0.0.2'',
     p_sessionToken = Some member_token\<rparr>],
     rooms =
     [demo_room \<mapsto>
     \<lparr>hostPeerId = Some demo_host, members = [demo_member],
     createdAt = Some 1\<rparr>],
     conns =
     [7 \<mapsto>
     \<lparr>c_peerId = Some demo_host, c_sessionToken = Some demo_token,
     c_ip = ''10.0.0.1''\<rparr>,
     8 \<mapsto>
     \<lparr>c_peerId = Some demo_member, c_sessionToken = Some member_token,
     c_ip = ''10.0.0.2''\<rparr>],
     open_ws = {8, 7}, timerQueue = \<lambda>x. None, nextTimer = 0,
     outbox =
     [(7, PeerIdNew demo_host), (7, RegisterHostSuccess demo_room),
     (8, PeerIdNew demo_member),
     (8, JoinRoomSuccess demo_room (Some demo_host)),
     (7, PeerConnecting demo_member)]\<rparr>"
  by (simp add: sc6_def sc5_eq init_state_def demo_conn0_def model_defs del: isValidPeerId.simps isValidRoomId.simps isValidSessionToken.simps)

lemma sc7_eq:
  "sc7 =
     \<lparr>wsConnections = [demo_member \<mapsto> 8], hostWsConnections = \<lambda>x. None,
     connectionsByIp = [''10.0.0.2'' \<mapsto> [8]],
     messageRates = [demo_member \<mapsto> \<lparr>r_count = Suc 0, windowStart = 3\<rparr>],
     cleanupTimers = [demo_room \<mapsto> 0],
     sessions =
     [(demo_token,
     \<lparr>s_peerId = demo_host, s_roomId = Some demo_room, lastSeen = 1\<rparr>),
     (member_token,
     \<lparr>s_peerId = demo_member, s_roomId = Some demo_room,
     lastSeen = 3\<rparr>)],
     peers =
     [demo_member \<mapsto>
     \<lparr>p_roomId = Some demo_room, p_ip = Some ''10.0.0.2'',
     p_sessionToken = Some member_token\<rparr>],
     rooms =
     [demo_room \<mapsto>
     \<lparr>hostPeerId = None, members = [demo_member], createdAt = Some 1\<rparr>],
     conns =
     [8 \<mapsto>
     \<lparr>c_peerId = Some demo_member, c_sessionToken = Some member_token,
     c_ip = ''10.0.0.2''\<rparr>],
     open_ws = {8, 7} - {7}, timerQueue = [0 \<mapsto> (demo_room, 30004)],
     nextTimer = Suc 0,
     outbox =
     [(7, PeerIdNew demo_host), (7, RegisterHostSuccess demo_room),
     (8, PeerIdNew demo_member),
     (8, JoinRoomSuccess demo_room (Some demo_host)),
     (7, PeerConnecting demo_member),
     (8, HostDisconnected demo_room)]\<rparr>"
  by (simp add: sc7_def sc6_eq init_state_def demo_conn0_def model_defs del: isValidPeerId.simps isValidRoomId.simps isValidSessionToken.simps)

lemma other_room_simps [simp]:
  "other_room \<noteq> demo_room" "demo_room \<noteq> other_room" "other_room \<noteq> []"
  "isValidRoomId (Some (JStr other_room))"
  by (simp_all add: other_room_def demo_room_def is_room_char_def is_dice_def lit_def)

lemma plain_msg_type [simp]: "msg_type (plain_msg ty) = Some (lit ty)"
  by (simp add: plain_msg_def msg_type_def)

lemma offer_msg_simps [simp]:
  "msg_type offer_msg = Some (lit ''offer'')"
  "field offer_msg (lit ''targetPeerId'') = Some (JStr demo_host)"
  by (simp_all add: offer_msg_def msg_type_def)

lemma sc_two_eq:
  "sc_two =
     \<lparr>wsConnections = [demo_host \<mapsto> 7, demo_member \<mapsto> 8],
     hostWsConnections = [demo_room \<mapsto> 7, other_room \<mapsto> 7],
     connectionsByIp = [''10.0.0.1'' \<mapsto> [7], ''10.0.0.2'' \<mapsto> [8]],
     messageRates =
     [demo_member \<mapsto> \<lparr>r_count = Suc 0, windowStart = 3\<rparr>,
     demo_host \<mapsto> \<lparr>r_count = Suc (Suc 0), windowStart = 1\<rparr>],
     cleanupTimers = \<lambda>x. None,
     sessions =
     [(demo_token,
     \<lparr>s_peerId = demo_host, s_roomId = Some other_room,
     lastSeen = 5\<rparr>),
     (member_token,
     \<lparr>s_peerId = demo_member, s_roomId = Some demo_room,
     lastSeen = 3\<rparr>)],
     peers =
     [demo_member \<mapsto>
     \<lparr>p_roomId = Some demo_room, p_ip = Some ''10.0.0.2'',
     p_sessionToken = Some member_token\<rparr>,
     demo_host \<mapsto>
     \<lparr>p_roomId = Some other_room, p_ip = Some ''10.0.0.1'',
     p_sessionToken = Some demo_token\<rparr>],
     rooms =
     [demo_room \<mapsto>
     \<lparr>hostPeerId = Some demo_host, members = [demo_member],
     createdAt = Some 1\<rparr>,
     other_room \<mapsto>
     \<lparr>hostPeerId = Some demo_host, members = [], createdAt = Some 5\<rparr>],
     conns =
     [7 \<mapsto>
     \<lparr>c_peerId = Some demo_host, c_sessionToken = Some demo_token,
     c_ip = ''10.0.0.1''\<rparr>,
     8 \<mapsto>
     \<lparr>c_peerId = Some demo_member, c_sessionToken = Some member_token,
     c_ip = ''10.0.0.2''\<rparr>],
     open_ws = {8, 7}, timerQueue = \<lambda>x. None, nextTimer = 0,
     outbox =
     [(7, PeerIdNew demo_host), (7, RegisterHostSuccess demo_room),
     (8, PeerIdNew demo_member),
     (8, JoinRoomSuccess demo_room (Some demo_host)),
     (7, PeerConnecting demo_member),
     (7, RegisterHostSuccess other_room)]\<rparr>"
  by (simp add: sc_two_def sc6_eq init_state_def demo_conn0_def model_defs del: isValidPeerId.simps isValidRoomId.simps isValidSessionToken.simps)

lemma sc_left_eq:
  "sc_left =
     \<lparr>wsConnections = [demo_host \<mapsto> 7, demo_member \<mapsto> 8],
     hostWsConnections = [demo_room \<mapsto> 7],
     connectionsByIp = [''10.0.0.1'' \<mapsto> [7], ''10.0.0.2'' \<mapsto> [8]],
     messageRates =
     [demo_host \<mapsto> \<lparr>r_count = Suc 0, windowStart = 1\<rparr>,
     demo_member \<mapsto> \<lparr>r_count = Suc (Suc 0), windowStart = 3\<rparr>],
     cleanupTimers = \<lambda>x. None,
     sessions =
     [(demo_token,
     \<lparr>s_peerId = demo_host, s_roomId = Some demo_room, lastSeen = 1\<rparr>),
     (member_token,
     \<lparr>s_peerId = demo_member, s_roomId = None, lastSeen = 4\<rparr>)],
     peers =
     [demo_host \<mapsto>
     \<lparr>p_roomId = Some demo_room, p_ip = Some ''10.0.0.1'',
     p_sessionToken = Some demo_token\<rparr>,
     demo_member \<mapsto>
     \<lparr>p_roomId = None, p_ip = Some ''10.0.0.2'',
     p_sessionToken = Some member_token\<rparr>],
     rooms =
     [demo_room \<mapsto>
     \<lparr>hostPeerId = Some demo_host, members = [], createdAt = Some 1\<rparr>],
     conns =
     [7 \<mapsto>
     \<lparr>c_peerId = Some demo_host, c_sessionToken = Some demo_token,
     c_ip = ''10.0.0.1''\<rparr>,
     8 \<mapsto>
     \<lparr>c_peerId = Some demo_member, c_sessionToken = Some member_token,
     c_ip = ''10.0.0.2''\<rparr>],
     open_ws = {8, 7}, timerQueue = \<lambda>x. None, nextTimer = 0,
     outbox =
     [(7, PeerIdNew demo_host), (7, RegisterHostSuccess demo_room),
     (8, PeerIdNew demo_member),
     (8, JoinRoomSuccess demo_room (Some demo_host)),
     (7, PeerConnecting demo_member)]\<rparr>"
  by (simp add: sc_left_def sc6_eq init_state_def demo_conn0_def model_defs del: isValidPeerId.simps isValidRoomId.simps isValidSessionToken.simps)

lemma joined_two_eq:
  "joined_two =
     \<lparr>wsConnections = [demo_host \<mapsto> 7, demo_member \<mapsto> 8],
     hostWsConnections = [demo_room \<mapsto> 7, other_room \<mapsto> 7],
     connectionsByIp = [''10.0.0.1'' \<mapsto> [7], ''10.0.0.2'' \<mapsto> [8]],
     messageRates =
     [demo_host \<mapsto> \<lparr>r_count = Suc (Suc 0), windowStart = 1\<rparr>,
     demo_member \<mapsto> \<lparr>r_count = Suc (Suc 0), windowStart = 3\<rparr>],
     cleanupTimers = \<lambda>x. None,
     sessions =
     [(demo_token,
     \<lparr>s_peerId = demo_host, s_roomId = Some other_room,
     lastSeen = 5\<rparr>),
     (member_token,
     \<lparr>s_peerId = demo_member, s_roomId = Some other_room,
     lastSeen = 6\<rparr>)],
     peers =
     [demo_host \<mapsto>
     \<lparr>p_roomId = Some other_room, p_ip = Some ''10.0.0.1'',
     p_sessionToken = Some demo_token\<rparr>,
     demo_member \<mapsto>
     \<lparr>p_roomId = Some other_room, p_ip = Some ''10.0.0.2'',
     p_sessionToken = Some member_token\<rparr>],
     rooms =
     [demo_room \<mapsto>
     \<lparr>hostPeerId = Some demo_host, members = [demo_member],
     createdAt = Some 1\<rparr>,
     other_room \<mapsto>
     \<lparr>hostPeerId = Some demo_host, members = [demo_member],
     createdAt = Some 5\<rparr>],
     conns =
     [7 \<mapsto>
     \<lparr>c_peerId = Some demo_host, c_sessionToken = Some demo_token,
     c_ip = ''10.0.0.1''\<rparr>,
     8 \<mapsto>
     \<lparr>c_peerId = Some demo_member, c_sessionToken = Some member_token,
     c_ip = ''10.0.0.2''\<rparr>],
     open_ws = {8, 7}, timerQueue = \<lambda>x. None, nextTimer = 0,
     outbox =
     [(7, PeerIdNew demo_host), (7, RegisterHostSuccess demo_room),
     (8, PeerIdNew demo_member),
     (8, JoinRoomSuccess demo_room (Some demo_host)),
     (7, PeerConnecting demo_member),
     (7, RegisterHostSuccess other_room),
     (8, JoinRoomSuccess other_room (Some demo_host)),
     (7, PeerConnecting demo_member)]\<rparr>"
  by (simp add: joined_two_def sc_two_eq init_state_def demo_conn0_def model_defs del: isValidPeerId.simps isValidRoomId.simps isValidSessionToken.simps)

lemma sc6c_eq:
  "sc6c =
     \<lparr>wsConnections = [demo_host \<mapsto> 7, demo_member \<mapsto> 8],
     hostWsConnections = [demo_room \<mapsto> 7],
     connectionsByIp = [''10.0.0.2'' \<mapsto> [8], ''10.0.0.1'' \<mapsto> [7, 9]],
     messageRates =
     [demo_host \<mapsto> \<lparr>r_count = Suc 0, windowStart = 1\<rparr>,
     demo_member \<mapsto> \<lparr>r_count = Suc 0, windowStart = 3\<rparr>],
     cleanupTimers = \<lambda>x. None,
     sessions =
     [(demo_token,
     \<lparr>s_peerId = demo_host, s_roomId = Some demo_room, lastSeen = 1\<rparr>),
     (member_token,
     \<lparr>s_peerId = demo_member, s_roomId = Some demo_room,
     lastSeen = 3\<rparr>)],
     peers =
     [demo_host \<mapsto>
     \<lparr>p_roomId = Some demo_room, p_ip = Some ''10.0.0.1'',
     p_sessionToken = Some demo_token\<rparr>,
     demo_member \<mapsto>
     \<lparr>p_roomId = Some demo_room, p_ip = Some ''10.0.0.2'',
     p_sessionToken = Some member_token\<rparr>],
     rooms =
     [demo_room \<mapsto>
     \<lparr>hostPeerId = Some demo_host, members = [demo_member],
     createdAt = Some 1\<rparr>],
     conns =
     [7 \<mapsto>
     \<lparr>c_peerId = Some demo_host, c_sessionToken = Some demo_token,
     c_ip = ''10.0.0.1''\<rparr>,
     8 \<mapsto>
     \<lparr>c_peerId = Some demo_member, c_sessionToken = Some member_token,
     c_ip = ''10.0.0.2''\<rparr>,
     9 \<mapsto>
     \<lparr>c_peerId = None, c_sessionToken = None, c_ip = ''10.0.0.1''\<rparr>],
     open_ws = {9, 8, 7}, timerQueue = \<lambda>x. None, nextTimer = 0,
     outbox =
     [(7, PeerIdNew demo_host), (7, RegisterHostSuccess demo_room),
     (8, PeerIdNew demo_member),
     (8, JoinRoomSuccess demo_room (Some demo_host)),
     (7, PeerConnecting demo_member)]\<rparr>"
  by (simp add: sc6c_def sc6_eq init_state_def demo_conn0_def model_defs del: isValidPeerId.simps isValidRoomId.simps isValidSessionToken.simps)


lemma sc_evict_eq:
  "sc_evict =
     \<lparr>wsConnections = [demo_member \<mapsto> 8, demo_host \<mapsto> 9],
     hostWsConnections = [demo_room \<mapsto> 7],
     connectionsByIp = [''10.0.0.2'' \<mapsto> [8], ''10.0.0.1'' \<mapsto> [7, 9]],
     messageRates =
     [demo_host \<mapsto> \<lparr>r_count = Suc 0, windowStart = 1\<rparr>,
     demo_member \<mapsto> \<lparr>r_count = Suc 0, windowStart = 3\<rparr>],
     cleanupTimers = \<lambda>x. None,
     sessions =
     [(demo_token,
     \<lparr>s_peerId = demo_host, s_roomId = Some demo_room,
     lastSeen = 10\<rparr>),
     (member_token,
     \<lparr>s_peerId = demo_member, s_roomId = Some demo_room,
     lastSeen = 3\<rparr>)],
     peers =
     [demo_member \<mapsto>
     \<lparr>p_roomId = Some demo_room, p_ip = Some ''10.0.0.2'',
     p_sessionToken = Some member_token\<rparr>,
     demo_host \<mapsto>
     \<lparr>p_roomId = Some demo_room, p_ip = Some ''10.0.0.1'',
     p_sessionToken = Some demo_token\<rparr>],
     rooms =
     [demo_room \<mapsto>
     \<lparr>hostPeerId = Some demo_host, members = [demo_member],
     createdAt = Some 1\<rparr>],
     conns =
     [7 \<mapsto>
     \<lparr>c_peerId = Some demo_host, c_sessionToken = Some demo_token,
     c_ip = ''10.0.0.1''\<rparr>,
     8 \<mapsto>
     \<lparr>c_peerId = Some demo_member, c_sessionToken = Some member_token,
     c_ip = ''10.0.0.2''\<rparr>,
     9 \<mapsto>
     \<lparr>c_peerId = Some demo_host, c_sessionToken = Some demo_token,
     c_ip = ''10.0.0.1''\<rparr>],
     open_ws = {9, 8, 7} - {7}, timerQueue = \<lambda>x. None, nextTimer = 0,
     outbox =
     [(7, PeerIdNew demo_host), (7, RegisterHostSuccess demo_room),
     (8, PeerIdNew demo_member),
     (8, JoinRoomSuccess demo_room (Some demo_host)),
     (7, PeerConnecting demo_member),
     (9, PeerIdRestored demo_host (Some demo_room))]\<rparr>"
  by (simp add: sc_evict_def sc6c_eq init_state_def demo_conn0_def model_defs del: isValidPeerId.simps isValidRoomId.simps isValidSessionToken.simps)


lemma sc7c_eq:
  "sc7c =
     \<lparr>wsConnections = [demo_member \<mapsto> 8], hostWsConnections = \<lambda>x. None,
     connectionsByIp = [''10.0.0.2'' \<mapsto> [8], ''10.0.0.1'' \<mapsto> [9]],
     messageRates = [demo_member \<mapsto> \<lparr>r_count = Suc 0, windowStart = 3\<rparr>],
     cleanupTimers = [demo_room \<mapsto> 0],
     sessions =
     [(demo_token,
     \<lparr>s_peerId = demo_host, s_roomId = Some demo_room, lastSeen = 1\<rparr>),
     (member_token,
     \<lparr>s_peerId = demo_member, s_roomId = Some demo_room,
     lastSeen = 3\<rparr>)],
     peers =
     [demo_member \<mapsto>
     \<lparr>p_roomId = Some demo_room, p_ip = Some ''10.0.0.2'',
     p_sessionToken = Some member_token\<rparr>],
     rooms =
     [demo_room \<mapsto>
     \<lparr>hostPeerId = None, members = [demo_member], createdAt = Some 1\<rparr>],
     conns =
     [8 \<mapsto>
     \<lparr>c_peerId = Some demo_member, c_sessionToken = Some member_token,
     c_ip = ''10.0.0.2''\<rparr>,
     9 \<mapsto>
     \<lparr>c_peerId = None, c_sessionToken = None, c_ip = ''10.0.0.1''\<rparr>],
     open_ws = insert 9 ({8, 7} - {7}),
     timerQueue = [0 \<mapsto> (demo_room, 30004)], nextTimer = Suc 0,
     outbox =
     [(7, PeerIdNew demo_host), (7, RegisterHostSuccess demo_room),
     (8, PeerIdNew demo_member),
     (8, JoinRoomSuccess demo_room (Some demo_host)),
     (7, PeerConnecting demo_member),
     (8, HostDisconnected demo_room)]\<rparr>"
  by (simp add: sc7c_def sc7_eq init_state_def demo_conn0_def model_defs del: isValidPeerId.simps isValidRoomId.simps isValidSessionToken.simps)


lemma sc_back_eq:
  "sc_back =
     \<lparr>wsConnections = [demo_member \<mapsto> 8, demo_host \<mapsto> 9],
     hostWsConnections = [demo_room \<mapsto> 9],
     connectionsByIp = [''10.0.0.2'' \<mapsto> [8], ''10.0.0.1'' \<mapsto> [9]],
     messageRates = [demo_member \<mapsto> \<lparr>r_count = Suc 0, windowStart = 3\<rparr>],
     cleanupTimers = \<lambda>x. None,
     sessions =
     [(demo_token,
     \<lparr>s_peerId = demo_host, s_roomId = Some demo_room,
     lastSeen = 10\<rparr>),
     (member_token,
     \<lparr>s_peerId = demo_member, s_roomId = Some demo_room,
     lastSeen = 3\<rparr>)],
     peers =
     [demo_member \<mapsto>
     \<lparr>p_roomId = Some demo_room, p_ip = Some ''10.0.0.2'',
     p_sessionToken = Some member_token\<rparr>,
     demo_host \<mapsto>
     \<lparr>p_roomId = Some demo_room, p_ip = Some ''10.0.0.1'',
     p_sessionToken = Some demo_token\<rparr>],
     rooms =
     [demo_room \<mapsto>
     \<lparr>hostPeerId = Some demo_host, members = [demo_member, demo_host],
     createdAt = Some 1\<rparr>],
     conns =
     [8 \<mapsto>
     \<lparr>c_peerId = Some demo_member, c_sessionToken = Some member_token,
     c_ip = ''10.0.0.2''\<rparr>,
     9 \<mapsto>
     \<lparr>c_peerId = Some demo_host, c_sessionToken = Some demo_token,
     c_ip = ''10.0.0.1''\<rparr>],
     open_ws = insert 9 ({8, 7} - {7}), timerQueue = \<lambda>x. None,
     nextTimer = Suc 0,
     outbox =
     [(7, PeerIdNew demo_host), (7, RegisterHostSuccess demo_room),
     (8, PeerIdNew demo_member),
     (8, JoinRoomSuccess demo_room (Some demo_host)),
     (7, PeerConnecting demo_member), (8, HostDisconnected demo_room),
     (9, PeerIdRestored demo_host (Some demo_room)),
     (8, HostReconnected demo_room demo_host),
     (9, HostReconnected demo_room demo_host)]\<rparr>"
  by (simp add: sc_back_def sc7c_eq init_state_def demo_conn0_def model_defs del: isValidPeerId.simps isValidRoomId.simps isValidSessionToken.simps)


lemma sc8_eq:
  "sc8 =
     \<lparr>wsConnections = [demo_member \<mapsto> 8], hostWsConnections = [demo_room \<mapsto> 8],
     connectionsByIp = [''10.0.0.2'' \<mapsto> [8]],
     messageRates =
     [demo_member \<mapsto> \<lparr>r_count = Suc (Suc 0), windowStart = 3\<rparr>],
     cleanupTimers = \<lambda>x. None,
     sessions =
     [(demo_token,
     \<lparr>s_peerId = demo_host, s_roomId = Some demo_room, lastSeen = 1\<rparr>),
     (member_token,
     \<lparr>s_peerId = demo_member, s_roomId = Some demo_room,
     lastSeen = 5\<rparr>)],
     peers =
     [demo_member \<mapsto>
     \<lparr>p_roomId = Some demo_room, p_ip = Some ''10.0.0.2'',
     p_sessionToken = Some member_token\<rparr>],
     rooms =
     [demo_room \<mapsto>
     \<lparr>hostPeerId = Some demo_member, members = [demo_member],
     createdAt = Some 1\<rparr>],
     conns =
     [8 \<mapsto>
     \<lparr>c_peerId = Some demo_member, c_sessionToken = Some member_token,
     c_ip = ''10.0.0.2''\<rparr>],
     open_ws = {8, 7} - {7}, timerQueue = \<lambda>x. None, nextTimer = Suc 0,
     outbox =
     [(7, PeerIdNew demo_host), (7, RegisterHostSuccess demo_room),
     (8, PeerIdNew demo_member),
     (8, JoinRoomSuccess demo_room (Some demo_host)),
     (7, PeerConnecting demo_member), (8, HostDisconnected demo_room),
     (8, ClaimHostSuccess demo_room)]\<rparr>"
  by (simp add: sc8_def sc7_eq init_state_def demo_conn0_def model_defs del: isValidPeerId.simps isValidRoomId.simps isValidSessionToken.simps)


lemma sc_closed_eq:
  "sc_closed =
     \<lparr>wsConnections = [demo_member \<mapsto> 8], hostWsConnections = \<lambda>x. None,
     connectionsByIp = [''10.0.0.2'' \<mapsto> [8]],
     messageRates = [demo_member \<mapsto> \<lparr>r_count = Suc 0, windowStart = 3\<rparr>],
     cleanupTimers = \<lambda>x. None,
     sessions =
     [(demo_token,
     \<lparr>s_peerId = demo_host, s_roomId = Some demo_room, lastSeen = 1\<rparr>),
     (member_token,
     \<lparr>s_peerId = demo_member, s_roomId = Some demo_room,
     lastSeen = 3\<rparr>)],
     peers =
     [demo_member \<mapsto>
     \<lparr>p_roomId = Some demo_room, p_ip = Some ''10.0.0.2'',
     p_sessionToken = Some member_token\<rparr>],
     rooms = \<lambda>x. None,
     conns =
     [8 \<mapsto>
     \<lparr>c_peerId = Some demo_member, c_sessionToken = Some member_token,
     c_ip = ''10.0.0.2''\<rparr>],
     open_ws = {8, 7} - {7}, timerQueue = \<lambda>x. None, nextTimer = Suc 0,
     outbox =
     [(7, PeerIdNew demo_host), (7, RegisterHostSuccess demo_room),
     (8, PeerIdNew demo_member),
     (8, JoinRoomSuccess demo_room (Some demo_host)),
     (7, PeerConnecting demo_member), (8, HostDisconnected demo_room),
     (8, RoomClosed demo_room ''Host did not return'')]\<rparr>"
  by (simp add: sc_closed_def sc7_eq init_state_def demo_conn0_def model_defs del: isValidPeerId.simps isValidRoomId.simps isValidSessionToken.simps)

lemma sc_torn_eq:
  "sc_torn =
     \<lparr>wsConnections = [demo_member \<mapsto> 8], hostWsConnections = \<lambda>x. None,
     connectionsByIp = [''10.0.0.2'' \<mapsto> [8], ''10.0.0.1'' \<mapsto> [9]],
     messageRates = [demo_member \<mapsto> \<lparr>r_count = Suc 0, windowStart = 3\<rparr>],
     cleanupTimers = [demo_room \<mapsto> 0],
     sessions =
     [(demo_token,
     \<lparr>s_peerId = demo_host, s_roomId = Some demo_room,
     lastSeen = 10\<rparr>),
     (member_token,
     \<lparr>s_peerId = demo_member, s_roomId = Some demo_room,
     lastSeen = 3\<rparr>)],
     peers =
     [demo_member \<mapsto>
     \<lparr>p_roomId = Some demo_room, p_ip = Some ''10.0.0.2'',
     p_sessionToken = Some member_token\<rparr>],
     rooms =
     [demo_room \<mapsto>
     \<lparr>hostPeerId = None, members = [demo_member], createdAt = Some 1\<rparr>],
     conns =
     [8 \<mapsto>
     \<lparr>c_peerId = Some demo_member, c_sessionToken = Some member_token,
     c_ip = ''10.0.0.2''\<rparr>,
     9 \<mapsto>
     \<lparr>c_peerId = Some demo_host, c_sessionToken = Some demo_token,
     c_ip = ''10.0.0.1''\<rparr>],
     open_ws = {9, 8, 7} - {7}, timerQueue = [0 \<mapsto> (demo_room, 30011)],
     nextTimer = Suc 0,
     outbox =
     [(7, PeerIdNew demo_host), (7, RegisterHostSuccess demo_room),
     (8, PeerIdNew demo_member),
     (8, JoinRoomSuccess demo_room (Some demo_host)),
     (7, PeerConnecting demo_member),
     (9, PeerIdRestored demo_host (Some demo_room)),
     (8, HostDisconnected demo_room)]\<rparr>"
  by (simp add: sc_torn_def sc_evict_eq init_state_def demo_conn0_def model_defs del: isValidPeerId.simps isValidRoomId.simps isValidSessionToken.simps)

lemma sc_ghost_eq:
  "sc_ghost =
     \<lparr>wsConnections = [demo_member \<mapsto> 8], hostWsConnections = [demo_room \<mapsto> 9],
     connectionsByIp = [''10.0.0.2'' \<mapsto> [8], ''10.0.0.1'' \<mapsto> [9]],
     messageRates =
     [demo_member \<mapsto> \<lparr>r_count = Suc 0, windowStart = 3\<rparr>,
     demo_host \<mapsto> \<lparr>r_count = Suc 0, windowStart = 12\<rparr>],
     cleanupTimers = \<lambda>x. None,
     sessions =
     [(demo_token,
     \<lparr>s_peerId = demo_host, s_roomId = Some demo_room,
     lastSeen = 12\<rparr>),
     (member_token,
     \<lparr>s_peerId = demo_member, s_roomId = Some demo_room,
     lastSeen = 3\<rparr>)],
     peers =
     [demo_member \<mapsto>
     \<lparr>p_roomId = Some demo_room, p_ip = Some ''10.0.0.2'',
     p_sessionToken = Some member_token\<rparr>,
     demo_host \<mapsto>
     \<lparr>p_roomId = Some demo_room, p_ip = None, p_sessionToken = None\<rparr>],
     rooms =
     [demo_room \<mapsto>
     \<lparr>hostPeerId = Some demo_host, members = [demo_member],
     createdAt = Some 12\<rparr>],
     conns =
     [8 \<mapsto>
     \<lparr>c_peerId = Some demo_member, c_sessionToken = Some member_token,
     c_ip = ''10.0.0.2''\<rparr>,
     9 \<mapsto>
     \<lparr>c_peerId = Some demo_host, c_sessionToken = Some demo_token,
     c_ip = ''10.0.0.1''\<rparr>],
     open_ws = {9, 8, 7} - {7}, timerQueue = \<lambda>x. None, nextTimer = Suc 0,
     outbox =
     [(7, PeerIdNew demo_host), (7, RegisterHostSuccess demo_room),
     (8, PeerIdNew demo_member),
     (8, JoinRoomSuccess demo_room (Some demo_host)),
     (7, PeerConnecting demo_member),
     (9, PeerIdRestored demo_host (Some demo_room)),
     (8, HostDisconnected demo_room),
     (9, RegisterHostSuccess demo_room)]\<rparr>"
  by (simp add: sc_ghost_def sc_torn_eq init_state_def demo_conn0_def model_defs del: isValidPeerId.simps isValidRoomId.simps isValidSessionToken.simps)

lemma sc_two_gone_eq:
  "sc_two_gone =
     \<lparr>wsConnections = [demo_member \<mapsto> 8], hostWsConnections = [demo_room \<mapsto> 7],
     connectionsByIp = [''10.0.0.2'' \<mapsto> [8]],
     messageRates = [demo_member \<mapsto> \<lparr>r_count = Suc 0, windowStart = 3\<rparr>],
     cleanupTimers = [other_room \<mapsto> 0],
     sessions =
     [(demo_token,
     \<lparr>s_peerId = demo_host, s_roomId = Some other_room,
     lastSeen = 5\<rparr>),
     (member_token,
     \<lparr>s_peerId = demo_member, s_roomId = Some demo_room,
     lastSeen = 3\<rparr>)],
     peers =
     [demo_member \<mapsto>
     \<lparr>p_roomId = Some demo_room, p_ip = Some ''10.0.0.2'',
     p_sessionToken = Some member_token\<rparr>],
     rooms =
     [demo_room \<mapsto>
     \<lparr>hostPeerId = Some demo_host, members = [demo_member],
     createdAt = Some 1\<rparr>,
     other_room \<mapsto>
     \<lparr>hostPeerId = None, members = [], createdAt = Some 5\<rparr>],
     conns =
     [8 \<mapsto>
     \<lparr>c_peerId = Some demo_member, c_sessionToken = Some member_token,
     c_ip = ''10.0.0.2''\<rparr>],
     open_ws = {8, 7} - {7}, timerQueue = [0 \<mapsto> (other_room, 30006)],
     nextTimer = Suc 0,
     outbox =
     [(7, PeerIdNew demo_host), (7, RegisterHostSuccess demo_room),
     (8, PeerIdNew demo_member),
     (8, JoinRoomSuccess demo_room (Some demo_host)),
     (7, PeerConnecting demo_member),
     (7, RegisterHostSuccess other_room)]\<rparr>"
  by (simp add: sc_two_gone_def sc_two_eq init_state_def demo_conn0_def model_defs del: isValidPeerId.simps isValidRoomId.simps isValidSessionToken.simps)

lemma sc_two_late_eq:
  "sc_two_late =
     \<lparr>wsConnections = [demo_member \<mapsto> 8], hostWsConnections = [demo_room \<mapsto> 7],
     connectionsByIp = [''10.0.0.2'' \<mapsto> [8]],
     messageRates = [demo_member \<mapsto> \<lparr>r_count = Suc 0, windowStart = 3\<rparr>],
     cleanupTimers = \<lambda>x. None,
     sessions =
     [(demo_token,
     \<lparr>s_peerId = demo_host, s_roomId = Some other_room,
     lastSeen = 5\<rparr>),
     (member_token,
     \<lparr>s_peerId = demo_member, s_roomId = Some demo_room,
     lastSeen = 3\<rparr>)],
     peers =
     [demo_member \<mapsto>
     \<lparr>p_roomId = Some demo_room, p_ip = Some ''10.0.0.2'',
     p_sessionToken = Some member_token\<rparr>],
     rooms =
     [demo_room \<mapsto>
     \<lparr>hostPeerId = Some demo_host, members = [demo_member],
     createdAt = Some 1\<rparr>],
     conns =
     [8 \<mapsto>
     \<lparr>c_peerId = Some demo_member, c_sessionToken = Some member_token,
     c_ip = ''10.0.0.2''\<rparr>],
     open_ws = {8, 7} - {7}, timerQueue = \<lambda>x. None, nextTimer = Suc 0,
     outbox =
     [(7, PeerIdNew demo_host), (7, RegisterHostSuccess demo_room),
     (8, PeerIdNew demo_member),
     (8, JoinRoomSuccess demo_room (Some demo_host)),
     (7, PeerConnecting demo_member),
     (7, RegisterHostSuccess other_room)]\<rparr>"
  by (simp add: sc_two_late_def sc_two_gone_eq init_state_def demo_conn0_def model_defs del: isValidPeerId.simps isValidRoomId.simps isValidSessionToken.simps)

lemma sc_m9_eq:
  "sc_m9 =
     \<lparr>wsConnections = [demo_host \<mapsto> 7, demo_member \<mapsto> 8],
     hostWsConnections = [demo_room \<mapsto> 7],
     connectionsByIp = [''10.0.0.1'' \<mapsto> [7], ''10.0.0.2'' \<mapsto> [8, 9]],
     messageRates =
     [demo_host \<mapsto> \<lparr>r_count = Suc 0, windowStart = 1\<rparr>,
     demo_member \<mapsto> \<lparr>r_count = Suc 0, windowStart = 3\<rparr>],
     cleanupTimers = \<lambda>x. None,
     sessions =
     [(demo_token,
     \<lparr>s_peerId = demo_host, s_roomId = Some demo_room, lastSeen = 1\<rparr>),
     (member_token,
     \<lparr>s_peerId = demo_member, s_roomId = Some demo_room,
     lastSeen = 3\<rparr>)],
     peers =
     [demo_host \<mapsto>
     \<lparr>p_roomId = Some demo_room, p_ip = Some ''10.0.0.1'',
     p_sessionToken = Some demo_token\<rparr>,
     demo_member \<mapsto>
     \<lparr>p_roomId = Some demo_room, p_ip = Some ''10.0.0.2'',
     p_sessionToken = Some member_token\<rparr>],
     rooms =
     [demo_room \<mapsto>
     \<lparr>hostPeerId = Some demo_host, members = [demo_member],
     createdAt = Some 1\<rparr>],
     conns =
     [7 \<mapsto>
     \<lparr>c_peerId = Some demo_host, c_sessionToken = Some demo_token,
     c_ip = ''10.0.0.1''\<rparr>,
     8 \<mapsto>
     \<lparr>c_peerId = Some demo_member, c_sessionToken = Some member_token,
     c_ip = ''10.0.0.2''\<rparr>,
     9 \<mapsto>
     \<lparr>c_peerId = None, c_sessionToken = None, c_ip = ''10.0.0.2''\<rparr>],
     open_ws = {9, 8, 7}, timerQueue = \<lambda>x. None, nextTimer = 0,
     outbox =
     [(7, PeerIdNew demo_host), (7, RegisterHostSuccess demo_room),
     (8, PeerIdNew demo_member),
     (8, JoinRoomSuccess demo_room (Some demo_host)),
     (7, PeerConnecting demo_member)]\<rparr>"
  by (simp add: sc_m9_def sc6_eq init_state_def demo_conn0_def model_defs del: isValidPeerId.simps isValidRoomId.simps isValidSessionToken.simps)

lemma sc_mback_eq:
  "sc_mback =
     \<lparr>wsConnections = [demo_host \<mapsto> 7, demo_member \<mapsto> 9],
     hostWsConnections = [demo_room \<mapsto> 7],
     connectionsByIp = [''10.0.0.1'' \<mapsto> [7], ''10.0.0.2'' \<mapsto> [8, 9]],
     messageRates =
     [demo_host \<mapsto> \<lparr>r_count = Suc 0, windowStart = 1\<rparr>,
     demo_member \<mapsto> \<lparr>r_count = Suc 0, windowStart = 3\<rparr>],
     cleanupTimers = \<lambda>x. None,
     sessions =
     [(demo_token,
     \<lparr>s_peerId = demo_host, s_roomId = Some demo_room, lastSeen = 1\<rparr>),
     (member_token,
     \<lparr>s_peerId = demo_member, s_roomId = Some demo_room,
     lastSeen = 10\<rparr>)],
     peers =
     [demo_host \<mapsto>
     \<lparr>p_roomId = Some demo_room, p_ip = Some ''10.0.0.1'',
     p_sessionToken = Some demo_token\<rparr>,
     demo_member \<mapsto>
     \<lparr>p_roomId = Some demo_room, p_ip = Some ''10.0.0.2'',
     p_sessionToken = Some member_token\<rparr>],
     rooms =
     [demo_room \<mapsto>
     \<lparr>hostPeerId = Some demo_host, members = [demo_member],
     createdAt = Some 1\<rparr>],
     conns =
     [7 \<mapsto>
     \<lparr>c_peerId = Some demo_host, c_sessionToken = Some demo_token,
     c_ip = ''10.0.0.1''\<rparr>,
     8 \<mapsto>
     \<lparr>c_peerId = Some demo_member, c_sessionToken = Some member_token,
     c_ip = ''10.0.0.2''\<rparr>,
     9 \<mapsto>
     \<lparr>c_peerId = Some demo_member, c_sessionToken = Some member_token,
     c_ip = ''10.0.0.2''\<rparr>],
     open_ws = {9, 8, 7} - {8}, timerQueue = \<lambda>x. None, nextTimer = 0,
     outbox =
     [(7, PeerIdNew demo_host), (7, RegisterHostSuccess demo_room),
     (8, PeerIdNew demo_member),
     (8, JoinRoomSuccess demo_room (Some demo_host)),
     (7, PeerConnecting demo_member),
     (9, PeerIdRestored demo_member (Some demo_room))]\<rparr>"
  by (simp add: sc_mback_def sc_m9_eq init_state_def demo_conn0_def model_defs del: isValidPeerId.simps isValidRoomId.simps isValidSessionToken.simps)

lemma sc_mtorn_eq:
  "sc_mtorn =
     \<lparr>wsConnections = [demo_host \<mapsto> 7], hostWsConnections = [demo_room \<mapsto> 7],
     connectionsByIp = [''10.0.0.1'' \<mapsto> [7], ''10.0.0.2'' \<mapsto> [9]],
     messageRates = [demo_host \<mapsto> \<lparr>r_count = Suc 0, windowStart = 1\<rparr>],
     cleanupTimers = \<lambda>x. None,
     sessions =
     [(demo_token,
     \<lparr>s_peerId = demo_host, s_roomId = Some demo_room, lastSeen = 1\<rparr>),
     (member_token,
     \<lparr>s_peerId = demo_member, s_roomId = Some demo_room,
     lastSeen = 10\<rparr>)],
     peers =
     [demo_host \<mapsto>
     \<lparr>p_roomId = Some demo_room, p_ip = Some ''10.0.0.1'',
     p_sessionToken = Some demo_token\<rparr>],
     rooms =
     [demo_room \<mapsto>
     \<lparr>hostPeerId = Some demo_host, members = [demo_member],
     createdAt = Some 1\<rparr>],
     conns =
     [7 \<mapsto>
     \<lparr>c_peerId = Some demo_host, c_sessionToken = Some demo_token,
     c_ip = ''10.0.0.1''\<rparr>,
     9 \<mapsto>
     \<lparr>c_peerId = Some demo_member, c_sessionToken = Some member_token,
     c_ip = ''10.0.0.2''\<rparr>],
     open_ws = {9, 8, 7} - {8}, timerQueue = \<lambda>x. None, nextTimer = 0,
     outbox =
     [(7, PeerIdNew demo_host), (7, RegisterHostSuccess demo_room),
     (8, PeerIdNew demo_member),
     (8, JoinRoomSuccess demo_room (Some demo_host)),
     (7, PeerConnecting demo_member),
     (9, PeerIdRestored demo_member (Some demo_room))]\<rparr>"
  by (simp add: sc_mtorn_def sc_mback_eq init_state_def demo_conn0_def model_defs del: isValidPeerId.simps isValidRoomId.simps isValidSessionToken.simps)

lemma sc_mlost_eq:
  "sc_mlost =
     \<lparr>wsConnections = \<lambda>x. None, hostWsConnections = \<lambda>x. None,
     connectionsByIp = [''10.0.0.2'' \<mapsto> [9]], messageRates = \<lambda>x. None,
     cleanupTimers = [demo_room \<mapsto> 0],
     sessions =
     [(demo_token,
     \<lparr>s_peerId = demo_host, s_roomId = Some demo_room, lastSeen = 1\<rparr>),
     (member_token,
     \<lparr>s_peerId = demo_member, s_roomId = Some demo_room,
     lastSeen = 10\<rparr>)],
     peers = \<lambda>x. None,
     rooms =
     [demo_room \<mapsto>
     \<lparr>hostPeerId = None, members = [demo_member], createdAt = Some 1\<rparr>],
     conns =
     [9 \<mapsto>
     \<lparr>c_peerId = Some demo_member, c_sessionToken = Some member_token,
     c_ip = ''10.0.0.2''\<rparr>],
     open_ws = {9, 8, 7} - {8} - {7},
     timerQueue = [0 \<mapsto> (demo_room, 30012)], nextTimer = Suc 0,
     outbox =
     [(7, PeerIdNew demo_host), (7, RegisterHostSuccess demo_room),
     (8, PeerIdNew demo_member),
     (8, JoinRoomSuccess demo_room (Some demo_host)),
     (7, PeerConnecting demo_member),
     (9, PeerIdRestored demo_member (Some demo_room))]\<rparr>"
  by (simp add: sc_mlost_def sc_mtorn_eq init_state_def demo_conn0_def model_defs del: isValidPeerId.simps isValidRoomId.simps isValidSessionToken.simps)

lemma sc_mclosed_eq:
  "sc_mclosed =
     \<lparr>wsConnections = \<lambda>x. None, hostWsConnections = \<lambda>x. None,
     connectionsByIp = [''10.0.0.2'' \<mapsto> [9]], messageRates = \<lambda>x. None,
     cleanupTimers = \<lambda>x. None,
     sessions =
     [(demo_token,
     \<lparr>s_peerId = demo_host, s_roomId = Some demo_room, lastSeen = 1\<rparr>),
     (member_token,
     \<lparr>s_peerId = demo_member, s_roomId = Some demo_room,
     lastSeen = 10\<rparr>)],
     peers = \<lambda>x. None, rooms = \<lambda>x. None,
     conns =
     [9 \<mapsto>
     \<lparr>c_peerId = Some demo_member, c_sessionToken = Some member_token,
     c_ip = ''10.0.0.2''\<rparr>],
     open_ws = {9, 8, 7} - {8} - {7}, timerQueue = \<lambda>x. None,
     nextTimer = Suc 0,
     outbox =
     [(7, PeerIdNew demo_host), (7, RegisterHostSuccess demo_room),
     (8, PeerIdNew demo_member),
     (8, JoinRoomSuccess demo_room (Some demo_host)),
     (7, PeerConnecting demo_member),
     (9, PeerIdRestored demo_member (Some demo_room))]\<rparr>"
  by (simp add: sc_mclosed_def sc_mlost_eq init_state_def demo_conn0_def model_defs del: isValidPeerId.simps isValidRoomId.simps isValidSessionToken.simps)

lemma sc_away_eq:
  "sc_away =
     \<lparr>wsConnections = [demo_host \<mapsto> 7],
     hostWsConnections = [demo_room \<mapsto> 7, other_room \<mapsto> 7],
     connectionsByIp = [''10.0.0.1'' \<mapsto> [7]],
     messageRates =
     [demo_host \<mapsto> \<lparr>r_count = Suc (Suc 0), windowStart = 1\<rparr>],
     cleanupTimers = \<lambda>x. None,
     sessions =
     [(demo_token,
     \<lparr>s_peerId = demo_host, s_roomId = Some other_room,
     lastSeen = 5\<rparr>),
     (member_token,
     \<lparr>s_peerId = demo_member, s_roomId = Some other_room,
     lastSeen = 6\<rparr>)],
     peers =
     [demo_host \<mapsto>
     \<lparr>p_roomId = Some other_room, p_ip = Some ''10.0.0.1'',
     p_sessionToken = Some demo_token\<rparr>],
     rooms =
     [demo_room \<mapsto>
     \<lparr>hostPeerId = Some demo_host, members = [demo_member],
     createdAt = Some 1\<rparr>,
     other_room \<mapsto>
     \<lparr>hostPeerId = Some demo_host, members = [demo_member],
     createdAt = Some 5\<rparr>],
     conns =
     [7 \<mapsto>
     \<lparr>c_peerId = Some demo_host, c_sessionToken = Some demo_token,
     c_ip = ''10.0.0.1''\<rparr>],
     open_ws = {7}, timerQueue = \<lambda>x. None, nextTimer = 0,
     outbox =
     [(7, PeerIdNew demo_host), (7, RegisterHostSuccess demo_room),
     (8, PeerIdNew demo_member),
     (8, JoinRoomSuccess demo_room (Some demo_host)),
     (7, PeerConnecting demo_member),
     (7, RegisterHostSuccess other_room),
     (8, JoinRoomSuccess other_room (Some demo_host)),
     (7, PeerConnecting demo_member)]\<rparr>"
  by (simp add: sc_away_def joined_two_eq init_state_def demo_conn0_def model_defs del: isValidPeerId.simps isValidRoomId.simps isValidSessionToken.simps)

lemma sc_beat_eq:
  "sc_beat =
     \<lparr>wsConnections = [demo_host \<mapsto> 7],
     hostWsConnections = [demo_room \<mapsto> 7, other_room \<mapsto> 7],
     connectionsByIp = [''10.0.0.1'' \<mapsto> [7]],
     messageRates = [demo_host \<mapsto> \<lparr>r_count = Suc 0, windowStart = 200000\<rparr>],
     cleanupTimers = \<lambda>x. None,
     sessions =
     [(demo_token,
     \<lparr>s_peerId = demo_host, s_roomId = Some other_room,
     lastSeen = 200000\<rparr>),
     (member_token,
     \<lparr>s_peerId = demo_member, s_roomId = Some other_room,
     lastSeen = 6\<rparr>)],
     peers =
     [demo_host \<mapsto>
     \<lparr>p_roomId = Some other_room, p_ip = Some ''10.0.0.1'',
     p_sessionToken = Some demo_token\<rparr>],
     rooms =
     [demo_room \<mapsto>
     \<lparr>hostPeerId = Some demo_host, members = [demo_member],
     createdAt = Some 1\<rparr>,
     other_room \<mapsto>
     \<lparr>hostPeerId = Some demo_host, members = [demo_member],
     createdAt = Some 5\<rparr>],
     conns =
     [7 \<mapsto>
     \<lparr>c_peerId = Some demo_host, c_sessionToken = Some demo_token,
     c_ip = ''10.0.0.1''\<rparr>],
     open_ws = {7}, timerQueue = \<lambda>x. None, nextTimer = 0,
     outbox =
     [(7, PeerIdNew demo_host), (7, RegisterHostSuccess demo_room),
     (8, PeerIdNew demo_member),
     (8, JoinRoomSuccess demo_room (Some demo_host)),
     (7, PeerConnecting demo_member),
     (7, RegisterHostSuccess other_room),
     (8, JoinRoomSuccess other_room (Some demo_host)),
     (7, PeerConnecting demo_member), (7, HeartbeatAck)]\<rparr>"
  by (simp add: sc_beat_def sc_away_eq init_state_def demo_conn0_def model_defs del: isValidPeerId.simps isValidRoomId.simps isValidSessionToken.simps)

lemma sc_expired_eq:
  "sc_expired =
     \<lparr>wsConnections = [demo_host \<mapsto> 7],
     hostWsConnections = [demo_room \<mapsto> 7, other_room \<mapsto> 7],
     connectionsByIp = [''10.0.0.1'' \<mapsto> [7]],
     messageRates = [demo_host \<mapsto> \<lparr>r_count = Suc 0, windowStart = 200000\<rparr>],
     cleanupTimers = \<lambda>x. None,
     sessions =
     [(demo_token,
     \<lparr>s_peerId = demo_host, s_roomId = Some other_room,
     lastSeen = 200000\<rparr>)],
     peers =
     [demo_host \<mapsto>
     \<lparr>p_roomId = Some other_room, p_ip = Some ''10.0.0.1'',
     p_sessionToken = Some demo_token\<rparr>],
     rooms =
     [demo_room \<mapsto>
     \<lparr>hostPeerId = Some demo_host, members = [demo_member],
     createdAt = Some 1\<rparr>,
     other_room \<mapsto>
     \<lparr>hostPeerId = Some demo_host, members = [], createdAt = Some 5\<rparr>],
     conns =
     [7 \<mapsto>
     \<lparr>c_peerId = Some demo_host, c_sessionToken = Some demo_token,
     c_ip = ''10.0.0.1''\<rparr>],
     open_ws = {7}, timerQueue = \<lambda>x. None, nextTimer = 0,
     outbox =
     [(7, PeerIdNew demo_host), (7, RegisterHostSuccess demo_room),
     (8, PeerIdNew demo_member),
     (8, JoinRoomSuccess demo_room (Some demo_host)),
     (7, PeerConnecting demo_member),
     (7, RegisterHostSuccess other_room),
     (8, JoinRoomSuccess other_room (Some demo_host)),
     (7, PeerConnecting demo_member), (7, HeartbeatAck)]\<rparr>"
  by (simp add: sc_expired_def sc_beat_eq sweep_sessions_def cleanupExpiredSessions_def session_expired_def init_state_def demo_conn0_def model_defs del: isValidPeerId.simps isValidRoomId.simps isValidSessionToken.simps)

lemma reachable_sc6: "reachable 300 sc6"
proof -
  have r0: "reachable 300 init_state" by (rule reachable_init)
  have e1: "enabled (Connection ''10.0.0.1'' 7) init_state" by (simp add: init_state_def)
  have r1: "reachable 300 sc1" unfolding sc1_def by (rule reachable_step[OF r0 e1])
  have e2: "enabled (Message 7 0 demo_host (Some (hello_msg demo_token))) sc1"
    by (simp add: sc1_eq del: isValidPeerId.simps)
  have r2: "reachable 300 sc2" unfolding sc2_def by (rule reachable_step[OF r1 e2])
  have e3: "enabled (Message 7 1 demo_host (Some (room_msg ''register-host'' demo_room))) sc2"
    by (simp add: sc2_eq del: isValidPeerId.simps)
  have r3: "reachable 300 sc3" unfolding sc3_def by (rule reachable_step[OF r2 e3])
  have e4: "enabled (Connection ''10.0.0.2'' 8) sc3" by (simp add: sc3_eq)
  have r4: "reachable 300 sc4" unfolding sc4_def by (rule reachable_step[OF r3 e4])
  have e5: "enabled (Message 8 2 demo_member (Some (hello_msg member_token))) sc4"
    by (simp add: sc4_eq del: isValidPeerId.simps)
  have r5: "reachable 300 sc5" unfolding sc5_def by (rule reachable_step[OF r4 e5])
  have e6: "enabled (Message 8 3 demo_member (Some (room_msg ''join-room'' demo_room))) sc5"
    by (simp add: sc5_eq del: isValidPeerId.simps)
  show ?thesis unfolding sc6_def by (rule reachable_step[OF r5 e6])
qed

lemma reachable_sc7: "reachable 300 sc7"
proof -
  have e7: "enabled (Close 7 4) sc6" by (simp add: sc6_eq)
  show ?thesis unfolding sc7_def by (rule reachable_step[OF reachable_sc6 e7])
qed

lemma reachable_message:
  "reachable ttl s \<Longrightarrow> conns s w \<noteq> None \<Longrightarrow> isValidPeerId (Some (JStr fresh)) \<Longrightarrow>
   reachable ttl (on_message ttl now fresh w dat s)"
  using reachable_step[of ttl s "Message w now fresh dat"] by (simp del: isValidPeerId.simps)

lemma reachable_close: "reachable ttl s \<Longrightarrow> conns s w \<noteq> None \<Longrightarrow> reachable ttl (on_close now w s)"
  using reachable_step[of ttl s "Close w now"] by simp

lemma reachable_connection:
  "reachable ttl s \<Longrightarrow> conns s w = None \<Longrightarrow> reachable ttl (on_connection ip w s)"
  using reachable_step[of ttl s "Connection ip w"] by simp

lemma reachable_timeout:
  "reachable ttl s \<Longrightarrow> timerQueue s t = Some (r, due) \<Longrightarrow> reachable ttl (on_timeout t s)"
  using reachable_step[of ttl s "Timeout t due"] by simp

lemma reachable_sweep: "reachable ttl s \<Longrightarrow> reachable ttl (sweep_sessions ttl now s)"
  using reachable_step[of ttl s "SessionSweep now"] by simp

lemma reachable_sc_two: "reachable 300 sc_two"
  unfolding sc_two_def apply_event.simps
  by (rule reachable_message[OF reachable_sc6]) (simp_all add: sc6_eq demo_valid del: isValidPeerId.simps)

lemma reachable_joined_two: "reachable 300 joined_two"
  unfolding joined_two_def
  by (rule reachable_message[OF reachable_sc_two]) (simp_all add: sc_two_eq demo_valid del: isValidPeerId.simps)

lemma reachable_sc_expired: "reachable 300 sc_expired"
proof -
  have a: "reachable 300 sc_away" unfolding sc_away_def apply_event.simps
    by (rule reachable_close[OF reachable_joined_two]) (simp add: joined_two_eq)
  have b: "reachable 300 sc_beat" unfolding sc_beat_def apply_event.simps
    by (rule reachable_message[OF a]) (simp_all add: sc_away_eq demo_valid del: isValidPeerId.simps)
  show ?thesis unfolding sc_expired_def apply_event.simps by (rule reachable_sweep[OF b])
qed

lemma reachable_sc_two_gone: "reachable 300 sc_two_gone"
  unfolding sc_two_gone_def apply_event.simps
  by (rule reachable_close[OF reachable_sc_two]) (simp add: sc_two_eq)

lemma reachable_sc_two_late: "reachable 300 sc_two_late"
  unfolding sc_two_late_def apply_event.simps
  by (rule reachable_timeout[OF reachable_sc_two_gone, where r = other_room and due = 30006])
    (simp_all add: sc_two_gone_eq)

lemma reachable_sc_evict: "reachable 300 sc_evict"
proof -
  have a: "reachable 300 sc6c" unfolding sc6c_def apply_event.simps
    by (rule reachable_connection[OF reachable_sc6]) (simp add: sc6_eq)
  show ?thesis unfolding sc_evict_def
    by (rule reachable_message[OF a]) (simp_all add: sc6c_eq demo_valid del: isValidPeerId.simps)
qed

lemma reachable_sc_ghost: "reachable 300 sc_ghost"
proof -
  have a: "reachable 300 sc_torn" unfolding sc_torn_def apply_event.simps
    by (rule reachable_close[OF reachable_sc_evict]) (simp add: sc_evict_eq)
  show ?thesis unfolding sc_ghost_def apply_event.simps
    by (rule reachable_message[OF a]) (simp_all add: sc_torn_eq demo_valid del: isValidPeerId.simps)
qed

lemma reachable_sc_mlost: "reachable 300 sc_mlost"
proof -
  have a: "reachable 300 sc_m9" unfolding sc_m9_def apply_event.simps
    by (rule reachable_connection[OF reachable_sc6]) (simp add: sc6_eq)
  have b: "reachable 300 sc_mback" unfolding sc_mback_def apply_event.simps
    by (rule reachable_message[OF a]) (simp_all add: sc_m9_eq demo_valid del: isValidPeerId.simps)
  have c: "reachable 300 sc_mtorn" unfolding sc_mtorn_def apply_event.simps
    by (rule reachable_close[OF b]) (simp add: sc_mback_eq)
  show ?thesis unfolding sc_mlost_def apply_event.simps
    by (rule reachable_close[OF c]) (simp add: sc_mtorn_eq)
qed

lemma reachable_sc_mclosed: "reachable 300 sc_mclosed"
  unfolding sc_mclosed_def apply_event.simps
  by (rule reachable_timeout[OF reachable_sc_mlost, where r = demo_room and due = 30012])
    (simp_all add: sc_mlost_eq)

lemma reachable_sc_back: "reachable 300 sc_back"
proof -
  have a: "reachable 300 sc7c" unfolding sc7c_def apply_event.simps
    by (rule reachable_connection[OF reachable_sc7]) (simp add: sc7_eq)
  show ?thesis unfolding sc_back_def
    by (rule reachable_message[OF a]) (simp_all add: sc7c_eq demo_valid del: isValidPeerId.simps)
qed

section \<open>Rate limiting\<close>

text \<open>
  C6. With window \<open>windowMs\<close> and cap \<open>maxMessages\<close>: when a message at \<open>t0\<close> opens a
  window, it and the following messages of the same identity that arrive no later than
  \<open>windowMs\<close> after \<open>t0\<close> pass the rate check exactly as long as they are among the first
  \<open>maxMessages\<close>; a message of an authenticated connection that fails the check is answered
  with the error \<open>rate-limit\<close> and the transport stays open with its handlers; and once
  more than \<open>windowMs\<close> has passed since the window started, the counter restarts at that
  message, which passes.
\<close>

theorem rate_limit_fixed_window:
  "(window_opens s p start \<and> (\<forall>t \<in> set ts. t - start \<le> windowMs) \<longrightarrow>
      rate_run p (start # ts) s = map (\<lambda>i. i < maxMessages) [0..<Suc (length ts)])
   \<and> (conns s w = Some c \<and> c_peerId c = Some p \<and> p \<noteq> [] \<and> msg_type m = Some ty \<and>
        \<not> fst (checkRateLimit now p s) \<and> w \<in> open_ws s \<longrightarrow>
      outbox (on_message ttl now fresh w (Some m) s) =
        outbox s @ [(w, ErrorMsg ''rate-limit'' ''Too many messages'')] \<and>
      w \<in> open_ws (on_message ttl now fresh w (Some m) s) \<and>
      conns (on_message ttl now fresh w (Some m) s) w = Some c)
   \<and> (messageRates s p = Some d \<and> now - windowStart d > windowMs \<longrightarrow>
      fst (checkRateLimit now p s) \<and>
      messageRates (snd (checkRateLimit now p s)) p = Some \<lparr>r_count = 1, windowStart = now\<rparr>)"
proof (intro conjI impI)
  assume "window_opens s p start \<and> (\<forall>t \<in> set ts. t - start \<le> windowMs)"
  then show "rate_run p (start # ts) s = map (\<lambda>i. i < maxMessages) [0..<Suc (length ts)]"
    using rate_window by blast
next
  assume h: "conns s w = Some c \<and> c_peerId c = Some p \<and> p \<noteq> [] \<and> msg_type m = Some ty \<and>
        \<not> fst (checkRateLimit now p s) \<and> w \<in> open_ws s"
  then have e: "on_message ttl now fresh w (Some m) s =
           (snd (checkRateLimit now p s))\<lparr>outbox := outbox s @ [(w, ErrorMsg ''rate-limit'' ''Too many messages'')]\<rparr>"
    using rate_reject by blast
  show "outbox (on_message ttl now fresh w (Some m) s) =
        outbox s @ [(w, ErrorMsg ''rate-limit'' ''Too many messages'')]" by (simp add: e)
  show "w \<in> open_ws (on_message ttl now fresh w (Some m) s)" using h by (simp add: e)
  show "conns (on_message ttl now fresh w (Some m) s) w = Some c" using h by (simp add: e)
next
  assume h: "messageRates s p = Some d \<and> now - windowStart d > windowMs"
  then have "window_opens s p now" by (simp add: window_opens_def)
  then show "fst (checkRateLimit now p s)" 
    and "messageRates (snd (checkRateLimit now p s)) p = Some \<lparr>r_count = 1, windowStart = now\<rparr>"
    using first_in_window by blast+
qed

theorem rate_limit_fixed_window_witness:
  "window_opens init_state demo_host 0 \<and> (10::int) - 0 \<le> windowMs \<and> (1000::int) - 0 \<le> windowMs \<and>
   rate_run demo_host [0, 10, 1000] init_state = [True, True, True] \<and>
   conns demo_limited 7 = Some demo_conn \<and> c_peerId demo_conn = Some demo_host \<and> demo_host \<noteq> [] \<and>
   msg_type heartbeat_msg = Some (lit ''heartbeat'') \<and>
   \<not> fst (checkRateLimit 500 demo_host demo_limited) \<and> 7 \<in> open_ws demo_limited \<and>
   outbox (on_message 300 500 demo_host 7 (Some heartbeat_msg) demo_limited) =
     [(7, ErrorMsg ''rate-limit'' ''Too many messages'')] \<and>
   7 \<in> open_ws (on_message 300 500 demo_host 7 (Some heartbeat_msg) demo_limited) \<and>
   messageRates demo_limited demo_host = Some \<lparr>r_count = 50, windowStart = 0\<rparr> \<and>
   1500 - windowStart \<lparr>r_count = 50, windowStart = 0\<rparr> > windowMs \<and>
   fst (checkRateLimit 1500 demo_host demo_limited)"
proof -
  have a1: "window_opens init_state demo_host 0"
    by (simp add: window_opens_def init_state_def)
  have a2: "\<forall>t \<in> set [10, 1000::int]. t - 0 \<le> windowMs"
    by (simp add: windowMs_def)
  have b1: "conns demo_limited 7 = Some demo_conn"
    by (simp add: demo_limited_def)
  have b2: "c_peerId demo_conn = Some demo_host"
    by (simp add: demo_conn_def)
  have b3: "demo_host \<noteq> []"
    by (simp add: demo_host_def)
  have b4: "msg_type heartbeat_msg = Some (lit ''heartbeat'')"
    by (simp add: heartbeat_msg_def msg_type_def)
  have b5: "\<not> fst (checkRateLimit 500 demo_host demo_limited)"
    by (simp add: checkRateLimit_def demo_limited_def windowMs_def maxMessages_def)
  have b6: "7 \<in> open_ws demo_limited"
    by (simp add: demo_limited_def)
  have c1: "messageRates demo_limited demo_host = Some \<lparr>r_count = 50, windowStart = 0\<rparr>"
    by (simp add: demo_limited_def)
  have c2: "1500 - windowStart \<lparr>r_count = 50, windowStart = 0\<rparr> > windowMs"
    by (simp add: windowMs_def)
  note t1 = rate_limit_fixed_window[where s = init_state and p = demo_host and start = 0
      and ts = "[10, 1000]"]
  note t2 = rate_limit_fixed_window[where s = demo_limited and p = demo_host and w = 7
      and c = demo_conn and m = heartbeat_msg and ty = "lit ''heartbeat''" and now = 500
      and ttl = 300 and fresh = demo_host]
  note t3 = rate_limit_fixed_window[where s = demo_limited and p = demo_host and now = 1500
      and d = "\<lparr>r_count = 50, windowStart = 0\<rparr>"]
  have r1: "rate_run demo_host [0, 10, 1000] init_state = [True, True, True]"
    using t1 a1 a2 by (simp add: maxMessages_def upt_conv_Cons del: upt_Suc)
  have r2: "outbox (on_message 300 500 demo_host 7 (Some heartbeat_msg) demo_limited) =
              [(7, ErrorMsg ''rate-limit'' ''Too many messages'')]"
    using t2 b1 b2 b3 b4 b5 b6 by (simp add: demo_limited_def init_state_def)
  have r3: "7 \<in> open_ws (on_message 300 500 demo_host 7 (Some heartbeat_msg) demo_limited)"
    using t2 b1 b2 b3 b4 b5 b6 by simp
  have r4: "fst (checkRateLimit 1500 demo_host demo_limited)"
    using t3 c1 c2 by simp
  show ?thesis
    using a1 a2 b1 b2 b3 b4 b5 b6 c1 c2 r1 r2 r3 r4 by simp
qed

section \<open>Errors at the connection\<close>

text \<open>
  C8. On an open connection: a hello whose session token is malformed is answered with
  the error \<open>invalid-session\<close> and the transport is closed; malformed JSON, a message
  without a string type, and a first message that is not hello are each answered with
  a structured error and change nothing else, so the transport stays open and keeps
  its handlers.
\<close>

theorem connection_error_taxonomy:
  assumes "conns s w = Some c" and "w \<in> open_ws s"
  shows
   "(\<not> truthy (c_peerId c) \<and> msg_type m = Some (lit ''hello'') \<and>
       \<not> isValidSessionToken (field m (lit ''sessionToken'')) \<longrightarrow>
       outbox (on_message ttl now fresh w (Some m) s) =
         outbox s @ [(w, ErrorMsg ''invalid-session'' ''Invalid session token format'')] \<and>
       w \<notin> open_ws (on_message ttl now fresh w (Some m) s))
    \<and> on_message ttl now fresh w None s =
         s\<lparr>outbox := outbox s @ [(w, ErrorMsg ''invalid-json'' ''Invalid JSON message'')]\<rparr>
    \<and> (msg_type m = None \<longrightarrow>
         on_message ttl now fresh w (Some m) s =
           s\<lparr>outbox := outbox s @ [(w, ErrorMsg ''invalid-message'' ''Message must have a type'')]\<rparr>)
    \<and> (\<not> truthy (c_peerId c) \<and> msg_type m = Some ty \<and> ty \<noteq> lit ''hello'' \<longrightarrow>
         on_message ttl now fresh w (Some m) s =
           s\<lparr>outbox := outbox s @ [(w, ErrorMsg ''protocol-error'' ''First message must be hello'')]\<rparr>)
    \<and> w \<in> open_ws (s\<lparr>outbox := outbox s @ [(w, e)]\<rparr>)
    \<and> conns (s\<lparr>outbox := outbox s @ [(w, e)]\<rparr>) w = Some c"
proof (intro conjI impI)
  assume h: "\<not> truthy (c_peerId c) \<and> msg_type m = Some (lit ''hello'') \<and>
       \<not> isValidSessionToken (field m (lit ''sessionToken''))"
  have e: "on_message ttl now fresh w (Some m) s =
      ws_close w (sendError w ''invalid-session'' ''Invalid session token format''
        (s\<lparr>conns := (conns s)(w \<mapsto> c\<lparr>c_sessionToken := str_of (field m (lit ''sessionToken''))\<rparr>)\<rparr>))"
    using assms(1) h by (simp add: on_message_def handshake_def Let_def)
  show "outbox (on_message ttl now fresh w (Some m) s) =
         outbox s @ [(w, ErrorMsg ''invalid-session'' ''Invalid session token format'')]"
    using assms(2) by (simp add: e sendError_def outbox_sendTo)
  show "w \<notin> open_ws (on_message ttl now fresh w (Some m) s)"
    by (simp add: e ws_close_def)
next
  show "on_message ttl now fresh w None s =
         s\<lparr>outbox := outbox s @ [(w, ErrorMsg ''invalid-json'' ''Invalid JSON message'')]\<rparr>"
    using assms by (simp add: on_message_def sendError_def sendTo_open)
next
  assume "msg_type m = None"
  then show "on_message ttl now fresh w (Some m) s =
           s\<lparr>outbox := outbox s @ [(w, ErrorMsg ''invalid-message'' ''Message must have a type'')]\<rparr>"
    using assms by (simp add: on_message_def sendError_def sendTo_open)
next
  assume "\<not> truthy (c_peerId c) \<and> msg_type m = Some ty \<and> ty \<noteq> lit ''hello''"
  then show "on_message ttl now fresh w (Some m) s =
           s\<lparr>outbox := outbox s @ [(w, ErrorMsg ''protocol-error'' ''First message must be hello'')]\<rparr>"
    using assms by (simp add: on_message_def handshake_def sendError_def sendTo_open)
next
  show "w \<in> open_ws (s\<lparr>outbox := outbox s @ [(w, e)]\<rparr>)" using assms by simp
  show "conns (s\<lparr>outbox := outbox s @ [(w, e)]\<rparr>) w = Some c" using assms by simp
qed

theorem connection_error_taxonomy_witness:
  "conns demo_connected 7 = Some demo_conn0 \<and> 7 \<in> open_ws demo_connected \<and>
   \<not> truthy (c_peerId demo_conn0) \<and> msg_type bad_hello = Some (lit ''hello'') \<and>
   \<not> isValidSessionToken (field bad_hello (lit ''sessionToken'')) \<and>
   outbox (on_message 300 5 demo_host 7 (Some bad_hello) demo_connected) =
     [(7, ErrorMsg ''invalid-session'' ''Invalid session token format'')] \<and>
   7 \<notin> open_ws (on_message 300 5 demo_host 7 (Some bad_hello) demo_connected) \<and>
   outbox (on_message 300 5 demo_host 7 None demo_connected) =
     [(7, ErrorMsg ''invalid-json'' ''Invalid JSON message'')] \<and>
   msg_type JNull = None \<and>
   outbox (on_message 300 5 demo_host 7 (Some JNull) demo_connected) =
     [(7, ErrorMsg ''invalid-message'' ''Message must have a type'')] \<and>
   msg_type heartbeat_msg = Some (lit ''heartbeat'') \<and> lit ''heartbeat'' \<noteq> lit ''hello'' \<and>
   outbox (on_message 300 5 demo_host 7 (Some heartbeat_msg) demo_connected) =
     [(7, ErrorMsg ''protocol-error'' ''First message must be hello'')] \<and>
   7 \<in> open_ws (on_message 300 5 demo_host 7 (Some heartbeat_msg) demo_connected)"
proof -
  have s0: "demo_connected = init_state\<lparr>open_ws := {7}, connectionsByIp := [''10.0.0.1'' \<mapsto> [7]],
      conns := [7 \<mapsto> demo_conn0]\<rparr>"
    by (simp add: demo_connected_def on_connection_def init_state_def checkConnectionLimit_def
        trackConnection_def demo_conn0_def Let_def)
  have a1: "conns demo_connected 7 = Some demo_conn0" by (simp add: s0)
  have a2: "7 \<in> open_ws demo_connected" by (simp add: s0)
  have b1: "\<not> truthy (c_peerId demo_conn0)" by (simp add: demo_conn0_def)
  have b2: "msg_type bad_hello = Some (lit ''hello'')" by (simp add: bad_hello_def msg_type_def)
  have b3: "\<not> isValidSessionToken (field bad_hello (lit ''sessionToken''))"
    by (simp add: bad_hello_def lit_def)
  have c1: "msg_type JNull = None" by (simp add: msg_type_def)
  have d1: "msg_type heartbeat_msg = Some (lit ''heartbeat'')"
    by (simp add: heartbeat_msg_def msg_type_def)
  have d2: "lit ''heartbeat'' \<noteq> lit ''hello''" by simp
  have o: "outbox demo_connected = []" by (simp add: s0 init_state_def)
  note t1 = connection_error_taxonomy[OF a1 a2, where m = bad_hello and ttl = 300 and now = 5
      and fresh = demo_host]
  note t2 = connection_error_taxonomy[OF a1 a2, where m = JNull and ttl = 300 and now = 5
      and fresh = demo_host]
  note t3 = connection_error_taxonomy[OF a1 a2, where m = heartbeat_msg and ttl = 300 and now = 5
      and fresh = demo_host and ty = "lit ''heartbeat''"]
  have r1: "outbox (on_message 300 5 demo_host 7 (Some bad_hello) demo_connected) =
       [(7, ErrorMsg ''invalid-session'' ''Invalid session token format'')]"
    using t1 b1 b2 b3 o by simp
  have r2: "7 \<notin> open_ws (on_message 300 5 demo_host 7 (Some bad_hello) demo_connected)"
    using t1 b1 b2 b3 by simp
  have r3: "outbox (on_message 300 5 demo_host 7 None demo_connected) =
       [(7, ErrorMsg ''invalid-json'' ''Invalid JSON message'')]"
    using t1 o by simp
  have r4: "outbox (on_message 300 5 demo_host 7 (Some JNull) demo_connected) =
       [(7, ErrorMsg ''invalid-message'' ''Message must have a type'')]"
    using t2 c1 o by simp
  have r5: "on_message 300 5 demo_host 7 (Some heartbeat_msg) demo_connected =
       demo_connected\<lparr>outbox := outbox demo_connected @
         [(7, ErrorMsg ''protocol-error'' ''First message must be hello'')]\<rparr>"
    using t3 b1 d1 d2 by blast
  have r6: "outbox (on_message 300 5 demo_host 7 (Some heartbeat_msg) demo_connected) =
       [(7, ErrorMsg ''protocol-error'' ''First message must be hello'')]"
    using o by (simp add: r5)
  have r7: "7 \<in> open_ws (on_message 300 5 demo_host 7 (Some heartbeat_msg) demo_connected)"
    using a2 by (simp add: r5)
  show ?thesis
    using a1 a2 b1 b2 b3 c1 d1 d2 r1 r2 r3 r4 r6 r7 by blast
qed

section \<open>Heartbeat by message\<close>

text \<open>
  C9, as the code has it. On an authenticated connection whose session is in the ledger,
  a message with a string type that passes the rate check leaves the session with
  \<open>lastSeen = now\<close>, whatever its type and whether or not routing then accepts it; a
  message that the rate limit rejects returns before the refresh and leaves the
  ledger as it was.
\<close>

theorem message_refreshes_lastSeen:
  assumes "conns s w = Some c" and "c_peerId c = Some p" and "p \<noteq> []"
    and "c_sessionToken c = Some tok" and "tok \<noteq> []" and "getSession s tok = Some v"
    and "msg_type m = Some ty"
  shows "(fst (checkRateLimit now p s) \<longrightarrow>
            map_option lastSeen (getSession (on_message ttl now fresh w (Some m) s) tok) = Some now)
       \<and> (\<not> fst (checkRateLimit now p s) \<longrightarrow>
            sessions (on_message ttl now fresh w (Some m) s) = sessions s)"
proof (intro conjI impI)
  assume ok: "fst (checkRateLimit now p s)"
  let ?s2 = "refresh_session (Some tok) now (snd (checkRateLimit now p s))"
  have r: "map_option lastSeen (map_of (sessions ?s2) tok) = Some now"
    using lastSeen_refresh[of "snd (checkRateLimit now p s)" tok v now] assms(5,6)
    by (simp add: getSession_def)
  have e: "on_message ttl now fresh w (Some m) s = active now w p (Some tok) ty m s"
    using assms by (simp add: on_message_active)
  show "map_option lastSeen (getSession (on_message ttl now fresh w (Some m) s) tok) = Some now"
  proof (cases "ty = lit ''heartbeat''")
    case True
    then show ?thesis using ok r by (simp add: e active_heartbeat getSession_def)
  next
    case False
    then show ?thesis using ok r by (simp add: e active_routed getSession_def lastSeen_route)
  qed
next
  assume "\<not> fst (checkRateLimit now p s)"
  then show "sessions (on_message ttl now fresh w (Some m) s) = sessions s"
    using assms by (simp add: on_message_active active_rejected)
qed

theorem message_refreshes_lastSeen_witness:
  "conns demo_limited 7 = Some demo_conn \<and> c_peerId demo_conn = Some demo_host \<and> demo_host \<noteq> [] \<and>
   c_sessionToken demo_conn = Some demo_token \<and> demo_token \<noteq> [] \<and>
   getSession demo_limited demo_token = Some \<lparr>s_peerId = demo_host, s_roomId = None, lastSeen = 0\<rparr> \<and>
   msg_type heartbeat_msg = Some (lit ''heartbeat'') \<and>
   fst (checkRateLimit 1500 demo_host demo_limited) \<and>
   map_option lastSeen
     (getSession (on_message 300 1500 demo_host 7 (Some heartbeat_msg) demo_limited) demo_token) = Some 1500 \<and>
   \<not> fst (checkRateLimit 500 demo_host demo_limited) \<and>
   sessions (on_message 300 500 demo_host 7 (Some heartbeat_msg) demo_limited) = sessions demo_limited"
proof -
  have a1: "conns demo_limited 7 = Some demo_conn" by (simp add: demo_limited_def)
  have a2: "c_peerId demo_conn = Some demo_host" by (simp add: demo_conn_def)
  have a3: "demo_host \<noteq> []" by (simp add: demo_host_def)
  have a4: "c_sessionToken demo_conn = Some demo_token" by (simp add: demo_conn_def)
  have a5: "demo_token \<noteq> []" by (simp add: demo_token_def)
  have a6: "getSession demo_limited demo_token =
      Some \<lparr>s_peerId = demo_host, s_roomId = None, lastSeen = 0\<rparr>"
    by (simp add: demo_limited_def getSession_def)
  have a7: "msg_type heartbeat_msg = Some (lit ''heartbeat'')"
    by (simp add: heartbeat_msg_def msg_type_def)
  have b1: "fst (checkRateLimit 1500 demo_host demo_limited)"
    by (simp add: checkRateLimit_def demo_limited_def windowMs_def maxMessages_def)
  have b2: "\<not> fst (checkRateLimit 500 demo_host demo_limited)"
    by (simp add: checkRateLimit_def demo_limited_def windowMs_def maxMessages_def)
  note t1 = message_refreshes_lastSeen[OF a1 a2 a3 a4 a5 a6 a7, where now = 1500 and ttl = 300
      and fresh = demo_host]
  note t2 = message_refreshes_lastSeen[OF a1 a2 a3 a4 a5 a6 a7, where now = 500 and ttl = 300
      and fresh = demo_host]
  show ?thesis
    using a1 a2 a3 a4 a5 a6 a7 b1 b2 t1 t2 by blast
qed

text \<open>
  C9 as stated fails: the connection of \<open>demo_limited\<close> is authenticated and has sent its 50
  messages in the window opened at 0; its heartbeat at 500 is rejected by the rate
  limit, and the session's \<open>lastSeen\<close> is still 0, not 500.
\<close>

theorem rate_limited_heartbeat_counterexample:
  "conns demo_limited 7 = Some demo_conn \<and> c_peerId demo_conn = Some demo_host \<and>
   c_sessionToken demo_conn = Some demo_token \<and>
   msg_type heartbeat_msg = Some (lit ''heartbeat'') \<and>
   outbox (on_message 300 500 demo_host 7 (Some heartbeat_msg) demo_limited) =
     [(7, ErrorMsg ''rate-limit'' ''Too many messages'')] \<and>
   getSession (on_message 300 500 demo_host 7 (Some heartbeat_msg) demo_limited) demo_token =
     Some \<lparr>s_peerId = demo_host, s_roomId = None, lastSeen = 0\<rparr> \<and>
   map_option lastSeen
     (getSession (on_message 300 500 demo_host 7 (Some heartbeat_msg) demo_limited) demo_token) \<noteq> Some 500"
proof -
  have a1: "conns demo_limited 7 = Some demo_conn" by (simp add: demo_limited_def)
  have a2: "c_peerId demo_conn = Some demo_host" by (simp add: demo_conn_def)
  have a3: "demo_host \<noteq> []" by (simp add: demo_host_def)
  have a4: "c_sessionToken demo_conn = Some demo_token" by (simp add: demo_conn_def)
  have a7: "msg_type heartbeat_msg = Some (lit ''heartbeat'')"
    by (simp add: heartbeat_msg_def msg_type_def)
  have b2: "\<not> fst (checkRateLimit 500 demo_host demo_limited)"
    by (simp add: checkRateLimit_def demo_limited_def windowMs_def maxMessages_def)
  have b3: "7 \<in> open_ws demo_limited" by (simp add: demo_limited_def)
  have e: "on_message 300 500 demo_host 7 (Some heartbeat_msg) demo_limited =
      (snd (checkRateLimit 500 demo_host demo_limited))\<lparr>outbox := outbox demo_limited @
         [(7, ErrorMsg ''rate-limit'' ''Too many messages'')]\<rparr>"
    using rate_reject[OF a1 a2 a3 a7 b2 b3] .
  have r1: "outbox (on_message 300 500 demo_host 7 (Some heartbeat_msg) demo_limited) =
     [(7, ErrorMsg ''rate-limit'' ''Too many messages'')]"
    by (simp add: e) (simp add: demo_limited_def init_state_def)
  have r2: "getSession (on_message 300 500 demo_host 7 (Some heartbeat_msg) demo_limited) demo_token =
     Some \<lparr>s_peerId = demo_host, s_roomId = None, lastSeen = 0\<rparr>"
    by (simp add: e getSession_def) (simp add: demo_limited_def)
  show ?thesis
    using a1 a2 a4 a7 r1 r2 by simp
qed

section \<open>Claiming and registering the host slot\<close>

text \<open>
  C2. A claim-host request with a valid room id, on an authenticated open connection
  whose message passes the rate check, succeeds exactly when no room record exists or
  the store holds no peer record for the recorded host (\<open>claim_allowed\<close>, the handlers'
  test with \<^verbatim>\<open>storage.hasPeer\<close>): then the caller gets \<open>claim-host-success\<close>, is the room's
  host, and the room's cleanup timer is cleared and forgotten; otherwise the caller gets
  \<open>claim-host-failed\<close> with the reason that the room already has an active host, and rooms
  and timers are untouched. A register-host request succeeds and fails on the same
  condition. The peer store is not the Transport Registry: in every reachable state a
  host that is live in the registry has a peer record, so that a request for a room whose
  host is live is refused; the converse is not claimed.
\<close>

theorem claim_host_iff_host_has_no_peer:
  assumes "conns s w = Some c" and "c_peerId c = Some p" and "p \<noteq> []"
    and "fst (checkRateLimit now p s)" and "w \<in> open_ws s"
    and "field m (lit ''roomId'') = Some (JStr r)" and "isValidRoomId (Some (JStr r))"
  shows
   "(msg_type m = Some (lit ''claim-host'') \<and> claim_allowed s r \<longrightarrow>
       outbox (on_message ttl now fresh w (Some m) s) = outbox s @ [(w, ClaimHostSuccess r)] \<and>
       host_of (on_message ttl now fresh w (Some m) s) r = Some p \<and>
       cleanupTimers (on_message ttl now fresh w (Some m) s) r = None \<and>
       (\<forall>t. cleanupTimers s r = Some t \<longrightarrow> timerQueue (on_message ttl now fresh w (Some m) s) t = None))
    \<and> (msg_type m = Some (lit ''claim-host'') \<and> \<not> claim_allowed s r \<longrightarrow>
       outbox (on_message ttl now fresh w (Some m) s) =
         outbox s @ [(w, ClaimHostFailed (Some (JStr r)) ''Room already has active host'')] \<and>
       rooms (on_message ttl now fresh w (Some m) s) = rooms s \<and>
       cleanupTimers (on_message ttl now fresh w (Some m) s) = cleanupTimers s \<and>
       timerQueue (on_message ttl now fresh w (Some m) s) = timerQueue s)
    \<and> (msg_type m = Some (lit ''register-host'') \<and> claim_allowed s r \<longrightarrow>
       outbox (on_message ttl now fresh w (Some m) s) = outbox s @ [(w, RegisterHostSuccess r)] \<and>
       host_of (on_message ttl now fresh w (Some m) s) r = Some p)
    \<and> (msg_type m = Some (lit ''register-host'') \<and> \<not> claim_allowed s r \<longrightarrow>
       outbox (on_message ttl now fresh w (Some m) s) =
         outbox s @ [(w, RegisterHostFailed (Some (JStr r)) ''Room already has a host'')] \<and>
       rooms (on_message ttl now fresh w (Some m) s) = rooms s)
    \<and> (reachable ttl s \<and> live_host s r \<longrightarrow> \<not> claim_allowed s r)"
proof -
  let ?a = "admitted now p (c_sessionToken c) s"
  have lv: "\<not> claim_allowed s r" if "reachable ttl s" "live_host s r"
    using claim_allowed_not_live[of s r] reachable_invariants[OF that(1)] that(2) by blast
  have op: "w \<in> open_ws ?a" using assms(5) by simp
  have cl: "msg_type m = Some (lit ''claim-host'') \<Longrightarrow>
      on_message ttl now fresh w (Some m) s = claim_host now w p (c_sessionToken c) (getPeer ?a p) m ?a"
    using assms(1-4) by (simp add: on_message_routed route_simps)
  have rg: "msg_type m = Some (lit ''register-host'') \<Longrightarrow>
      on_message ttl now fresh w (Some m) s = register_host now w p (c_sessionToken c) (getPeer ?a p) m ?a"
    using assms(1-4) by (simp add: on_message_routed route_simps)
  show ?thesis
  proof (intro conjI impI allI; (elim conjE)?)
    assume t: "msg_type m = Some (lit ''claim-host'')" and a: "claim_allowed s r"
    have a': "claim_allowed ?a r" using a by simp
    note k = claim_host_ok[OF assms(6,7) a' op, where now = now and p = p and st = "c_sessionToken c"
        and pr = "getPeer ?a p"]
    show "outbox (on_message ttl now fresh w (Some m) s) = outbox s @ [(w, ClaimHostSuccess r)]"
      using k(1) by (simp add: cl[OF t])
    show "host_of (on_message ttl now fresh w (Some m) s) r = Some p"
      using k(2) by (simp add: cl[OF t])
    show "cleanupTimers (on_message ttl now fresh w (Some m) s) r = None"
      using k(3) by (simp add: cl[OF t])
    fix tm assume "cleanupTimers s r = Some tm"
    then show "timerQueue (on_message ttl now fresh w (Some m) s) tm = None"
      using k(4)[of tm] by (simp add: cl[OF t])
  next
    assume t: "msg_type m = Some (lit ''claim-host'')" and a: "\<not> claim_allowed s r"
    have a': "\<not> claim_allowed ?a r" using a by simp
    note k = claim_host_refused[OF assms(6,7) a' op, where now = now and p = p and st = "c_sessionToken c"
        and pr = "getPeer ?a p"]
    show "outbox (on_message ttl now fresh w (Some m) s) =
         outbox s @ [(w, ClaimHostFailed (Some (JStr r)) ''Room already has active host'')]"
      by (simp add: cl[OF t] k)
    show "rooms (on_message ttl now fresh w (Some m) s) = rooms s" by (simp add: cl[OF t] k)
    show "cleanupTimers (on_message ttl now fresh w (Some m) s) = cleanupTimers s"
      by (simp add: cl[OF t] k)
    show "timerQueue (on_message ttl now fresh w (Some m) s) = timerQueue s"
      by (simp add: cl[OF t] k)
  next
    assume t: "msg_type m = Some (lit ''register-host'')" and a: "claim_allowed s r"
    have a': "claim_allowed ?a r" using a by simp
    note k = register_host_ok[OF assms(6,7) a' op, where now = now and p = p and st = "c_sessionToken c"
        and pr = "getPeer ?a p"]
    show "outbox (on_message ttl now fresh w (Some m) s) = outbox s @ [(w, RegisterHostSuccess r)]"
      using k(1) by (simp add: rg[OF t])
    show "host_of (on_message ttl now fresh w (Some m) s) r = Some p"
      using k(2) by (simp add: rg[OF t])
  next
    assume t: "msg_type m = Some (lit ''register-host'')" and a: "\<not> claim_allowed s r"
    have a': "\<not> claim_allowed ?a r" using a by simp
    note k = register_host_refused[OF assms(6,7) a' op, where now = now and p = p and st = "c_sessionToken c"
        and pr = "getPeer ?a p"]
    show "outbox (on_message ttl now fresh w (Some m) s) =
         outbox s @ [(w, RegisterHostFailed (Some (JStr r)) ''Room already has a host'')]"
      by (simp add: rg[OF t] k)
    show "rooms (on_message ttl now fresh w (Some m) s) = rooms s" by (simp add: rg[OF t] k)
  next
    assume "reachable ttl s" and "live_host s r"
    then show "\<not> claim_allowed s r" by (rule lv)
  qed
qed

theorem claim_host_iff_host_has_no_peer_witness:
  "conns sc7 8 = Some member_conn \<and> conns sc6 8 = Some member_conn \<and>
   c_peerId member_conn = Some demo_member \<and> demo_member \<noteq> [] \<and>
   fst (checkRateLimit 5 demo_member sc7) \<and> fst (checkRateLimit 5 demo_member sc6) \<and>
   8 \<in> open_ws sc7 \<and> 8 \<in> open_ws sc6 \<and> isValidRoomId (Some (JStr demo_room)) \<and>
   claim_allowed sc7 demo_room \<and> reachable 300 sc6 \<and> live_host sc6 demo_room \<and>
   \<not> claim_allowed sc6 demo_room \<and>
   outbox (on_message 300 5 demo_host 8 (Some (room_msg ''claim-host'' demo_room)) sc7) =
     outbox sc7 @ [(8, ClaimHostSuccess demo_room)] \<and>
   host_of (on_message 300 5 demo_host 8 (Some (room_msg ''claim-host'' demo_room)) sc7) demo_room =
     Some demo_member \<and>
   cleanupTimers sc7 demo_room = Some 0 \<and>
   timerQueue (on_message 300 5 demo_host 8 (Some (room_msg ''claim-host'' demo_room)) sc7) 0 = None \<and>
   outbox (on_message 300 5 demo_host 8 (Some (room_msg ''claim-host'' demo_room)) sc6) =
     outbox sc6 @ [(8, ClaimHostFailed (Some (JStr demo_room)) ''Room already has active host'')] \<and>
   outbox (on_message 300 5 demo_host 8 (Some (room_msg ''register-host'' demo_room)) sc7) =
     outbox sc7 @ [(8, RegisterHostSuccess demo_room)] \<and>
   outbox (on_message 300 5 demo_host 8 (Some (room_msg ''register-host'' demo_room)) sc6) =
     outbox sc6 @ [(8, RegisterHostFailed (Some (JStr demo_room)) ''Room already has a host'')]"
proof -
  have a7: "conns sc7 8 = Some member_conn" by (simp add: sc7_eq member_conn_def)
  have a6: "conns sc6 8 = Some member_conn" by (simp add: sc6_eq member_conn_def)
  have b: "c_peerId member_conn = Some demo_member" by (simp add: member_conn_def)
  have c: "demo_member \<noteq> []" by simp
  have d7: "fst (checkRateLimit 5 demo_member sc7)"
    by (simp add: sc7_eq checkRateLimit_def windowMs_def maxMessages_def)
  have d6: "fst (checkRateLimit 5 demo_member sc6)"
    by (simp add: sc6_eq checkRateLimit_def windowMs_def maxMessages_def)
  have e7: "8 \<in> open_ws sc7" by (simp add: sc7_eq)
  have e6: "8 \<in> open_ws sc6" by (simp add: sc6_eq)
  have f: "field (room_msg ty demo_room) (lit ''roomId'') = Some (JStr demo_room)" for ty by simp
  have g: "isValidRoomId (Some (JStr demo_room))" by (rule demo_valid)
  have h7: "claim_allowed sc7 demo_room" by (simp add: sc7_eq claim_allowed_def hasPeer_def)
  have h6: "\<not> claim_allowed sc6 demo_room" by (simp add: sc6_eq claim_allowed_def hasPeer_def)
  have t7: "cleanupTimers sc7 demo_room = Some 0" by (simp add: sc7_eq)
  have ty1: "msg_type (room_msg ''claim-host'' demo_room) = Some (lit ''claim-host'')" by simp
  have ty2: "msg_type (room_msg ''register-host'' demo_room) = Some (lit ''register-host'')" by simp
  note c7 = claim_host_iff_host_has_no_peer[OF a7 b c d7 e7 f g, where ttl = 300 and fresh = demo_host
      and ty1 = "''claim-host''"]
  note c6 = claim_host_iff_host_has_no_peer[OF a6 b c d6 e6 f g, where ttl = 300 and fresh = demo_host
      and ty1 = "''claim-host''"]
  note r7 = claim_host_iff_host_has_no_peer[OF a7 b c d7 e7 f g, where ttl = 300 and fresh = demo_host
      and ty1 = "''register-host''"]
  note r6 = claim_host_iff_host_has_no_peer[OF a6 b c d6 e6 f g, where ttl = 300 and fresh = demo_host
      and ty1 = "''register-host''"]
  have l6: "live_host sc6 demo_room" by (simp add: sc6_eq live_host_def host_of_def live_def)
  have n6: "\<not> claim_allowed sc6 demo_room"
    using conjunct2[OF conjunct2[OF conjunct2[OF conjunct2[OF c6]]]] reachable_sc6 l6 by blast
  have k1: "outbox (on_message 300 5 demo_host 8 (Some (room_msg ''claim-host'' demo_room)) sc7) =
     outbox sc7 @ [(8, ClaimHostSuccess demo_room)]"
    using c7 ty1 h7 by simp
  have k2: "host_of (on_message 300 5 demo_host 8 (Some (room_msg ''claim-host'' demo_room)) sc7) demo_room =
     Some demo_member"
    using c7 ty1 h7 by simp
  have k3: "timerQueue (on_message 300 5 demo_host 8 (Some (room_msg ''claim-host'' demo_room)) sc7) 0 = None"
    using c7 ty1 h7 t7 by simp
  have k4: "outbox (on_message 300 5 demo_host 8 (Some (room_msg ''claim-host'' demo_room)) sc6) =
     outbox sc6 @ [(8, ClaimHostFailed (Some (JStr demo_room)) ''Room already has active host'')]"
    using c6 ty1 h6 by simp
  have k5: "outbox (on_message 300 5 demo_host 8 (Some (room_msg ''register-host'' demo_room)) sc7) =
     outbox sc7 @ [(8, RegisterHostSuccess demo_room)]"
    using r7 ty2 h7 by simp
  have k6: "outbox (on_message 300 5 demo_host 8 (Some (room_msg ''register-host'' demo_room)) sc6) =
     outbox sc6 @ [(8, RegisterHostFailed (Some (JStr demo_room)) ''Room already has a host'')]"
    using r6 ty2 h6 by simp
  show ?thesis
    by (intro conjI) (fact a7 a6 b c d7 d6 e7 e6 g h7 reachable_sc6 l6 n6 t7 k1 k2 k3 k4 k5 k6)+
qed

text \<open>
  With liveness read from the Transport Registry the claim fails. In \<open>sc_ghost\<close> the host
  returned on socket 9, the close handler of its old socket then deleted its registry
  entry and its peer record, and a register-host on socket 9 wrote the peer record again:
  the room's recorded host has no entry in the registry, and the member's claim-host and
  register-host are both refused.
\<close>

theorem claim_refused_without_live_host:
  "reachable 300 sc_ghost \<and> host_of sc_ghost demo_room = Some demo_host \<and>
   wsConnections sc_ghost demo_host = None \<and> \<not> live_host sc_ghost demo_room \<and>
   conns sc_ghost 8 = Some member_conn \<and> 8 \<in> open_ws sc_ghost \<and>
   fst (checkRateLimit 13 demo_member sc_ghost) \<and>
   outbox (on_message 300 13 demo_host 8 (Some (room_msg ''claim-host'' demo_room)) sc_ghost) =
     outbox sc_ghost @ [(8, ClaimHostFailed (Some (JStr demo_room)) ''Room already has active host'')] \<and>
   outbox (on_message 300 13 demo_host 8 (Some (room_msg ''register-host'' demo_room)) sc_ghost) =
     outbox sc_ghost @ [(8, RegisterHostFailed (Some (JStr demo_room)) ''Room already has a host'')]"
proof -
  let ?a = "admitted 13 demo_member (Some member_token) sc_ghost"
  have a: "conns sc_ghost 8 = Some member_conn" by (simp add: sc_ghost_eq member_conn_def)
  have b: "c_peerId member_conn = Some demo_member" by (simp add: member_conn_def)
  have st: "c_sessionToken member_conn = Some member_token" by (simp add: member_conn_def)
  have d: "fst (checkRateLimit 13 demo_member sc_ghost)"
    by (simp add: sc_ghost_eq checkRateLimit_def windowMs_def maxMessages_def)
  have e: "8 \<in> open_ws sc_ghost" by (simp add: sc_ghost_eq)
  have h: "host_of sc_ghost demo_room = Some demo_host" by (simp add: sc_ghost_eq host_of_def)
  have w: "wsConnections sc_ghost demo_host = None" by (simp add: sc_ghost_eq)
  have nl: "\<not> live_host sc_ghost demo_room" using h w by (simp add: live_host_def live_def)
  have na: "\<not> claim_allowed sc_ghost demo_room"
    by (simp add: sc_ghost_eq claim_allowed_def hasPeer_def)
  then have na': "\<not> claim_allowed ?a demo_room" by simp
  have op: "8 \<in> open_ws ?a" using e by simp
  have f: "field (room_msg ty demo_room) (lit ''roomId'') = Some (JStr demo_room)" for ty by simp
  have cl: "on_message 300 13 demo_host 8 (Some (room_msg ''claim-host'' demo_room)) sc_ghost =
      claim_host 13 8 demo_member (Some member_token) (getPeer ?a demo_member)
        (room_msg ''claim-host'' demo_room) ?a"
    using on_message_routed[OF a b _ _ d, of "room_msg ''claim-host'' demo_room" "lit ''claim-host''" 300 demo_host]
    by (simp add: route_simps st)
  have rg: "on_message 300 13 demo_host 8 (Some (room_msg ''register-host'' demo_room)) sc_ghost =
      register_host 13 8 demo_member (Some member_token) (getPeer ?a demo_member)
        (room_msg ''register-host'' demo_room) ?a"
    using on_message_routed[OF a b _ _ d, of "room_msg ''register-host'' demo_room" "lit ''register-host''" 300 demo_host]
    by (simp add: route_simps st)
  have k1: "outbox (on_message 300 13 demo_host 8 (Some (room_msg ''claim-host'' demo_room)) sc_ghost) =
     outbox sc_ghost @ [(8, ClaimHostFailed (Some (JStr demo_room)) ''Room already has active host'')]"
    unfolding cl by (simp add: claim_host_refused[OF f demo_valid(5) na' op])
  have k2: "outbox (on_message 300 13 demo_host 8 (Some (room_msg ''register-host'' demo_room)) sc_ghost) =
     outbox sc_ghost @ [(8, RegisterHostFailed (Some (JStr demo_room)) ''Room already has a host'')]"
    unfolding rg by (simp add: register_host_refused[OF f demo_valid(5) na' op])
  show ?thesis
    by (intro conjI) (fact reachable_sc_ghost h w nl a e d k1 k2)+
qed

section \<open>Relay\<close>

text \<open>
  C5. An offer, answer or ice-candidate from the authenticated peer \<open>a\<close>, whose
  \<open>targetPeerId\<close> is well-formed and names a peer \<open>b\<close> that \<open>hasPeer\<close> finds, puts on the wire
  exactly what \<open>sendToPeer b\<close> delivers: one copy to the transport registered for \<open>b\<close> when
  that transport is open, and nothing to any other transport. The relayed object carries
  \<open>fromPeerId = a\<close>, the identity the server assigned to the sending connection, whatever
  the client wrote in that field, and every other field as the client sent it.
\<close>

theorem relay_reaches_only_target:
  assumes "conns s w = Some c" and "c_peerId c = Some a" and "a \<noteq> []"
    and "fst (checkRateLimit now a s)" and "msg_type m = Some ty"
    and "ty = lit ''offer'' \<or> ty = lit ''answer'' \<or> ty = lit ''ice-candidate''"
    and "field m (lit ''targetPeerId'') = Some (JStr b)" and "isValidPeerId (Some (JStr b))"
    and "hasPeer s (Some b)"
  shows "outbox (on_message ttl now fresh w (Some m) s) =
           outbox s @ deliveries s [b] (Relayed (with_from m a))
       \<and> (wsConnections s b = Some wb \<and> wb \<in> open_ws s \<longrightarrow>
            outbox (on_message ttl now fresh w (Some m) s) =
              outbox s @ [(wb, Relayed (with_from m a))])
       \<and> field (with_from m a) (lit ''fromPeerId'') = Some (JStr a)
       \<and> (\<forall>k. k \<noteq> lit ''fromPeerId'' \<longrightarrow> field (with_from m a) k = field m k)"
proof -
  let ?s = "admitted now a (c_sessionToken c) s"
  have nh: "ty \<noteq> lit ''heartbeat''" using assms(6) by auto
  have "route now w a (c_sessionToken c) ty m ?s = relay w a m ?s"
    using assms(6) by (auto simp: route_simps)
  then have e: "on_message ttl now fresh w (Some m) s = relay w a m ?s"
    using on_message_routed[OF assms(1,2,3,5,4) nh] by simp
  have hp: "hasPeer ?s (Some b)" using assms(9) by simp
  have o: "outbox (on_message ttl now fresh w (Some m) s) =
           outbox s @ deliveries s [b] (Relayed (with_from m a))"
    by (simp add: e relay_ok[OF assms(7,8) hp] outbox_sendToPeer)
  show ?thesis
    using o field_with_from[OF assms(5)] by (auto simp: deliveries_def)
qed

theorem relay_reaches_only_target_witness:
  "conns sc6 8 = Some member_conn \<and> c_peerId member_conn = Some demo_member \<and>
   fst (checkRateLimit 4 demo_member sc6) \<and> msg_type offer_msg = Some (lit ''offer'') \<and>
   field offer_msg (lit ''targetPeerId'') = Some (JStr demo_host) \<and>
   field offer_msg (lit ''fromPeerId'') = Some (JStr demo_host) \<and>
   isValidPeerId (Some (JStr demo_host)) \<and> hasPeer sc6 (Some demo_host) \<and>
   wsConnections sc6 demo_host = Some 7 \<and> 7 \<in> open_ws sc6 \<and>
   outbox (on_message 300 4 demo_host 8 (Some offer_msg) sc6) =
     outbox sc6 @ [(7, Relayed (with_from offer_msg demo_member))] \<and>
   field (with_from offer_msg demo_member) (lit ''fromPeerId'') = Some (JStr demo_member)"
proof -
  have a: "conns sc6 8 = Some member_conn" by (simp add: sc6_eq member_conn_def)
  have b: "c_peerId member_conn = Some demo_member" by (simp add: member_conn_def)
  have c: "demo_member \<noteq> []" by simp
  have d: "fst (checkRateLimit 4 demo_member sc6)"
    by (simp add: sc6_eq checkRateLimit_def windowMs_def maxMessages_def)
  have e: "msg_type offer_msg = Some (lit ''offer'')" by simp
  have f: "lit ''offer'' = lit ''offer'' \<or> lit ''offer'' = lit ''answer'' \<or>
      lit ''offer'' = lit ''ice-candidate''" by simp
  have g: "field offer_msg (lit ''targetPeerId'') = Some (JStr demo_host)" by simp
  have g': "field offer_msg (lit ''fromPeerId'') = Some (JStr demo_host)"
    by (simp add: offer_msg_def)
  have h: "isValidPeerId (Some (JStr demo_host))" by (rule demo_valid)
  have i: "hasPeer sc6 (Some demo_host)" by (simp add: sc6_eq hasPeer_def)
  have j: "wsConnections sc6 demo_host = Some 7" by (simp add: sc6_eq)
  have k: "7 \<in> open_ws sc6" by (simp add: sc6_eq)
  note t = relay_reaches_only_target[OF a b c d e f g h i, where ttl = 300 and fresh = demo_host
      and wb = 7]
  have r1: "outbox (on_message 300 4 demo_host 8 (Some offer_msg) sc6) =
     outbox sc6 @ [(7, Relayed (with_from offer_msg demo_member))]"
    using conjunct1[OF conjunct2[OF t]] j k by blast
  have r2: "field (with_from offer_msg demo_member) (lit ''fromPeerId'') = Some (JStr demo_member)"
    using conjunct1[OF conjunct2[OF conjunct2[OF t]]] .
  show ?thesis
    by (intro conjI) (fact a b d e g g' h i j k r1 r2)+
qed

section \<open>Leaving a room\<close>

text \<open>
  C7. A leave-room message of an authenticated peer that passes the rate check: when
  the peer is not in a room, nothing is sent and rooms, peer records and timers stay as
  they were; after any leave-room the peer is not in a room and the connection keeps
  its identity, so a second leave-room sends nothing and changes neither rooms nor
  peer records.
\<close>

theorem leave_room_idempotent:
  assumes "conns s w = Some c" and "c_peerId c = Some p" and "p \<noteq> []"
    and "msg_type m = Some (lit ''leave-room'')" and "fst (checkRateLimit now p s)"
  shows "(\<not> in_room s p \<longrightarrow>
            outbox (on_message ttl now fresh w (Some m) s) = outbox s \<and>
            rooms (on_message ttl now fresh w (Some m) s) = rooms s \<and>
            peers (on_message ttl now fresh w (Some m) s) = peers s \<and>
            cleanupTimers (on_message ttl now fresh w (Some m) s) = cleanupTimers s \<and>
            timerQueue (on_message ttl now fresh w (Some m) s) = timerQueue s)
       \<and> \<not> in_room (on_message ttl now fresh w (Some m) s) p
       \<and> conns (on_message ttl now fresh w (Some m) s) w = Some c
       \<and> (fst (checkRateLimit now' p (on_message ttl now fresh w (Some m) s)) \<longrightarrow>
            outbox (on_message ttl now' fresh' w (Some m) (on_message ttl now fresh w (Some m) s)) =
              outbox (on_message ttl now fresh w (Some m) s) \<and>
            rooms (on_message ttl now' fresh' w (Some m) (on_message ttl now fresh w (Some m) s)) =
              rooms (on_message ttl now fresh w (Some m) s) \<and>
            peers (on_message ttl now' fresh' w (Some m) (on_message ttl now fresh w (Some m) s)) =
              peers (on_message ttl now fresh w (Some m) s))"
proof -
  have step: "on_message ttl n f w (Some m) t =
      leave_room n p (c_sessionToken c) (getPeer (admitted n p (c_sessionToken c) t) p)
        (admitted n p (c_sessionToken c) t)"
    if "conns t w = Some c" and "fst (checkRateLimit n p t)" for n f t
    using on_message_routed[OF that(1) assms(2,3,4) that(2)] by (simp add: route_simps)
  have noop: "on_message ttl n f w (Some m) t = admitted n p (c_sessionToken c) t"
    if "conns t w = Some c" and "fst (checkRateLimit n p t)" and "\<not> in_room t p" for n f t
    using step[OF that(1,2)] leave_room_not_in_room[of "admitted n p (c_sessionToken c) t" p] that(3)
    by simp
  let ?s1 = "on_message ttl now fresh w (Some m) s"
  have out: "\<not> in_room ?s1 p"
    using leave_room_leaves[of now p "c_sessionToken c" "admitted now p (c_sessionToken c) s"]
    by (simp add: step[OF assms(1,5)])
  have c1: "conns ?s1 w = Some c" using assms(1) by (simp add: step[OF assms(1,5)])
  show ?thesis
  proof (intro conjI impI)
    assume n: "\<not> in_room s p"
    show "outbox ?s1 = outbox s" "rooms ?s1 = rooms s" "peers ?s1 = peers s"
      "cleanupTimers ?s1 = cleanupTimers s" "timerQueue ?s1 = timerQueue s"
      by (simp_all add: noop[OF assms(1,5) n])
  next
    show "\<not> in_room ?s1 p" by (rule out)
    show "conns ?s1 w = Some c" by (rule c1)
  next
    assume r: "fst (checkRateLimit now' p ?s1)"
    show "outbox (on_message ttl now' fresh' w (Some m) ?s1) = outbox ?s1"
      "rooms (on_message ttl now' fresh' w (Some m) ?s1) = rooms ?s1"
      "peers (on_message ttl now' fresh' w (Some m) ?s1) = peers ?s1"
      by (simp_all add: noop[OF c1 r out])
  qed
qed

theorem leave_room_idempotent_witness:
  "conns sc5 8 = Some member_conn \<and> c_peerId member_conn = Some demo_member \<and>
   msg_type (plain_msg ''leave-room'') = Some (lit ''leave-room'') \<and>
   fst (checkRateLimit 3 demo_member sc5) \<and> \<not> in_room sc5 demo_member \<and>
   outbox (on_message 300 3 demo_host 8 (Some (plain_msg ''leave-room'')) sc5) = outbox sc5 \<and>
   rooms (on_message 300 3 demo_host 8 (Some (plain_msg ''leave-room'')) sc5) = rooms sc5 \<and>
   conns sc6 8 = Some member_conn \<and> fst (checkRateLimit 4 demo_member sc6) \<and>
   in_room sc6 demo_member \<and>
   \<not> in_room sc_left demo_member \<and>
   fst (checkRateLimit 5 demo_member
          sc_left) \<and>
   outbox (on_message 300 5 demo_host 8 (Some (plain_msg ''leave-room''))
            sc_left) =
     outbox sc_left \<and>
   rooms (on_message 300 5 demo_host 8 (Some (plain_msg ''leave-room''))
            sc_left) =
     rooms sc_left"
proof -
  have a5: "conns sc5 8 = Some member_conn" by (simp add: sc5_eq member_conn_def)
  have a6: "conns sc6 8 = Some member_conn" by (simp add: sc6_eq member_conn_def)
  have b: "c_peerId member_conn = Some demo_member" by (simp add: member_conn_def)
  have c: "demo_member \<noteq> []" by simp
  have d: "msg_type (plain_msg ''leave-room'') = Some (lit ''leave-room'')" by simp
  have e5: "fst (checkRateLimit 3 demo_member sc5)"
    by (simp add: sc5_eq checkRateLimit_def windowMs_def maxMessages_def)
  have e6: "fst (checkRateLimit 4 demo_member sc6)"
    by (simp add: sc6_eq checkRateLimit_def windowMs_def maxMessages_def)
  have n5: "\<not> in_room sc5 demo_member" by (simp add: sc5_eq in_room_def)
  have n6: "in_room sc6 demo_member" by (simp add: sc6_eq in_room_def)
  have e7: "fst (checkRateLimit 5 demo_member sc_left)"
    by (simp add: sc_left_eq checkRateLimit_def windowMs_def maxMessages_def)
  note t5 = leave_room_idempotent[OF a5 b c d e5, where ttl = 300 and fresh = demo_host]
  note t6 = leave_room_idempotent[OF a6 b c d e6, where ttl = 300 and fresh = demo_host
      and now' = 5 and fresh' = demo_host, folded sc_left_def]
  have r1: "outbox (on_message 300 3 demo_host 8 (Some (plain_msg ''leave-room'')) sc5) = outbox sc5"
    using t5 n5 by simp
  have r2: "rooms (on_message 300 3 demo_host 8 (Some (plain_msg ''leave-room'')) sc5) = rooms sc5"
    using t5 n5 by simp
  have r3: "\<not> in_room sc_left demo_member"
    using t6 by simp
  have r4: "outbox (on_message 300 5 demo_host 8 (Some (plain_msg ''leave-room''))
            sc_left) =
     outbox sc_left"
    using t6 e7 by simp
  have r5: "rooms (on_message 300 5 demo_host 8 (Some (plain_msg ''leave-room''))
            sc_left) =
     rooms sc_left"
    using t6 e7 by simp
  show ?thesis
    by (intro conjI) (fact a5 a6 b d e5 e6 n5 n6 e7 r1 r2 r3 r4 r5)+
qed

section \<open>Joining a second room\<close>

text \<open>
  What join-room and leave-room do to the rooms. A peer recorded as a member of room \<open>x\<close>
  sends a join-room for a different room \<open>y\<close> that exists and whose host has a peer
  record. After the join the peer is a member of \<open>y\<close>, its peer record names \<open>y\<close>, and
  every room other than \<open>y\<close>, \<open>x\<close> among them, is as before, so the peer is still listed in
  \<open>x\<close>. A leave-room that follows changes room \<open>y\<close> only: the peer is removed from the
  members of \<open>y\<close> (when it is not the recorded host of \<open>y\<close>), room \<open>x\<close> still lists it, and
  the peer is then in no room.
\<close>

theorem join_other_room_keeps_membership:
  assumes "conns s w = Some c" and "c_peerId c = Some p" and "p \<noteq> []"
    and "rooms s x = Some rx" and "p \<in> set (members rx)" and "x \<noteq> y"
    and "msg_type mj = Some (lit ''join-room'')" and "field mj (lit ''roomId'') = Some (JStr y)"
    and "isValidRoomId (Some (JStr y))" and "fst (checkRateLimit now p s)"
    and "rooms s y = Some ry" and "hasPeer s (hostPeerId ry)"
    and "s1 = on_message ttl now fresh w (Some mj) s"
    and "msg_type ml = Some (lit ''leave-room'')" and "fst (checkRateLimit now' p s1)"
    and "s2 = on_message ttl now' fresh' w (Some ml) s1"
  shows "rooms s1 x = Some rx
       \<and> p \<in> set (getRoomMembers s1 y)
       \<and> (\<forall>r. r \<noteq> y \<longrightarrow> rooms s1 r = rooms s r)
       \<and> map_option p_roomId (peers s1 p) = Some (Some y)
       \<and> rooms s2 x = Some rx
       \<and> (\<forall>r. r \<noteq> y \<longrightarrow> rooms s2 r = rooms s r)
       \<and> (hostPeerId ry \<noteq> Some p \<longrightarrow> getRoomMembers s2 y = removeAll p (getRoomMembers s1 y))
       \<and> \<not> in_room s2 p"
proof -
  let ?a = "admitted now p (c_sessionToken c) s"
  have e1: "s1 = join_room w p (c_sessionToken c) (getPeer ?a p) mj ?a"
    using on_message_routed[OF assms(1,2,3,7,10)] assms(13) by (simp add: route_simps)
  have ry: "rooms ?a y = Some ry" and hp: "hasPeer ?a (hostPeerId ry)"
    using assms(11,12) by (simp_all add: hasPeer_def split: option.splits)
  note j = join_room_ok[OF assms(8,9) ry hp, of w p "c_sessionToken c" "getPeer ?a p"]
  have r1: "rooms s1 = (rooms s)(y \<mapsto> ry\<lparr>members := (if p \<in> set (members ry) then members ry else members ry @ [p])\<rparr>)"
    using j(1) by (simp add: e1)
  have p1: "peers s1 p = Some (peer_with_room (getPeer ?a p) (Some y))"
    using j(2) by (simp add: e1)
  have c1: "conns s1 w = Some c" using j(4) assms(1) by (simp add: e1)
  let ?b = "admitted now' p (c_sessionToken c) s1"
  have e2: "s2 = leave_room now' p (c_sessionToken c) (getPeer ?b p) ?b"
    using on_message_routed[OF c1 assms(2,3,14,15)] assms(16) by (simp add: route_simps)
  have pb: "peers ?b p = Some (peer_with_room (getPeer ?a p) (Some y))" using p1 by simp
  have py: "p_roomId (peer_with_room (getPeer ?a p) (Some y)) = Some y"
    by (simp add: peer_with_room_def split: option.splits)
  have yn: "y \<noteq> []" using assms(9) by auto
  let ?ry1 = "ry\<lparr>members := (if p \<in> set (members ry) then members ry else members ry @ [p])\<rparr>"
  have rb: "rooms ?b y = Some ?ry1" using r1 by simp
  have r2: "rooms s2 = (rooms s1)(y \<mapsto> (if hostPeerId ?ry1 = Some p then ?ry1\<lparr>hostPeerId := None\<rparr>
                             else ?ry1\<lparr>members := removeAll p (members ?ry1)\<rparr>))"
    using leave_room_in_room[OF pb py yn rb, of now' "c_sessionToken c"] by (simp add: e2)
  have out2: "\<not> in_room s2 p"
    using leave_room_leaves[of now' p "c_sessionToken c" ?b] by (simp add: e2)
  show ?thesis
    using assms(4,5,6) r1 r2 p1 py out2 by (auto simp: getRoomMembers_def)
qed

theorem join_other_room_keeps_membership_witness:
  "conns sc_two 8 = Some member_conn \<and> c_peerId member_conn = Some demo_member \<and>
   rooms sc_two demo_room = Some first_room \<and> demo_member \<in> set (members first_room) \<and>
   demo_room \<noteq> other_room \<and> isValidRoomId (Some (JStr other_room)) \<and>
   fst (checkRateLimit 6 demo_member sc_two) \<and>
   rooms sc_two other_room = Some second_room \<and> hasPeer sc_two (hostPeerId second_room) \<and>
   fst (checkRateLimit 7 demo_member joined_two) \<and>
   rooms joined_two demo_room = Some first_room \<and>
   demo_member \<in> set (getRoomMembers joined_two other_room) \<and>
   rooms left_two demo_room = Some first_room \<and>
   getRoomMembers left_two other_room = removeAll demo_member (getRoomMembers joined_two other_room) \<and>
   \<not> in_room left_two demo_member"
proof -
  have a: "conns sc_two 8 = Some member_conn" by (simp add: sc_two_eq member_conn_def)
  have b: "c_peerId member_conn = Some demo_member" by (simp add: member_conn_def)
  have c: "demo_member \<noteq> []" by simp
  have d: "rooms sc_two demo_room = Some first_room" by (simp add: sc_two_eq first_room_def)
  have e: "demo_member \<in> set (members first_room)" by (simp add: first_room_def)
  have f: "demo_room \<noteq> other_room" by simp
  have g: "msg_type (room_msg ''join-room'' other_room) = Some (lit ''join-room'')" by simp
  have h: "field (room_msg ''join-room'' other_room) (lit ''roomId'') = Some (JStr other_room)"
    by simp
  have i: "isValidRoomId (Some (JStr other_room))" by (rule other_room_simps)
  have j: "fst (checkRateLimit 6 demo_member sc_two)"
    by (simp add: sc_two_eq checkRateLimit_def windowMs_def maxMessages_def)
  have k: "rooms sc_two other_room = Some second_room" by (simp add: sc_two_eq second_room_def)
  have l: "hasPeer sc_two (hostPeerId second_room)"
    by (simp add: sc_two_eq second_room_def hasPeer_def)
  have m: "joined_two = on_message 300 6 demo_host 8 (Some (room_msg ''join-room'' other_room)) sc_two"
    by (simp add: joined_two_def)
  have n: "msg_type (plain_msg ''leave-room'') = Some (lit ''leave-room'')" by simp
  have o: "fst (checkRateLimit 7 demo_member joined_two)"
    by (simp add: joined_two_eq checkRateLimit_def windowMs_def maxMessages_def)
  have q: "left_two = on_message 300 7 demo_host 8 (Some (plain_msg ''leave-room'')) joined_two"
    by (simp add: left_two_def)
  note t = join_other_room_keeps_membership[OF a b c d e f g h i j k l m n o q]
  have s: "hostPeerId second_room \<noteq> Some demo_member" by (simp add: second_room_def)
  have r1: "rooms joined_two demo_room = Some first_room" using t by simp
  have r2: "demo_member \<in> set (getRoomMembers joined_two other_room)" using t by simp
  have r3: "rooms left_two demo_room = Some first_room" using t by simp
  have r4: "getRoomMembers left_two other_room =
      removeAll demo_member (getRoomMembers joined_two other_room)" using t s by simp
  have r5: "\<not> in_room left_two demo_member" using t by simp
  show ?thesis
    by (intro conjI) (fact a b d e f i j k l o r1 r2 r3 r4 r5)+
qed

text \<open>
  C10. The membership in \<open>x\<close> that a join-room for \<open>y\<close> leaves behind is said to last until
  \<open>x\<close> is deleted or the session expires. The handlers evaluated where the session
  expires: the member of \<open>abcd1234\<close> joins \<open>wxyz-5678\<close> and is listed in both rooms, its
  transport closes, and the sweep runs when its session has expired. The sweep takes the
  session from the ledger and the identity from the members of \<open>wxyz-5678\<close>, the room the
  session names; \<open>abcd1234\<close> still exists and still lists the identity, of which neither
  session nor peer record nor registry entry is left.
\<close>

theorem expired_member_stays_listed:
  "reachable 300 joined_two \<and> getRoomMembers sc_two demo_room = [demo_member] \<and>
   joined_two = on_message 300 6 demo_host 8 (Some (room_msg ''join-room'' other_room)) sc_two \<and>
   getRoomMembers joined_two demo_room = [demo_member] \<and>
   getRoomMembers joined_two other_room = [demo_member] \<and>
   sc_beat = on_message 300 200000 demo_host 7 (Some (plain_msg ''heartbeat'')) (on_close 7 8 joined_two) \<and>
   map_of (sessions sc_beat) member_token =
     Some \<lparr>s_peerId = demo_member, s_roomId = Some other_room, lastSeen = 6\<rparr> \<and>
   session_expired 300 400000 \<lparr>s_peerId = demo_member, s_roomId = Some other_room, lastSeen = 6\<rparr> \<and>
   reachable 300 (sweep_sessions 300 400000 sc_beat) \<and>
   map_of (sessions (sweep_sessions 300 400000 sc_beat)) member_token = None \<and>
   peers (sweep_sessions 300 400000 sc_beat) demo_member = None \<and>
   wsConnections (sweep_sessions 300 400000 sc_beat) demo_member = None \<and>
   getRoomMembers (sweep_sessions 300 400000 sc_beat) other_room = [] \<and>
   host_of (sweep_sessions 300 400000 sc_beat) demo_room = Some demo_host \<and>
   getRoomMembers (sweep_sessions 300 400000 sc_beat) demo_room = [demo_member]"
proof -
  have e: "sweep_sessions 300 400000 sc_beat = sc_expired" by (simp add: sc_expired_def)
  have a1: "getRoomMembers sc_two demo_room = [demo_member]"
    by (simp add: sc_two_eq getRoomMembers_def)
  have a2: "joined_two = on_message 300 6 demo_host 8 (Some (room_msg ''join-room'' other_room)) sc_two"
    by (simp add: joined_two_def)
  have a3: "getRoomMembers joined_two demo_room = [demo_member]"
    by (simp add: joined_two_eq getRoomMembers_def)
  have a4: "getRoomMembers joined_two other_room = [demo_member]"
    by (simp add: joined_two_eq getRoomMembers_def)
  have a5: "sc_beat = on_message 300 200000 demo_host 7 (Some (plain_msg ''heartbeat'')) (on_close 7 8 joined_two)"
    by (simp add: sc_beat_def sc_away_def)
  have a6: "map_of (sessions sc_beat) member_token =
     Some \<lparr>s_peerId = demo_member, s_roomId = Some other_room, lastSeen = 6\<rparr>"
    by (simp add: sc_beat_eq)
  have a7: "session_expired 300 400000 \<lparr>s_peerId = demo_member, s_roomId = Some other_room, lastSeen = 6\<rparr>"
    by (simp add: session_expired_def)
  have b0: "reachable 300 (sweep_sessions 300 400000 sc_beat)"
    unfolding e by (rule reachable_sc_expired)
  have b1: "map_of (sessions (sweep_sessions 300 400000 sc_beat)) member_token = None"
    unfolding e by (simp add: sc_expired_eq)
  have b2: "peers (sweep_sessions 300 400000 sc_beat) demo_member = None"
    unfolding e by (simp add: sc_expired_eq)
  have b3: "wsConnections (sweep_sessions 300 400000 sc_beat) demo_member = None"
    unfolding e by (simp add: sc_expired_eq)
  have b4: "getRoomMembers (sweep_sessions 300 400000 sc_beat) other_room = []"
    unfolding e by (simp add: sc_expired_eq getRoomMembers_def)
  have b5: "host_of (sweep_sessions 300 400000 sc_beat) demo_room = Some demo_host"
    unfolding e by (simp add: sc_expired_eq host_of_def)
  have b6: "getRoomMembers (sweep_sessions 300 400000 sc_beat) demo_room = [demo_member]"
    unfolding e by (simp add: sc_expired_eq getRoomMembers_def)
  show ?thesis
    by (intro conjI) (fact reachable_joined_two a1 a2 a3 a4 a5 a6 a7 b0 b1 b2 b3 b4 b5 b6)+
qed

section \<open>Session restore\<close>

text \<open>
  The restore branch of the hello handler. A hello on an open, not yet authenticated connection \<open>w\<close>, with a well-formed
  token whose session \<open>v\<close> is in the ledger and fresh (\<open>now - lastSeen v < ttl * 1000\<close>), gives
  the connection the session's identity \<open>p\<close>; the token still resolves to \<open>p\<close>, with
  \<open>lastSeen\<close> refreshed; the registry maps \<open>p\<close> to \<open>w\<close> and a different transport that was
  registered for \<open>p\<close> is no longer open; the reply is \<open>peer-id\<close> flagged restored with the
  session's room \<open>r\<close>. If room \<open>r\<close> no longer exists nothing else happens. If it exists,
  \<open>p\<close> is afterwards a member or the host of \<open>r\<close>: it is appended to the members unless it
  is already listed or is the recorded host; and if the room has no host, \<open>p\<close> becomes the
  host on transport \<open>w\<close>, the room's cleanup timer is cleared and forgotten, and every
  member with an open transport is sent \<open>host-reconnected\<close>; if the room has a host, the
  host stays and nothing more is sent.
\<close>

theorem session_restore_round_trip:
  assumes "conns s w = Some c" and "\<not> truthy (c_peerId c)" and "w \<in> open_ws s"
    and "msg_type m = Some (lit ''hello'')" and "field m (lit ''sessionToken'') = Some (JStr tok)"
    and "isValidSessionToken (Some (JStr tok))"
    and "getSession s tok = Some v" and "now - lastSeen v < ttl * 1000"
    and "s_peerId v = p" and "s_roomId v = Some r" and "r \<noteq> []"
    and "s' = on_message ttl now fresh w (Some m) s"
  shows "map_option c_peerId (conns s' w) = Some (Some p)
       \<and> getSession s' tok = Some (v\<lparr>lastSeen := now\<rparr>)
       \<and> wsConnections s' p = Some w \<and> w \<in> open_ws s'
       \<and> (\<forall>old. wsConnections s p = Some old \<and> old \<noteq> w \<longrightarrow> old \<notin> open_ws s')
       \<and> (rooms s r = None \<longrightarrow>
             rooms s' = rooms s \<and> outbox s' = outbox s @ [(w, PeerIdRestored p (Some r))])
       \<and> (\<forall>room. rooms s r = Some room \<longrightarrow>
             getRoomMembers s' r =
               (if p \<in> set (members room) \<or> hostPeerId room = Some p then members room
                else members room @ [p])
           \<and> (p \<in> set (getRoomMembers s' r) \<or> host_of s' r = Some p)
           \<and> (truthy (hostPeerId room) \<longrightarrow>
                 host_of s' r = hostPeerId room \<and>
                 outbox s' = outbox s @ [(w, PeerIdRestored p (Some r))])
           \<and> (\<not> truthy (hostPeerId room) \<longrightarrow>
                 host_of s' r = Some p \<and> hostWsConnections s' r = Some w \<and>
                 cleanupTimers s' r = None \<and>
                 (\<forall>t. cleanupTimers s r = Some t \<longrightarrow> timerQueue s' t = None) \<and>
                 outbox s' = outbox s @ [(w, PeerIdRestored p (Some r))]
                   @ deliveries s' (getRoomMembers s' r) (HostReconnected r p)))"
proof -
  let ?c1 = "c\<lparr>c_sessionToken := Some tok\<rparr>"
  let ?s0 = "s\<lparr>conns := (conns s)(w \<mapsto> ?c1)\<rparr>"
  let ?si = "restore_identity now w ?c1 tok v ?s0"
  have e: "s' = restore_membership w p (Some r) ?si"
    using on_message_restore[OF assms(1,2,4,5,6,7,8)] assms(9,10,12) by simp
  have w0: "w \<in> open_ws ?s0" using assms(3) by simp
  have oi: "outbox ?si = outbox s @ [(w, PeerIdRestored p (Some r))]"
    using restore_identity_outbox[OF w0, of now ?c1 tok v] assms(9,10) by simp
  have ri: "rooms ?si = rooms s" by (simp add: restore_identity_fields)
  have ci: "cleanupTimers ?si = cleanupTimers s" by (simp add: restore_identity_fields)
  have opi: "open_ws s' =
     (case wsConnections s p of None \<Rightarrow> open_ws s
      | Some oldWs \<Rightarrow> if oldWs \<noteq> w then open_ws s - {oldWs} else open_ws s)"
    using assms(9) by (simp add: e restore_identity_fields cong: option.case_cong if_cong)
  have wsi: "wsConnections s' = (wsConnections s)(p \<mapsto> w)"
    using assms(9) by (simp add: e restore_identity_fields)
  have d: "deliveries ?si = deliveries s'"
    by (rule deliveries_cong[symmetric]) (simp_all add: e)
  have g1: "map_option c_peerId (conns s' w) = Some (Some p)"
    using assms(9) by (simp add: e restore_identity_fields)
  have g2: "getSession s' tok = Some (v\<lparr>lastSeen := now\<rparr>)"
    using assms(7)
    by (simp add: e restore_identity_fields getSession_def updateSessionLastSeen_def update_conv')
  have g3: "wsConnections s' p = Some w" by (simp add: wsi)
  have g4: "w \<in> open_ws s'" using assms(3) by (simp add: opi split: option.splits)
  have g5: "\<forall>old. wsConnections s p = Some old \<and> old \<noteq> w \<longrightarrow> old \<notin> open_ws s'"
    by (simp add: opi)
  have g6: "rooms s r = None \<longrightarrow>
             rooms s' = rooms s \<and> outbox s' = outbox s @ [(w, PeerIdRestored p (Some r))]"
    using ri oi by (simp add: e restore_membership_no_room)
  have g7: "getRoomMembers s' r =
               (if p \<in> set (members room) \<or> hostPeerId room = Some p then members room
                else members room @ [p])
           \<and> (p \<in> set (getRoomMembers s' r) \<or> host_of s' r = Some p)
           \<and> (truthy (hostPeerId room) \<longrightarrow>
                 host_of s' r = hostPeerId room \<and>
                 outbox s' = outbox s @ [(w, PeerIdRestored p (Some r))])
           \<and> (\<not> truthy (hostPeerId room) \<longrightarrow>
                 host_of s' r = Some p \<and> hostWsConnections s' r = Some w \<and>
                 cleanupTimers s' r = None \<and>
                 (\<forall>t. cleanupTimers s r = Some t \<longrightarrow> timerQueue s' t = None) \<and>
                 outbox s' = outbox s @ [(w, PeerIdRestored p (Some r))]
                   @ deliveries s' (getRoomMembers s' r) (HostReconnected r p))"
    if rm: "rooms s r = Some room" for room
  proof -
    have rmi: "rooms ?si r = Some room" using rm ri by simp
    note mem = restore_membership_members[OF rmi assms(11), where w = w and p = p]
    have h1: "getRoomMembers s' r =
               (if p \<in> set (members room) \<or> hostPeerId room = Some p then members room
                else members room @ [p])"
      using mem by (simp add: e)
    have h3: "truthy (hostPeerId room) \<longrightarrow>
                 host_of s' r = hostPeerId room \<and>
                 outbox s' = outbox s @ [(w, PeerIdRestored p (Some r))]"
      using restore_membership_hosted(1,2)[OF rmi assms(11), where w = w and p = p] oi by (simp add: e)
    have h4: "\<not> truthy (hostPeerId room) \<longrightarrow>
                 host_of s' r = Some p \<and> hostWsConnections s' r = Some w \<and>
                 cleanupTimers s' r = None \<and>
                 (\<forall>t. cleanupTimers s r = Some t \<longrightarrow> timerQueue s' t = None) \<and>
                 outbox s' = outbox s @ [(w, PeerIdRestored p (Some r))]
                   @ deliveries s' (getRoomMembers s' r) (HostReconnected r p)"
    proof (intro impI conjI allI)
      assume hl: "\<not> truthy (hostPeerId room)"
      note k = restore_membership_hostless[OF rmi assms(11) hl, where w = w and p = p]
      show "host_of s' r = Some p" using k(1) by (simp add: e)
      show "hostWsConnections s' r = Some w" using k(2) by (simp add: e)
      show "cleanupTimers s' r = None" using k(3) by (simp add: e)
      show "timerQueue s' t = None" if "cleanupTimers s r = Some t" for t
        using k(4)[of t] that ci by (simp add: e)
      show "outbox s' = outbox s @ [(w, PeerIdRestored p (Some r))]
                   @ deliveries s' (getRoomMembers s' r) (HostReconnected r p)"
        using k(5) oi d by (simp add: e)
    qed
    have h2: "p \<in> set (getRoomMembers s' r) \<or> host_of s' r = Some p"
    proof (cases "truthy (hostPeerId room)")
      case True
      then show ?thesis using h1 h3 by auto
    next
      case False
      then show ?thesis using h4 by simp
    qed
    show ?thesis using h1 h2 h3 h4 by blast
  qed
  show ?thesis using g1 g2 g3 g4 g5 g6 g7 by blast
qed

theorem session_restore_round_trip_witness:
  "conns sc7c 9 = Some demo_conn9 \<and> \<not> truthy (c_peerId demo_conn9) \<and> 9 \<in> open_ws sc7c \<and>
   isValidSessionToken (Some (JStr demo_token)) \<and> getSession sc7c demo_token = Some demo_session \<and>
   10 - lastSeen demo_session < 300 * 1000 \<and> s_peerId demo_session = demo_host \<and>
   s_roomId demo_session = Some demo_room \<and> demo_room \<noteq> [] \<and>
   rooms sc7c demo_room = Some \<lparr>hostPeerId = None, members = [demo_member], createdAt = Some 1\<rparr> \<and>
   cleanupTimers sc7c demo_room = Some 0 \<and>
   map_option c_peerId (conns sc_back 9) = Some (Some demo_host) \<and>
   getSession sc_back demo_token = Some (demo_session\<lparr>lastSeen := 10\<rparr>) \<and>
   wsConnections sc_back demo_host = Some 9 \<and>
   getRoomMembers sc_back demo_room = [demo_member, demo_host] \<and>
   host_of sc_back demo_room = Some demo_host \<and> cleanupTimers sc_back demo_room = None \<and>
   timerQueue sc_back 0 = None \<and>
   conns sc6c 9 = Some demo_conn9 \<and> 9 \<in> open_ws sc6c \<and>
   getSession sc6c demo_token = Some demo_session \<and>
   wsConnections sc6c demo_host = Some 7 \<and> (7::nat) \<noteq> 9 \<and> 7 \<in> open_ws sc6c \<and>
   7 \<notin> open_ws sc_evict \<and> wsConnections sc_evict demo_host = Some 9 \<and>
   host_of sc_evict demo_room = Some demo_host"
proof -
  have a: "conns sc7c 9 = Some demo_conn9" by (simp add: sc7c_eq demo_conn9_def)
  have a': "conns sc6c 9 = Some demo_conn9" by (simp add: sc6c_eq demo_conn9_def)
  have b: "\<not> truthy (c_peerId demo_conn9)" by (simp add: demo_conn9_def)
  have c: "9 \<in> open_ws sc7c" by (simp add: sc7c_eq)
  have c': "9 \<in> open_ws sc6c" by (simp add: sc6c_eq)
  have d: "msg_type (hello_msg demo_token) = Some (lit ''hello'')" by simp
  have e: "field (hello_msg demo_token) (lit ''sessionToken'') = Some (JStr demo_token)" by simp
  have f: "isValidSessionToken (Some (JStr demo_token))" by (rule demo_valid)
  have g: "getSession sc7c demo_token = Some demo_session"
    by (simp add: sc7c_eq getSession_def demo_session_def)
  have g': "getSession sc6c demo_token = Some demo_session"
    by (simp add: sc6c_eq getSession_def demo_session_def)
  have h: "10 - lastSeen demo_session < 300 * 1000" by (simp add: demo_session_def)
  have i: "s_peerId demo_session = demo_host" by (simp add: demo_session_def)
  have j: "s_roomId demo_session = Some demo_room" by (simp add: demo_session_def)
  have k: "demo_room \<noteq> []" by simp
  have l: "sc_back = on_message 300 10 demo_host 9 (Some (hello_msg demo_token)) sc7c"
    by (simp add: sc_back_def)
  have l': "sc_evict = on_message 300 10 demo_host 9 (Some (hello_msg demo_token)) sc6c"
    by (simp add: sc_evict_def)
  have rm: "rooms sc7c demo_room =
      Some \<lparr>hostPeerId = None, members = [demo_member], createdAt = Some 1\<rparr>"
    by (simp add: sc7c_eq)
  have rm': "rooms sc6c demo_room =
      Some \<lparr>hostPeerId = Some demo_host, members = [demo_member], createdAt = Some 1\<rparr>"
    by (simp add: sc6c_eq)
  have tm: "cleanupTimers sc7c demo_room = Some 0" by (simp add: sc7c_eq)
  have old: "wsConnections sc6c demo_host = Some 7" by (simp add: sc6c_eq)
  have old': "7 \<in> open_ws sc6c" by (simp add: sc6c_eq)
  have ne: "(7::nat) \<noteq> 9" by simp
  note t = session_restore_round_trip[OF a b c d e f g h i j k l]
  note t' = session_restore_round_trip[OF a' b c' d e f g' h i j k l']
  have r1: "map_option c_peerId (conns sc_back 9) = Some (Some demo_host)" using t by blast
  have r2: "getSession sc_back demo_token = Some (demo_session\<lparr>lastSeen := 10\<rparr>)"
    using t by blast
  have r3: "wsConnections sc_back demo_host = Some 9" using t by blast
  have r4: "getRoomMembers sc_back demo_room = [demo_member, demo_host]"
    using t rm by simp
  have r5: "host_of sc_back demo_room = Some demo_host" using t rm by simp
  have r6: "cleanupTimers sc_back demo_room = None" using t rm by simp
  have r7: "timerQueue sc_back 0 = None" using t rm tm by simp
  have r8: "7 \<notin> open_ws sc_evict" using t' old ne by blast
  have r9: "wsConnections sc_evict demo_host = Some 9" using t' by blast
  have r10: "host_of sc_evict demo_room = Some demo_host" using t' rm' by simp
  show ?thesis
    by (intro conjI) (fact a a' b c c' f g g' h i j k rm tm old old' ne r1 r2 r3 r4 r5 r6 r7 r8 r9 r10)+
qed

text \<open>
  C4. The session round-trip, evaluated for the host of the scenario. The host registered
  \<open>abcd1234\<close> and was never one of its members; its transport closed, which left the room
  hostless with a timer armed; it says hello with its token on socket 9 before the
  session expires. It gets its identity back, flagged restored with the room, becomes the
  host again and the timer is cleared, as the round-trip says. But the handler's test
  for re-adding a member, \<^verbatim>\<open>!members.includes(peerId) && room.hostPeerId !== peerId\<close>, reads a
  \<open>hostPeerId\<close> that the disconnect has already cleared: the returning host is appended to
  the members, and \<open>host-reconnected\<close> goes to the host itself as well as to the member.
\<close>

theorem returning_host_listed_as_member:
  "reachable 300 sc7c \<and> conns sc7c 9 = Some demo_conn9 \<and> 9 \<in> open_ws sc7c \<and>
   map_of (sessions sc7c) demo_token = Some demo_session \<and> s_peerId demo_session = demo_host \<and>
   host_of sc6 demo_room = Some demo_host \<and> getRoomMembers sc6 demo_room = [demo_member] \<and>
   sc7c = on_connection ''10.0.0.1'' 9 (on_close 4 7 sc6) \<and>
   hostless sc7c demo_room \<and> armed sc7c demo_room 0 30004 \<and>
   getRoomMembers sc7c demo_room = [demo_member] \<and>
   host_of (on_message 300 10 demo_host 9 (Some (hello_msg demo_token)) sc7c) demo_room =
     Some demo_host \<and>
   unarmed (on_message 300 10 demo_host 9 (Some (hello_msg demo_token)) sc7c) demo_room \<and>
   getRoomMembers (on_message 300 10 demo_host 9 (Some (hello_msg demo_token)) sc7c) demo_room =
     [demo_member, demo_host] \<and>
   outbox (on_message 300 10 demo_host 9 (Some (hello_msg demo_token)) sc7c) =
     outbox sc7c @ [(9, PeerIdRestored demo_host (Some demo_room)),
                    (8, HostReconnected demo_room demo_host),
                    (9, HostReconnected demo_room demo_host)]"
proof -
  have e: "on_message 300 10 demo_host 9 (Some (hello_msg demo_token)) sc7c = sc_back"
    by (simp add: sc_back_def)
  have r: "reachable 300 sc7c"
    unfolding sc7c_def apply_event.simps
    by (rule reachable_connection[OF reachable_sc7]) (simp add: sc7_eq)
  have a1: "conns sc7c 9 = Some demo_conn9" by (simp add: sc7c_eq demo_conn9_def)
  have a2: "9 \<in> open_ws sc7c" by (simp add: sc7c_eq)
  have a3: "map_of (sessions sc7c) demo_token = Some demo_session"
    by (simp add: sc7c_eq demo_session_def)
  have a4: "s_peerId demo_session = demo_host" by (simp add: demo_session_def)
  have a5: "host_of sc6 demo_room = Some demo_host" by (simp add: sc6_eq host_of_def)
  have a6: "getRoomMembers sc6 demo_room = [demo_member]" by (simp add: sc6_eq getRoomMembers_def)
  have a7: "sc7c = on_connection ''10.0.0.1'' 9 (on_close 4 7 sc6)" by (simp add: sc7c_def sc7_def)
  have a8: "hostless sc7c demo_room" by (simp add: sc7c_eq hostless_def)
  have a9: "armed sc7c demo_room 0 30004" by (simp add: sc7c_eq armed_def)
  have a10: "getRoomMembers sc7c demo_room = [demo_member]" by (simp add: sc7c_eq getRoomMembers_def)
  have b1: "host_of (on_message 300 10 demo_host 9 (Some (hello_msg demo_token)) sc7c) demo_room =
     Some demo_host"
    unfolding e by (simp add: sc_back_eq host_of_def)
  have b2: "unarmed (on_message 300 10 demo_host 9 (Some (hello_msg demo_token)) sc7c) demo_room"
    unfolding e by (simp add: sc_back_eq unarmed_def)
  have b3: "getRoomMembers (on_message 300 10 demo_host 9 (Some (hello_msg demo_token)) sc7c) demo_room =
     [demo_member, demo_host]"
    unfolding e by (simp add: sc_back_eq getRoomMembers_def)
  have b4: "outbox (on_message 300 10 demo_host 9 (Some (hello_msg demo_token)) sc7c) =
     outbox sc7c @ [(9, PeerIdRestored demo_host (Some demo_room)),
                    (8, HostReconnected demo_room demo_host),
                    (9, HostReconnected demo_room demo_host)]"
    unfolding e by (simp add: sc_back_eq sc7c_eq)
  show ?thesis
    by (intro conjI) (fact r a1 a2 a3 a4 a5 a6 a7 a8 a9 a10 b1 b2 b3 b4)+
qed

section \<open>The single-host invariant\<close>

text \<open>
  C1. A room record has one \<open>hostPeerId\<close>, so in every reachable state two identities that
  are both recorded as host of the same room and both live in the registry are the same
  identity. And whenever an event makes \<open>p\<close> the recorded host of a room that did not
  record \<open>p\<close> before, the event is a message (register-host, claim-host, or the hello
  that restores a session) and the room had no live host recorded in the state the
  message arrived in: the handlers write the host only after they have found the room
  absent, its recorded host not a live peer, or no host recorded.
\<close>

theorem single_live_host:
  assumes "reachable ttl s"
  shows "(\<forall>r p q. host_of s r = Some p \<and> live s p \<and> host_of s r = Some q \<and> live s q \<longrightarrow> p = q)
       \<and> (\<forall>e r p. host_of (apply_event ttl e s) r = Some p \<and> host_of s r \<noteq> Some p \<longrightarrow>
             \<not> live_host s r \<and> (\<exists>w now fresh dat. e = Message w now fresh dat))"
proof -
  have ok: "registry_ok s" using reachable_invariants[OF assms] by simp
  have inst: "\<not> live_host s r \<and> (\<exists>w now fresh dat. e = Message w now fresh dat)"
    if h: "host_of (apply_event ttl e s) r = Some p" and n: "host_of s r \<noteq> Some p" for e r p
  proof
    show "\<not> live_host s r" using host_step[OF ok h] n by simp
    show "\<exists>w now fresh dat. e = Message w now fresh dat"
    proof (cases e)
      case (Message w now fresh dat)
      then show ?thesis by blast
    next
      case (Connection ip w)
      then show ?thesis using h n by simp
    next
      case (Close w now)
      then show ?thesis using h n host_on_close[of now w s r p] by simp
    next
      case (Drop w)
      then show ?thesis using h n by simp
    next
      case (Timeout t now)
      then show ?thesis using h n host_on_timeout[of t s r p] by simp
    next
      case (RateSweep now)
      then show ?thesis using h n by (simp add: sweep_rates_def host_of_def)
    next
      case (SessionSweep now)
      then show ?thesis using h n by simp
    qed
  qed
  show ?thesis using inst by auto
qed

theorem single_live_host_witness:
  "reachable 300 sc7 \<and> host_of sc7 demo_room \<noteq> Some demo_member \<and>
   host_of (apply_event 300 (Message 8 5 demo_host (Some (room_msg ''claim-host'' demo_room))) sc7)
     demo_room = Some demo_member \<and>
   \<not> live_host sc7 demo_room \<and>
   reachable 300 sc6 \<and> host_of sc6 demo_room = Some demo_host \<and> live sc6 demo_host \<and>
   host_of (apply_event 300 (Message 8 5 demo_host (Some (room_msg ''claim-host'' demo_room))) sc6)
     demo_room = Some demo_host"
proof -
  have a: "host_of sc7 demo_room \<noteq> Some demo_member" by (simp add: sc7_eq host_of_def)
  have b: "host_of (apply_event 300 (Message 8 5 demo_host (Some (room_msg ''claim-host'' demo_room))) sc7)
     demo_room = Some demo_member"
    unfolding sc8_def[symmetric] by (simp add: sc8_eq host_of_def)
  note t = single_live_host[OF reachable_sc7]
  have c: "\<not> live_host sc7 demo_room" using t a b by blast
  have d: "host_of sc6 demo_room = Some demo_host" by (simp add: sc6_eq host_of_def)
  have e: "live sc6 demo_host" by (simp add: sc6_eq live_def)
  have f: "live_host sc6 demo_room" using d e by (simp add: live_host_def)
  note t' = single_live_host[OF reachable_sc6]
  have g: "host_of (apply_event 300 (Message 8 5 demo_host (Some (room_msg ''claim-host'' demo_room))) sc6)
     demo_room = Some demo_host"
  proof -
    let ?s = "apply_event 300 (Message 8 5 demo_host (Some (room_msg ''claim-host'' demo_room))) sc6"
    have "host_of ?s demo_room = host_of sc6 demo_room"
      by (simp add: sc6_eq model_defs host_of_def del: isValidRoomId.simps)
    then show ?thesis using d by simp
  qed
  show ?thesis
    by (intro conjI) (fact reachable_sc7 reachable_sc6 a b c d e g)+
qed

section \<open>Host migration and the grace period\<close>

text \<open>
  C3. In every reachable state, for every room:

  \<^item> when the transport of the room's host closes and the host's peer record names this
    room (a peer record names one room, the last the peer registered, claimed or
    joined), the room is left without a host, its members are kept, and a cleanup timer
    is armed for it, due \<open>ROOM_CLEANUP_DELAY\<close> later; a room that the peer record of the
    closing transport's identity does not name keeps its record and its timer as they
    are;

  \<^item> while the room is hostless and its timer \<open>t\<close> is still to fire, a claim-host request
    for the room (valid room id, authenticated open connection, message within the
    rate limit) makes the caller the host and is answered with \<open>claim-host-success\<close>; the
    timer is cleared and forgotten, so that no timer that is still to fire belongs to the
    room; and no \<open>room-closed\<close> is sent for the room by any run of events from there in
    which the room keeps a host;

  \<^item> if instead a run of events does not contain the firing of \<open>t\<close> and leaves the room
    without a host after each event, then the room is still hostless and armed with \<open>t\<close>
    at the end of this run, no \<open>room-closed\<close> was sent for it meanwhile, the firing of \<open>t\<close> is
    enabled from its due time on, and the firing deletes the room record and sends
    \<open>room-closed\<close> through the Transport Registry: to every member of the room whose
    registered transport is open.

  And in any state at all, reachable or not, the firing of a timer queued for a room
  re-checks the room: if the room is hostless, its members are notified and the record and
  the remembered timer are deleted; otherwise nothing changes but the timer's leaving the
  queue.
\<close>

theorem host_migration_grace_period:
  assumes "reachable ttl s"
  shows
   "(conns s w = Some c \<and> c_peerId c = Some h \<and> h \<noteq> [] \<and> peers s h = Some pr \<and>
     p_roomId pr = Some r \<and> r \<noteq> [] \<and> host_of s r = Some h \<longrightarrow>
       hostless (on_close now w s) r \<and>
       armed (on_close now w s) r (nextTimer s) (now + ROOM_CLEANUP_DELAY) \<and>
       getRoomMembers (on_close now w s) r = getRoomMembers s r)
    \<and> (armed s r t due \<and> hostless s r \<and>
        conns s w = Some c \<and> c_peerId c = Some p \<and> p \<noteq> [] \<and>
        fst (checkRateLimit now p s) \<and> w \<in> open_ws s \<and>
        msg_type m = Some (lit ''claim-host'') \<and>
        field m (lit ''roomId'') = Some (JStr r) \<and> isValidRoomId (Some (JStr r)) \<longrightarrow>
       host_of (on_message ttl now fresh w (Some m) s) r = Some p \<and>
       outbox (on_message ttl now fresh w (Some m) s) = outbox s @ [(w, ClaimHostSuccess r)] \<and>
       cleanupTimers (on_message ttl now fresh w (Some m) s) r = None \<and>
       timerQueue (on_message ttl now fresh w (Some m) s) t = None \<and>
       unarmed (on_message ttl now fresh w (Some m) s) r \<and>
       (\<forall>es. keeps_hosts ttl r es (on_message ttl now fresh w (Some m) s) \<longrightarrow>
          closed_msgs (run ttl es (on_message ttl now fresh w (Some m) s)) r = closed_msgs s r))
    \<and> (armed s r t due \<and> hostless s r \<and> nobody_claims ttl r t es s \<longrightarrow>
       armed (run ttl es s) r t due \<and> hostless (run ttl es s) r \<and>
       closed_msgs (run ttl es s) r = closed_msgs s r \<and>
       (\<forall>now'. due \<le> now' \<longrightarrow> enabled (Timeout t now') (run ttl es s)) \<and>
       rooms (on_timeout t (run ttl es s)) r = None \<and>
       outbox (on_timeout t (run ttl es s)) =
         outbox (run ttl es s) @
         deliveries (run ttl es s) (getRoomMembers (run ttl es s) r)
           (RoomClosed r ''Host did not return''))
    \<and> (timerQueue s' t' = Some (r', due') \<longrightarrow>
       (hostless s' r' \<longrightarrow>
          rooms (on_timeout t' s') r' = None \<and>
          cleanupTimers (on_timeout t' s') r' = None \<and>
          outbox (on_timeout t' s') =
            outbox s' @ deliveries s' (getRoomMembers s' r') (RoomClosed r' ''Host did not return'')) \<and>
       (\<not> hostless s' r' \<longrightarrow>
          on_timeout t' s' = s'\<lparr>timerQueue := (timerQueue s')(t' := None)\<rparr>))
    \<and> (conns s w = Some c \<and> c_peerId c = Some h \<and>
        (\<forall>pr. peers s h = Some pr \<longrightarrow> p_roomId pr \<noteq> Some r) \<longrightarrow>
       rooms (on_close now w s) r = rooms s r \<and>
       cleanupTimers (on_close now w s) r = cleanupTimers s r)"
proof -
  have inv: "registry_ok s" "timers_ok s" using reachable_invariants[OF assms] by simp_all
  have A: "hostless (on_close now w s) r \<and>
       armed (on_close now w s) r (nextTimer s) (now + ROOM_CLEANUP_DELAY) \<and>
       getRoomMembers (on_close now w s) r = getRoomMembers s r"
    if "conns s w = Some c" "c_peerId c = Some h" "h \<noteq> []" "peers s h = Some pr"
      "p_roomId pr = Some r" "r \<noteq> []" "host_of s r = Some h"
    using on_close_host[OF that, of now] by simp
  have B: "host_of (on_message ttl now fresh w (Some m) s) r = Some p \<and>
       outbox (on_message ttl now fresh w (Some m) s) = outbox s @ [(w, ClaimHostSuccess r)] \<and>
       cleanupTimers (on_message ttl now fresh w (Some m) s) r = None \<and>
       timerQueue (on_message ttl now fresh w (Some m) s) t = None \<and>
       unarmed (on_message ttl now fresh w (Some m) s) r \<and>
       (\<forall>es. keeps_hosts ttl r es (on_message ttl now fresh w (Some m) s) \<longrightarrow>
          closed_msgs (run ttl es (on_message ttl now fresh w (Some m) s)) r = closed_msgs s r)"
    if h: "armed s r t due" "hostless s r" "conns s w = Some c" "c_peerId c = Some p" "p \<noteq> []"
      "fst (checkRateLimit now p s)" "w \<in> open_ws s" "msg_type m = Some (lit ''claim-host'')"
      "field m (lit ''roomId'') = Some (JStr r)" "isValidRoomId (Some (JStr r))"
  proof -
    let ?a = "admitted now p (c_sessionToken c) s"
    let ?s' = "on_message ttl now fresh w (Some m) s"
    have op: "w \<in> open_ws ?a" using h(7) by simp
    have cl: "?s' = claim_host now w p (c_sessionToken c) (getPeer ?a p) m ?a"
      using h(3-6,8) by (simp add: on_message_routed route_simps)
    have ac: "?s' = active now w p (c_sessionToken c) (lit ''claim-host'') m s"
      using h(3-5,8) by (simp add: on_message_active)
    have al: "claim_allowed ?a r" using hostless_claim_allowed[OF inv(1) h(2)] by simp
    have ct: "cleanupTimers ?a r = Some t" using h(1) by (simp add: armed_def)
    note k = claim_host_ok[OF h(9,10) al op, where now = now and p = p
        and st = "c_sessionToken c" and pr = "getPeer ?a p"]
    have r': "registry_ok ?s'" unfolding ac using inv(1) h(5) by (rule registry_ok_active)
    have t': "timers_ok ?s'" using inv(2) by (rule timers_ok_on_message)
    have k1: "host_of ?s' r = Some p" using k(2) by (simp add: cl)
    have k2: "outbox ?s' = outbox s @ [(w, ClaimHostSuccess r)]" using k(1) by (simp add: cl)
    have k3: "cleanupTimers ?s' r = None" using k(3) by (simp add: cl)
    have k4: "timerQueue ?s' t = None" using k(4)[OF ct] by (simp add: cl)
    have k5: "unarmed ?s' r" using t' k3 by (simp add: unarmed_view room_view_def)
    have k6: "closed_msgs (run ttl es ?s') r = closed_msgs s r" if "keeps_hosts ttl r es ?s'" for es
      using keeps_hosts_run[OF r' t' k5 that] by simp
    show ?thesis using k1 k2 k3 k4 k5 k6 by blast
  qed
  have D1: "rooms (on_timeout t' s') r' = None \<and>
          cleanupTimers (on_timeout t' s') r' = None \<and>
          outbox (on_timeout t' s') =
            outbox s' @ deliveries s' (getRoomMembers s' r') (RoomClosed r' ''Host did not return'')"
    if "timerQueue s' t' = Some (r', due')" "hostless s' r'" for s' t' r' due'
    using on_timeout_hostless[OF that] by simp
  have C: "armed (run ttl es s) r t due \<and> hostless (run ttl es s) r \<and>
       closed_msgs (run ttl es s) r = closed_msgs s r \<and>
       (\<forall>now'. due \<le> now' \<longrightarrow> enabled (Timeout t now') (run ttl es s)) \<and>
       rooms (on_timeout t (run ttl es s)) r = None \<and>
       outbox (on_timeout t (run ttl es s)) =
         outbox (run ttl es s) @
         deliveries (run ttl es s) (getRoomMembers (run ttl es s) r)
           (RoomClosed r ''Host did not return'')"
    if h: "armed s r t due" "hostless s r" "nobody_claims ttl r t es s"
  proof -
    note n = nobody_claims_run[OF inv h]
    have q: "timerQueue (run ttl es s) t = Some (r, due)" using n by (simp add: armed_def)
    have en: "\<forall>now'. due \<le> now' \<longrightarrow> enabled (Timeout t now') (run ttl es s)"
      using q by simp
    have hl: "hostless (run ttl es s) r" using n by simp
    show ?thesis using n en D1[OF q hl] by simp
  qed
  have D2: "on_timeout t' s' = s'\<lparr>timerQueue := (timerQueue s')(t' := None)\<rparr>"
    if "timerQueue s' t' = Some (r', due')" "\<not> hostless s' r'"
    using on_timeout_hosted[OF that] .
  have E: "rooms (on_close now w s) r = rooms s r \<and>
       cleanupTimers (on_close now w s) r = cleanupTimers s r"
    if "conns s w = Some c" "c_peerId c = Some h"
      "\<forall>pr. peers s h = Some pr \<longrightarrow> p_roomId pr \<noteq> Some r"
    using on_close_other_room[OF that, of now] by simp
  show ?thesis
    apply (intro conjI)
    subgoal using A by blast
    subgoal using B by blast
    subgoal using C by blast
    subgoal using D1 D2 by blast
    subgoal using E by blast
    done
qed

theorem host_migration_grace_period_witness:
  "reachable 300 sc6 \<and> host_of sc6 demo_room = Some demo_host \<and> conns sc6 7 = Some demo_conn \<and>
   hostless (on_close 4 7 sc6) demo_room \<and> armed (on_close 4 7 sc6) demo_room 0 30004 \<and>
   reachable 300 sc7 \<and> hostless sc7 demo_room \<and> armed sc7 demo_room 0 30004 \<and>
   conns sc7 8 = Some member_conn \<and> fst (checkRateLimit 5 demo_member sc7) \<and> 8 \<in> open_ws sc7 \<and>
   host_of (on_message 300 5 demo_host 8 (Some (room_msg ''claim-host'' demo_room)) sc7) demo_room =
     Some demo_member \<and>
   unarmed (on_message 300 5 demo_host 8 (Some (room_msg ''claim-host'' demo_room)) sc7) demo_room \<and>
   keeps_hosts 300 demo_room [RateSweep 20000, SessionSweep 25000]
     (on_message 300 5 demo_host 8 (Some (room_msg ''claim-host'' demo_room)) sc7) \<and>
   closed_msgs (run 300 [RateSweep 20000, SessionSweep 25000]
     (on_message 300 5 demo_host 8 (Some (room_msg ''claim-host'' demo_room)) sc7)) demo_room = [] \<and>
   nobody_claims 300 demo_room 0 [RateSweep 20000, SessionSweep 25000] sc7 \<and>
   hostless (run 300 [RateSweep 20000, SessionSweep 25000] sc7) demo_room \<and>
   armed (run 300 [RateSweep 20000, SessionSweep 25000] sc7) demo_room 0 30004 \<and>
   enabled (Timeout 0 30004) (run 300 [RateSweep 20000, SessionSweep 25000] sc7) \<and>
   rooms (on_timeout 0 (run 300 [RateSweep 20000, SessionSweep 25000] sc7)) demo_room = None \<and>
   timerQueue sc7 0 = Some (demo_room, 30004) \<and>
   outbox (on_timeout 0 sc7) = outbox sc7 @ [(8, RoomClosed demo_room ''Host did not return'')] \<and>
   timerQueue (setRoom demo_room (Some demo_member) None sc7) 0 = Some (demo_room, 30004) \<and>
   \<not> hostless (setRoom demo_room (Some demo_member) None sc7) demo_room \<and>
   on_timeout 0 (setRoom demo_room (Some demo_member) None sc7) =
     (setRoom demo_room (Some demo_member) None sc7)
       \<lparr>timerQueue := (timerQueue (setRoom demo_room (Some demo_member) None sc7))(0 := None)\<rparr> \<and>
   reachable 300 sc_two \<and> conns sc_two 7 = Some demo_conn \<and>
   map_option p_roomId (peers sc_two demo_host) = Some (Some other_room) \<and>
   rooms (on_close 6 7 sc_two) demo_room = rooms sc_two demo_room \<and>
   cleanupTimers (on_close 6 7 sc_two) demo_room = cleanupTimers sc_two demo_room"
proof -
  let ?es = "[RateSweep 20000, SessionSweep 25000]"
  let ?m = "room_msg ''claim-host'' demo_room"
  let ?X = "on_message 300 5 demo_host 8 (Some ?m) sc7"
  let ?S = "setRoom demo_room (Some demo_member) None sc7"
  let ?pr = "\<lparr>p_roomId = Some demo_room, p_ip = Some ''10.0.0.1'', p_sessionToken = Some demo_token\<rparr>"
  have a1: "conns sc6 7 = Some demo_conn" by (simp add: sc6_eq demo_conn_def)
  have a2: "c_peerId demo_conn = Some demo_host" by (simp add: demo_conn_def)
  have a3: "demo_host \<noteq> []" by simp
  have a4: "peers sc6 demo_host = Some ?pr" by (simp add: sc6_eq)
  have a5: "p_roomId ?pr = Some demo_room" by simp
  have a6: "demo_room \<noteq> []" by simp
  have a7: "host_of sc6 demo_room = Some demo_host" by (simp add: sc6_eq host_of_def)
  have n6: "nextTimer sc6 = 0" by (simp add: sc6_eq)
  have b1: "armed sc7 demo_room 0 30004" by (simp add: armed_def sc7_eq)
  have b2: "hostless sc7 demo_room" by (simp add: hostless_def sc7_eq)
  have b3: "conns sc7 8 = Some member_conn" by (simp add: sc7_eq member_conn_def)
  have b4: "c_peerId member_conn = Some demo_member" by (simp add: member_conn_def)
  have b5: "demo_member \<noteq> []" by simp
  have b6: "fst (checkRateLimit 5 demo_member sc7)"
    by (simp add: sc7_eq checkRateLimit_def windowMs_def maxMessages_def)
  have b7: "8 \<in> open_ws sc7" by (simp add: sc7_eq)
  have b8: "msg_type ?m = Some (lit ''claim-host'')" by simp
  have b9: "field ?m (lit ''roomId'') = Some (JStr demo_room)" by simp
  have b10: "isValidRoomId (Some (JStr demo_room))" by (rule demo_valid)
  have h7: "host_of sc7 demo_room = None" by (simp add: sc7_eq host_of_def)
  have c7: "closed_msgs sc7 demo_room = []" by (simp add: sc7_eq closed_msgs_def)
  have kh: "keeps_hosts 300 demo_room ?es ?X" by (simp add: sweep_rates_def)
  have nc: "nobody_claims 300 demo_room 0 ?es sc7" by (simp add: sweep_rates_def h7)
  have q7: "timerQueue sc7 0 = Some (demo_room, 30004)" by (simp add: sc7_eq)
  have d7: "deliveries sc7 (getRoomMembers sc7 demo_room) (RoomClosed demo_room ''Host did not return'') =
            [(8, RoomClosed demo_room ''Host did not return'')]"
    by (simp add: sc7_eq deliveries_def getRoomMembers_def)
  have qS: "timerQueue ?S 0 = Some (demo_room, 30004)" using q7 by simp
  have hS: "\<not> hostless ?S demo_room" by (simp add: hostless_def rooms_setRoom split: option.splits)
  note t6 = host_migration_grace_period[OF reachable_sc6, where w = 7 and c = demo_conn
      and h = demo_host and pr = ?pr and r = demo_room and now = 4]
  note t7 = host_migration_grace_period[OF reachable_sc7, where w = 8 and c = member_conn
      and p = demo_member and r = demo_room and now = 5 and m = ?m and t = 0 and due = 30004
      and fresh = demo_host and es = ?es and s' = sc7 and t' = 0 and r' = demo_room
      and due' = 30004]
  note tS = host_migration_grace_period[OF reachable_sc7, where s' = ?S and t' = 0
      and r' = demo_room and due' = 30004]
  note A = mp[OF conjunct1[OF t6]]
  note B = mp[OF conjunct1[OF conjunct2[OF t7]]]
  note C = mp[OF conjunct1[OF conjunct2[OF conjunct2[OF t7]]]]
  note D = mp[OF conjunct1[OF conjunct2[OF conjunct2[OF conjunct2[OF t7]]]]]
  note DS = mp[OF conjunct1[OF conjunct2[OF conjunct2[OF conjunct2[OF tS]]]]]
  have e1: "conns sc_two 7 = Some demo_conn" by (simp add: sc_two_eq demo_conn_def)
  have e2: "map_option p_roomId (peers sc_two demo_host) = Some (Some other_room)"
    by (simp add: sc_two_eq)
  have e3: "\<forall>pr. peers sc_two demo_host = Some pr \<longrightarrow> p_roomId pr \<noteq> Some demo_room"
    using e2 by auto
  note t2 = host_migration_grace_period[OF reachable_sc_two, where w = 7 and c = demo_conn
      and h = demo_host and r = demo_room and now = 6]
  note rE = mp[OF conjunct2[OF conjunct2[OF conjunct2[OF conjunct2[OF t2]]]] conjI[OF e1 conjI[OF a2 e3]]]
  have r11: "rooms (on_close 6 7 sc_two) demo_room = rooms sc_two demo_room"
    using rE by (rule conjunct1)
  have r12: "cleanupTimers (on_close 6 7 sc_two) demo_room = cleanupTimers sc_two demo_room"
    using rE by (rule conjunct2)
  have hA: "conns sc6 7 = Some demo_conn \<and> c_peerId demo_conn = Some demo_host \<and> demo_host \<noteq> [] \<and>
      peers sc6 demo_host = Some ?pr \<and> p_roomId ?pr = Some demo_room \<and> demo_room \<noteq> [] \<and>
      host_of sc6 demo_room = Some demo_host"
    by (intro conjI) (fact a1 a2 a3 a4 a5 a6 a7)+
  have hB: "armed sc7 demo_room 0 30004 \<and> hostless sc7 demo_room \<and>
      conns sc7 8 = Some member_conn \<and> c_peerId member_conn = Some demo_member \<and> demo_member \<noteq> [] \<and>
      fst (checkRateLimit 5 demo_member sc7) \<and> 8 \<in> open_ws sc7 \<and>
      msg_type ?m = Some (lit ''claim-host'') \<and>
      field ?m (lit ''roomId'') = Some (JStr demo_room) \<and> isValidRoomId (Some (JStr demo_room))"
    by (intro conjI) (fact b1 b2 b3 b4 b5 b6 b7 b8 b9 b10)+
  have hC: "armed sc7 demo_room 0 30004 \<and> hostless sc7 demo_room \<and> nobody_claims 300 demo_room 0 ?es sc7"
    by (intro conjI) (fact b1 b2 nc)+
  note rA = A[OF hA]
  note rB = B[OF hB]
  note rC = C[OF hC]
  note rD = mp[OF conjunct1[OF D[OF q7]] b2]
  note rS = mp[OF conjunct2[OF DS[OF qS]] hS]
  have r1: "hostless (on_close 4 7 sc6) demo_room" using rA by (rule conjunct1)
  have r2: "armed (on_close 4 7 sc6) demo_room 0 30004"
    using conjunct1[OF conjunct2[OF rA]] by (simp add: n6 ROOM_CLEANUP_DELAY_def)
  have r3: "host_of ?X demo_room = Some demo_member" using rB by (rule conjunct1)
  have r4: "unarmed ?X demo_room"
    using rB by (elim conjE)
  have r5: "closed_msgs (run 300 ?es ?X) demo_room = closed_msgs sc7 demo_room"
    using rB kh by (elim conjE) blast
  have r5': "closed_msgs (run 300 ?es ?X) demo_room = []" using r5 c7 by simp
  have r6: "hostless (run 300 ?es sc7) demo_room" using rC by (elim conjE)
  have r7: "armed (run 300 ?es sc7) demo_room 0 30004" using rC by (elim conjE)
  have r8: "enabled (Timeout 0 30004) (run 300 ?es sc7)" using rC by (elim conjE) blast
  have r9: "rooms (on_timeout 0 (run 300 ?es sc7)) demo_room = None" using rC by (elim conjE)
  have r10: "outbox (on_timeout 0 sc7) = outbox sc7 @ [(8, RoomClosed demo_room ''Host did not return'')]"
    using conjunct2[OF conjunct2[OF rD]] unfolding d7 .
  show ?thesis
    by (intro conjI)
      (fact reachable_sc6 a7 a1 r1 r2 reachable_sc7 b2 b1 b3 b6 b7 r3 r4 kh r5' nc r6 r7 r8 r9 q7 r10
        qS hS rS reachable_sc_two e1 e2 r11 r12)+
qed

text \<open>
  The claim as it is written, for every room whose host disconnects and for every
  remaining member, fails twice. In \<open>sc_two\<close> the host of \<open>abcd1234\<close> has registered a second
  room, which its peer record now names; when its transport closes and the only timer
  armed has fired, \<open>abcd1234\<close> still records the departed host, no timer is or was armed
  for it, its record is still there and no \<open>room-closed\<close> was sent. In \<open>sc_mlost\<close> the member
  has come back on socket 9 and the close handler of its old socket has deleted its
  registry entry: the member is listed, its socket is open, the timer fires and deletes
  the room, and nothing is sent.
\<close>

theorem host_disconnect_without_cleanup:
  "reachable 300 sc_two \<and> host_of sc_two demo_room = Some demo_host \<and>
   conns sc_two 7 = Some demo_conn \<and> c_peerId demo_conn = Some demo_host \<and>
   sc_two_gone = on_close 6 7 sc_two \<and>
   wsConnections sc_two_gone demo_host = None \<and> peers sc_two_gone demo_host = None \<and>
   host_of sc_two_gone demo_room = Some demo_host \<and> \<not> hostless sc_two_gone demo_room \<and>
   unarmed sc_two_gone demo_room \<and> outbox sc_two_gone = outbox sc_two \<and>
   reachable 300 sc_two_late \<and> sc_two_late = on_timeout 0 sc_two_gone \<and>
   timerQueue sc_two_gone 0 = Some (other_room, 6 + ROOM_CLEANUP_DELAY) \<and>
   rooms sc_two_late demo_room = Some first_room \<and> unarmed sc_two_late demo_room \<and>
   closed_msgs sc_two_late demo_room = [] \<and>
   reachable 300 sc_mlost \<and> hostless sc_mlost demo_room \<and> armed sc_mlost demo_room 0 30012 \<and>
   getRoomMembers sc_mlost demo_room = [demo_member] \<and>
   conns sc_mlost 9 = Some member_conn \<and> 9 \<in> open_ws sc_mlost \<and>
   rooms (on_timeout 0 sc_mlost) demo_room = None \<and>
   outbox (on_timeout 0 sc_mlost) = outbox sc_mlost"
proof -
  have c1: "host_of sc_two demo_room = Some demo_host" by (simp add: sc_two_eq host_of_def)
  have c2: "conns sc_two 7 = Some demo_conn" by (simp add: sc_two_eq demo_conn_def)
  have c3: "c_peerId demo_conn = Some demo_host" by (simp add: demo_conn_def)
  have c4: "sc_two_gone = on_close 6 7 sc_two" by (simp add: sc_two_gone_def)
  have c5: "wsConnections sc_two_gone demo_host = None" by (simp add: sc_two_gone_eq)
  have c6: "peers sc_two_gone demo_host = None" by (simp add: sc_two_gone_eq)
  have c7: "host_of sc_two_gone demo_room = Some demo_host" by (simp add: sc_two_gone_eq host_of_def)
  have c8: "\<not> hostless sc_two_gone demo_room" by (simp add: sc_two_gone_eq hostless_def)
  have c9: "unarmed sc_two_gone demo_room" by (simp add: sc_two_gone_eq unarmed_def)
  have c10: "outbox sc_two_gone = outbox sc_two" by (simp add: sc_two_gone_eq sc_two_eq)
  have c11: "sc_two_late = on_timeout 0 sc_two_gone" by (simp add: sc_two_late_def)
  have c12: "timerQueue sc_two_gone 0 = Some (other_room, 6 + ROOM_CLEANUP_DELAY)"
    by (simp add: sc_two_gone_eq ROOM_CLEANUP_DELAY_def)
  have c13: "rooms sc_two_late demo_room = Some first_room"
    by (simp add: sc_two_late_eq first_room_def)
  have c14: "unarmed sc_two_late demo_room" by (simp add: sc_two_late_eq unarmed_def)
  have c15: "closed_msgs sc_two_late demo_room = []" by (simp add: sc_two_late_eq closed_msgs_def)
  have m1: "hostless sc_mlost demo_room" by (simp add: sc_mlost_eq hostless_def)
  have m2: "armed sc_mlost demo_room 0 30012" by (simp add: sc_mlost_eq armed_def)
  have m3: "getRoomMembers sc_mlost demo_room = [demo_member]"
    by (simp add: sc_mlost_eq getRoomMembers_def)
  have m4: "conns sc_mlost 9 = Some member_conn" by (simp add: sc_mlost_eq member_conn_def)
  have m5: "9 \<in> open_ws sc_mlost" by (simp add: sc_mlost_eq)
  have m6: "rooms (on_timeout 0 sc_mlost) demo_room = None"
    using sc_mclosed_eq by (simp add: sc_mclosed_def)
  have m7: "outbox (on_timeout 0 sc_mlost) = outbox sc_mlost"
    using sc_mclosed_eq by (simp add: sc_mclosed_def sc_mlost_eq)
  show ?thesis
    by (intro conjI)
      (fact reachable_sc_two c1 c2 c3 c4 c5 c6 c7 c8 c9 c10 reachable_sc_two_late c11 c12 c13 c14
        c15 reachable_sc_mlost m1 m2 m3 m4 m5 m6 m7)+
qed

end
